theory Spec2Isabelle
  imports Main "HOL-Library.Multiset" "HOL-Library.AList" "HOL-Library.Sublist"
begin

unbundle bit_operations_syntax

section \<open>The plugin host of pkg/resource/plugin/host.go\<close>

subsection \<open>Data\<close>

text \<open>
  A plugin client (the Go interfaces \<open>Analyzer\<close>, \<open>Provider\<close>, \<open>LanguageRuntime\<close>) is a
  reference to an object that owns a child process. Only its identity matters to the host,
  so a non-nil interface value is a number and a possibly nil one is a \<open>handle option\<close>.
  A Go \<open>error\<close> is its message; \<open>nil\<close> is \<open>None\<close>.
\<close>

type_synonym handle = nat
type_synonym error = string
type_synonym config = "(string \<times> string) list"

text \<open>\<open>errors.Wrapf(err, format, args...)\<close>: the formatted message, a colon, the cause.\<close>

definition Wrapf :: "error \<Rightarrow> string \<Rightarrow> error" where
  "Wrapf err msg = msg @ '': '' @ err"

text \<open>
  \<open>workspace.PluginKind\<close> is a string type with three named constants; any other string is
  a fourth case (\<open>EnsurePlugins\<close> has a default branch for it).
\<close>

datatype PluginKind = AnalyzerPlugin | LanguagePlugin | ResourcePlugin | OtherKind string

text \<open>
  \<open>workspace.PluginInfo\<close>, with the fields host.go reads. The version type \<open>'v\<close> is
  \<open>semver.Version\<close> of a third-party package: it stays a type parameter, and its two
  methods the host calls (\<open>GTE\<close>, \<open>String\<close>) are parameters of the environment below.
\<close>

record 'v PluginInfo =
  Name :: string
  Kind :: PluginKind
  Version :: "'v option"

text \<open>
  The structs \<open>analyzerPlugin\<close>, \<open>languagePlugin\<close> and \<open>resourcePlugin\<close> have the same two
  fields. The three maps only ever receive pointers to freshly built structs with a non-nil
  \<open>Plugin\<close> (lines 177, 253, 287), so a map value is the struct itself and the
  \<open>contract.Assert(plug != nil)\<close> after each lookup cannot fail.
\<close>

record 'v loadedPlugin =
  Plugin :: handle
  Info :: "'v PluginInfo"

text \<open>\<open>ProgInfo\<close>: of the project, the runtime name and the optional analyzer list.\<close>

record ProgInfo =
  Runtime :: string
  Analyzers :: "string list option"

text \<open>
  Everything the host does to the world outside host.go, in the order it does it, each call
  with the result it got.
\<close>

datatype 'v event =
    CallNewAnalyzer string "handle option" "error option"
  | CallNewProvider string "'v option" "handle option" "error option"
  | CallNewLanguageRuntime string "handle option" "error option"
  | CallGetPluginInfo PluginKind handle "'v PluginInfo" "error option"
  | CallGetPackageConfig string config "error option"
  | CallConfigure handle config "error option"
  | CallOnPluginLoad "'v PluginInfo" "error option"
  | CallWarningf string
  | CallLogf string string string
  | CallPluginClose PluginKind handle "error option"
  | CallInfof string
  | CallLangGetRequiredPlugins handle ProgInfo "'v PluginInfo list" "error option"
  | CloseLoadRequests
  | CallServerCancel "error option"

text \<open>
  The collaborators of the host that are not in host.go, as parameters. Each call may
  depend on everything that happened before it, so each takes the history. \<open>config\<close> and
  \<open>events\<close> are the two injected interfaces that may be nil. \<open>PULUMI_DEV\<close> is
  \<open>cmdutil.IsTruthy(os.Getenv("PULUMI_DEV"))\<close>.
\<close>

record 'v env =
  GTE :: "'v \<Rightarrow> 'v \<Rightarrow> bool"
  VString :: "'v \<Rightarrow> string"
  NewAnalyzer :: "'v event list \<Rightarrow> string \<Rightarrow> handle option \<times> error option"
  NewProvider :: "'v event list \<Rightarrow> string \<Rightarrow> 'v option \<Rightarrow> handle option \<times> error option"
  NewLanguageRuntime :: "'v event list \<Rightarrow> string \<Rightarrow> handle option \<times> error option"
  GetPluginInfo :: "'v event list \<Rightarrow> PluginKind \<Rightarrow> handle \<Rightarrow> 'v PluginInfo \<times> error option"
  config :: "('v event list \<Rightarrow> string \<Rightarrow> config \<times> error option) option"
  Configure :: "'v event list \<Rightarrow> handle \<Rightarrow> config \<Rightarrow> error option"
  events :: "('v event list \<Rightarrow> 'v PluginInfo \<Rightarrow> error option) option"
  PluginClose :: "'v event list \<Rightarrow> PluginKind \<Rightarrow> handle \<Rightarrow> error option"
  LangGetRequiredPlugins :: "'v event list \<Rightarrow> handle \<Rightarrow> ProgInfo \<Rightarrow> 'v PluginInfo list \<times> error option"
  ServerCancel :: "'v event list \<Rightarrow> error option"
  ServerAddress :: string
  PULUMI_DEV :: bool

text \<open>
  \<open>defaultHost\<close>. The three maps are association lists read with \<open>map_of\<close> and written with
  \<open>AList.update\<close> (Go leaves the iteration order of a map open; the list fixes one).
  \<open>loadRequestsClosed\<close> says whether the channel \<open>loadRequests\<close> has been closed, and
  \<open>trace\<close> is the history of outside calls.
\<close>

record 'v host =
  analyzerPlugins :: "(string \<times> 'v loadedPlugin) list"
  languagePlugins :: "(string \<times> 'v loadedPlugin) list"
  resourcePlugins :: "(string \<times> 'v loadedPlugin) list"
  plugins :: "'v PluginInfo list"
  loadRequestsClosed :: bool
  trace :: "'v event list"

text \<open>A call either returns or panics; a panic is not recovered anywhere in host.go.\<close>

datatype 'a outcome = Panic string | Return 'a

definition emit :: "'v event \<Rightarrow> 'v host \<Rightarrow> 'v host" where
  "emit e h = h\<lparr>trace := trace h @ [e]\<rparr>"

subsection \<open>NewDefaultHost\<close>

text \<open>The host as \<open>NewDefaultHost\<close> returns it when the RPC server could be started.\<close>

definition NewDefaultHost :: "'v host" where
  "NewDefaultHost =
     \<lparr>analyzerPlugins = [], languagePlugins = [], resourcePlugins = [], plugins = [],
      loadRequestsClosed = False, trace = []\<rparr>"

definition ServerAddr :: "'v env \<Rightarrow> 'v host \<Rightarrow> string" where
  "ServerAddr env h = ServerAddress env"

definition Log :: "string \<Rightarrow> string \<Rightarrow> string \<Rightarrow> 'v host \<Rightarrow> 'v host" where
  "Log sev urn msg h = emit (CallLogf sev urn msg) h"

subsection \<open>loadPlugin\<close>

text \<open>
  \<open>loadPlugin\<close> sends the closure to the one worker goroutine, which runs each closure to
  its end before it receives the next one; so a load is one uninterrupted step on the host.
  Sending on the closed channel panics.
\<close>

definition loadPlugin ::
  "('v host \<Rightarrow> (handle option \<times> error option) \<times> 'v host) \<Rightarrow> 'v host \<Rightarrow>
   (handle option \<times> error option) outcome \<times> 'v host" where
  "loadPlugin load h =
     (if loadRequestsClosed h then (Panic ''send on closed channel'', h)
      else (let (r, h') = load h in (Return r, h')))"

text \<open>The tail of the three methods: \<open>if plugin == nil || err != nil { return nil, err }\<close>.\<close>

definition unwrapPlugin ::
  "(handle option \<times> error option) outcome \<times> 'v host \<Rightarrow>
   (handle option \<times> error option) outcome \<times> 'v host" where
  "unwrapPlugin r =
     (case r of
        (Panic m, h) \<Rightarrow> (Panic m, h)
      | (Return (plugin, err), h) \<Rightarrow>
          (if plugin = None \<or> err \<noteq> None then (Return (None, err), h)
           else (Return (plugin, None), h)))"

subsection \<open>The outside calls, each recorded in the history\<close>

definition callGetPluginInfo ::
  "'v env \<Rightarrow> PluginKind \<Rightarrow> handle \<Rightarrow> 'v host \<Rightarrow> ('v PluginInfo \<times> error option) \<times> 'v host" where
  "callGetPluginInfo env kind plug h =
     (let (info, infoerr) = GetPluginInfo env (trace h) kind plug
      in ((info, infoerr), emit (CallGetPluginInfo kind plug info infoerr) h))"

text \<open>
  \<open>if host.events != nil { if eventerr := host.events.OnPluginLoad(info); eventerr != nil ...\<close>:
  the callback's error, or nil when there is no callback.
\<close>

definition fireOnPluginLoad :: "'v env \<Rightarrow> 'v PluginInfo \<Rightarrow> 'v host \<Rightarrow> error option \<times> 'v host" where
  "fireOnPluginLoad env info h =
     (case events env of
        None \<Rightarrow> (None, h)
      | Some ev \<Rightarrow>
          (let eventerr = ev (trace h) info
           in (eventerr, emit (CallOnPluginLoad info eventerr) h)))"

subsection \<open>Analyzer\<close>

text \<open>Lines 175 to 185: memoize the analyzer, fire the load event, return the plugin.\<close>

definition Analyzer_memoize ::
  "'v env \<Rightarrow> string \<Rightarrow> handle \<Rightarrow> 'v PluginInfo \<Rightarrow> 'v host \<Rightarrow>
   (handle option \<times> error option) \<times> 'v host" where
  "Analyzer_memoize env name plug info h =
     (let h1 = h\<lparr>plugins := plugins h @ [info],
                  analyzerPlugins :=
                    AList.update name \<lparr>Plugin = plug, Info = info\<rparr> (analyzerPlugins h)\<rparr>;
          (eventerr, h2) = fireOnPluginLoad env info h1
      in case eventerr of
           Some e \<Rightarrow> ((None, Some (Wrapf e ''failed to perform plugin load callback'')), h2)
         | None \<Rightarrow> ((Some plug, None), h2))"

text \<open>Lines 170 to 173, then the rest: the body of \<open>if err == nil && plug != nil\<close>.\<close>

definition Analyzer_bind ::
  "'v env \<Rightarrow> string \<Rightarrow> handle \<Rightarrow> 'v host \<Rightarrow> (handle option \<times> error option) \<times> 'v host" where
  "Analyzer_bind env name plug h =
     (let ((info, infoerr), h1) = callGetPluginInfo env AnalyzerPlugin plug h
      in case infoerr of
           Some e \<Rightarrow> ((None, Some e), h1)
         | None \<Rightarrow> Analyzer_memoize env name plug info h1)"

text \<open>The closure that \<open>Analyzer\<close> hands to \<open>loadPlugin\<close>.\<close>

definition Analyzer_load ::
  "'v env \<Rightarrow> string \<Rightarrow> 'v host \<Rightarrow> (handle option \<times> error option) \<times> 'v host" where
  "Analyzer_load env name h =
     (case map_of (analyzerPlugins h) name of
        Some plug \<Rightarrow> ((Some (Plugin plug), None), h)
      | None \<Rightarrow>
          (let (plug, err) = NewAnalyzer env (trace h) name;
               h1 = emit (CallNewAnalyzer name plug err) h
           in if err = None \<and> plug \<noteq> None then Analyzer_bind env name (the plug) h1
              else ((plug, err), h1)))"

definition Analyzer ::
  "'v env \<Rightarrow> string \<Rightarrow> 'v host \<Rightarrow> (handle option \<times> error option) outcome \<times> 'v host" where
  "Analyzer env name h = unwrapPlugin (loadPlugin (Analyzer_load env name) h)"

subsection \<open>Provider\<close>

text \<open>Lines 200 to 210: the error of a cache hit whose version does not satisfy the request.\<close>

definition versionMismatch :: "'v env \<Rightarrow> 'v \<Rightarrow> 'v option \<Rightarrow> error option" where
  "versionMismatch env version cached =
     (case cached of
        None \<Rightarrow>
          Some (''resource plugin version '' @ VString env version @
                '' requested, but an unknown version was found'')
      | Some cv \<Rightarrow>
          (if \<not> GTE env cv version then
             Some (''resource plugin version '' @ VString env version @
                   '' requested, but version '' @ VString env cv @ '' was found'')
           else None))"

text \<open>Lines 226 to 234: the text of the warning when the loaded plugin is older than asked.\<close>

definition versionWarning :: "'v env \<Rightarrow> 'v \<Rightarrow> 'v PluginInfo \<Rightarrow> string" where
  "versionWarning env version info =
     ''resource plugin '' @ Name info @ '' is expected to have version >='' @
     VString env version @ '', but has '' @
     (case Version info of None \<Rightarrow> [] | Some iv \<Rightarrow> VString env iv) @
     ''; the wrong version may be on your path, or this may be a bug in the plugin''"

text \<open>Lines 223 to 236.\<close>

definition warnVersion :: "'v env \<Rightarrow> 'v option \<Rightarrow> 'v PluginInfo \<Rightarrow> 'v host \<Rightarrow> 'v host" where
  "warnVersion env version info h =
     (if version \<noteq> None \<and> \<not> PULUMI_DEV env then
        (if Version info = None \<or> \<not> GTE env (the (Version info)) (the version) then
           emit (CallWarningf (versionWarning env (the version) info)) h
         else h)
      else h)"

text \<open>Lines 240 to 246: the provider's configuration, empty without a configuration source.\<close>

definition getProviderConfig ::
  "'v env \<Rightarrow> string \<Rightarrow> 'v host \<Rightarrow> (config \<times> error option) \<times> 'v host" where
  "getProviderConfig env pkg h =
     (case config env of
        None \<Rightarrow> (([], None), h)
      | Some src \<Rightarrow>
          (let (providerConfig, err) = src (trace h) pkg
           in ((providerConfig, err), emit (CallGetPackageConfig pkg providerConfig err) h)))"

definition callConfigure :: "'v env \<Rightarrow> handle \<Rightarrow> config \<Rightarrow> 'v host \<Rightarrow> error option \<times> 'v host" where
  "callConfigure env plug providerConfig h =
     (let err = Configure env (trace h) plug providerConfig
      in (err, emit (CallConfigure plug providerConfig err) h))"

text \<open>Lines 251 to 261: memoize the provider, fire the load event, return the plugin.\<close>

definition Provider_memoize ::
  "'v env \<Rightarrow> string \<Rightarrow> handle \<Rightarrow> 'v PluginInfo \<Rightarrow> 'v host \<Rightarrow>
   (handle option \<times> error option) \<times> 'v host" where
  "Provider_memoize env pkg plug info h =
     (let h1 = h\<lparr>plugins := plugins h @ [info],
                  resourcePlugins :=
                    AList.update pkg \<lparr>Plugin = plug, Info = info\<rparr> (resourcePlugins h)\<rparr>;
          (eventerr, h2) = fireOnPluginLoad env info h1
      in case eventerr of
           Some e \<Rightarrow> ((None, Some (Wrapf e ''failed to perform plugin load callback'')), h2)
         | None \<Rightarrow> ((Some plug, None), h2))"

text \<open>Lines 238 to 249, then the rest: configure the provider exactly here.\<close>

definition Provider_configure ::
  "'v env \<Rightarrow> string \<Rightarrow> handle \<Rightarrow> 'v PluginInfo \<Rightarrow> 'v host \<Rightarrow>
   (handle option \<times> error option) \<times> 'v host" where
  "Provider_configure env pkg plug info h =
     (let ((providerConfig, err), h1) = getProviderConfig env pkg h
      in case err of
           Some e \<Rightarrow>
             ((None, Some (Wrapf e (''failed to fetch configuration for pkg '' @ [CHR 0x27] @ pkg @
                                     [CHR 0x27] @ '' resource provider''))), h1)
         | None \<Rightarrow>
             (let (err, h2) = callConfigure env plug providerConfig h1
              in case err of
                   Some e \<Rightarrow>
                     ((None, Some (Wrapf e (''failed to configure pkg '' @ [CHR 0x27] @ pkg @
                                             [CHR 0x27] @ '' resource provider''))), h2)
                 | None \<Rightarrow> Provider_memoize env pkg plug info h2))"

text \<open>Lines 218 to 236, then the rest: the body of \<open>if err == nil && plug != nil\<close>.\<close>

definition Provider_bind ::
  "'v env \<Rightarrow> string \<Rightarrow> 'v option \<Rightarrow> handle \<Rightarrow> 'v host \<Rightarrow>
   (handle option \<times> error option) \<times> 'v host" where
  "Provider_bind env pkg version plug h =
     (let ((info, infoerr), h1) = callGetPluginInfo env ResourcePlugin plug h
      in case infoerr of
           Some e \<Rightarrow> ((None, Some e), h1)
         | None \<Rightarrow> Provider_configure env pkg plug info (warnVersion env version info h1))"

text \<open>The closure that \<open>Provider\<close> hands to \<open>loadPlugin\<close>.\<close>

definition Provider_load ::
  "'v env \<Rightarrow> string \<Rightarrow> 'v option \<Rightarrow> 'v host \<Rightarrow> (handle option \<times> error option) \<times> 'v host" where
  "Provider_load env pkg version h =
     (case map_of (resourcePlugins h) pkg of
        Some plug \<Rightarrow>
          (case (if version \<noteq> None then versionMismatch env (the version) (Version (Info plug))
                 else None) of
             Some e \<Rightarrow> ((None, Some e), h)
           | None \<Rightarrow> ((Some (Plugin plug), None), h))
      | None \<Rightarrow>
          (let (plug, err) = NewProvider env (trace h) pkg version;
               h1 = emit (CallNewProvider pkg version plug err) h
           in if err = None \<and> plug \<noteq> None then Provider_bind env pkg version (the plug) h1
              else ((plug, err), h1)))"

definition Provider ::
  "'v env \<Rightarrow> string \<Rightarrow> 'v option \<Rightarrow> 'v host \<Rightarrow>
   (handle option \<times> error option) outcome \<times> 'v host" where
  "Provider env pkg version h = unwrapPlugin (loadPlugin (Provider_load env pkg version) h)"

subsection \<open>LanguageRuntime\<close>

text \<open>Lines 285 to 295: memoize the language runtime, fire the load event, return it.\<close>

definition LanguageRuntime_memoize ::
  "'v env \<Rightarrow> string \<Rightarrow> handle \<Rightarrow> 'v PluginInfo \<Rightarrow> 'v host \<Rightarrow>
   (handle option \<times> error option) \<times> 'v host" where
  "LanguageRuntime_memoize env runtime plug info h =
     (let h1 = h\<lparr>plugins := plugins h @ [info],
                  languagePlugins :=
                    AList.update runtime \<lparr>Plugin = plug, Info = info\<rparr> (languagePlugins h)\<rparr>;
          (eventerr, h2) = fireOnPluginLoad env info h1
      in case eventerr of
           Some e \<Rightarrow> ((None, Some (Wrapf e ''failed to perform plugin load callback'')), h2)
         | None \<Rightarrow> ((Some plug, None), h2))"

text \<open>Lines 280 to 283, then the rest: the body of \<open>if err == nil && plug != nil\<close>.\<close>

definition LanguageRuntime_bind ::
  "'v env \<Rightarrow> string \<Rightarrow> handle \<Rightarrow> 'v host \<Rightarrow> (handle option \<times> error option) \<times> 'v host" where
  "LanguageRuntime_bind env runtime plug h =
     (let ((info, infoerr), h1) = callGetPluginInfo env LanguagePlugin plug h
      in case infoerr of
           Some e \<Rightarrow> ((None, Some e), h1)
         | None \<Rightarrow> LanguageRuntime_memoize env runtime plug info h1)"

text \<open>The closure that \<open>LanguageRuntime\<close> hands to \<open>loadPlugin\<close>.\<close>

definition LanguageRuntime_load ::
  "'v env \<Rightarrow> string \<Rightarrow> 'v host \<Rightarrow> (handle option \<times> error option) \<times> 'v host" where
  "LanguageRuntime_load env runtime h =
     (case map_of (languagePlugins h) runtime of
        Some plug \<Rightarrow> ((Some (Plugin plug), None), h)
      | None \<Rightarrow>
          (let (plug, err) = NewLanguageRuntime env (trace h) runtime;
               h1 = emit (CallNewLanguageRuntime runtime plug err) h
           in if err = None \<and> plug \<noteq> None then LanguageRuntime_bind env runtime (the plug) h1
              else ((plug, err), h1)))"

definition LanguageRuntime ::
  "'v env \<Rightarrow> string \<Rightarrow> 'v host \<Rightarrow> (handle option \<times> error option) outcome \<times> 'v host" where
  "LanguageRuntime env runtime h = unwrapPlugin (loadPlugin (LanguageRuntime_load env runtime) h)"

definition ListPlugins :: "'v host \<Rightarrow> 'v PluginInfo list" where
  "ListPlugins h = plugins h"

subsection \<open>Flags\<close>

text \<open>\<open>type Flags int\<close> with \<open>1 << iota\<close> for the three kinds.\<close>

type_synonym Flags = int

definition AnalyzerPlugins :: Flags where
  "AnalyzerPlugins = push_bit (0::nat) 1"

definition LanguagePlugins :: Flags where
  "LanguagePlugins = push_bit (1::nat) 1"

definition ResourcePlugins :: Flags where
  "ResourcePlugins = push_bit (2::nat) 1"

definition AllPlugins :: Flags where
  "AllPlugins = AnalyzerPlugins OR LanguagePlugins OR ResourcePlugins"

subsection \<open>EnsurePlugins\<close>

text \<open>
  One round of the loop of \<open>EnsurePlugins\<close>: the error to append to the multi-error, if any.
  \<open>contract.Failf\<close> panics.
\<close>

definition ensurePlugin ::
  "'v env \<Rightarrow> 'v PluginInfo \<Rightarrow> Flags \<Rightarrow> 'v host \<Rightarrow> error option outcome \<times> 'v host" where
  "ensurePlugin env plugin kinds h =
     (case Kind plugin of
        AnalyzerPlugin \<Rightarrow>
          (if kinds AND AnalyzerPlugins \<noteq> 0 then
             (case Analyzer env (Name plugin) h of
                (Panic m, h1) \<Rightarrow> (Panic m, h1)
              | (Return (_, Some err), h1) \<Rightarrow>
                  (Return (Some (Wrapf err (''failed to load analyzer plugin '' @ Name plugin))), h1)
              | (Return (_, None), h1) \<Rightarrow> (Return None, h1))
           else (Return None, h))
      | LanguagePlugin \<Rightarrow>
          (if kinds AND LanguagePlugins \<noteq> 0 then
             (case LanguageRuntime env (Name plugin) h of
                (Panic m, h1) \<Rightarrow> (Panic m, h1)
              | (Return (_, Some err), h1) \<Rightarrow>
                  (Return (Some (Wrapf err (''failed to load language plugin '' @ Name plugin))), h1)
              | (Return (_, None), h1) \<Rightarrow> (Return None, h1))
           else (Return None, h))
      | ResourcePlugin \<Rightarrow>
          (if kinds AND ResourcePlugins \<noteq> 0 then
             (case Provider env (Name plugin) (Version plugin) h of
                (Panic m, h1) \<Rightarrow> (Panic m, h1)
              | (Return (_, Some err), h1) \<Rightarrow>
                  (Return (Some (Wrapf err (''failed to load resource plugin '' @ Name plugin))), h1)
              | (Return (_, None), h1) \<Rightarrow> (Return None, h1))
           else (Return None, h))
      | OtherKind k \<Rightarrow> (Panic (''unexpected plugin kind: '' @ k), h))"

text \<open>The loop; \<open>result\<close> is the list of errors of the multi-error (empty for nil).\<close>

fun EnsurePlugins_loop ::
  "'v env \<Rightarrow> 'v PluginInfo list \<Rightarrow> Flags \<Rightarrow> error list \<Rightarrow> 'v host \<Rightarrow>
   error list outcome \<times> 'v host" where
  "EnsurePlugins_loop env [] kinds result h = (Return result, h)"
| "EnsurePlugins_loop env (plugin # rest) kinds result h =
     (case ensurePlugin env plugin kinds h of
        (Panic m, h1) \<Rightarrow> (Panic m, h1)
      | (Return None, h1) \<Rightarrow> EnsurePlugins_loop env rest kinds result h1
      | (Return (Some e), h1) \<Rightarrow> EnsurePlugins_loop env rest kinds (result @ [e]) h1)"

definition EnsurePlugins ::
  "'v env \<Rightarrow> 'v PluginInfo list \<Rightarrow> Flags \<Rightarrow> 'v host \<Rightarrow> error list outcome \<times> 'v host" where
  "EnsurePlugins env plugs kinds h = EnsurePlugins_loop env plugs kinds [] h"

subsection \<open>GetRequiredPlugins\<close>

text \<open>Lines 376 to 387: the analyzers of the project file, then the return.\<close>

definition appendAnalyzers :: "ProgInfo \<Rightarrow> Flags \<Rightarrow> 'v PluginInfo list \<Rightarrow> 'v PluginInfo list" where
  "appendAnalyzers info kinds plugs =
     (if Analyzers info \<noteq> None \<and> kinds AND AnalyzerPlugins \<noteq> 0 then
        plugs @ map (\<lambda>analyzer. \<lparr>Name = analyzer, Kind = AnalyzerPlugin, Version = None\<rparr>)
                  (the (Analyzers info))
      else plugs)"

text \<open>
  \<open>contract.Assertf(cond, msg)\<close> panics when \<open>cond\<close> is false. A method call on a nil
  \<open>LanguageRuntime\<close> (which \<open>host.LanguageRuntime\<close> can return with a nil error) panics too.
\<close>

definition GetRequiredPlugins ::
  "'v env \<Rightarrow> ProgInfo \<Rightarrow> Flags \<Rightarrow> 'v host \<Rightarrow>
   ('v PluginInfo list \<times> error option) outcome \<times> 'v host" where
  "GetRequiredPlugins env info kinds h =
     (if kinds AND LanguagePlugins \<noteq> 0 then
        (case LanguageRuntime env (Runtime info) h of
           (Panic m, h1) \<Rightarrow> (Panic m, h1)
         | (Return (lang, Some err), h1) \<Rightarrow>
             (Return ([], Some (Wrapf err (''failed to load language plugin '' @ Runtime info))), h1)
         | (Return (lang, None), h1) \<Rightarrow>
             (let plugs = [\<lparr>Name = Runtime info, Kind = LanguagePlugin, Version = None\<rparr>]
              in if kinds AND ResourcePlugins \<noteq> 0 then
                   (case lang of
                      None \<Rightarrow> (Panic ''invalid memory address or nil pointer dereference'', h1)
                    | Some l \<Rightarrow>
                        (let (deps, err) = LangGetRequiredPlugins env (trace h1) l info;
                             h2 = emit (CallLangGetRequiredPlugins l info deps err) h1
                         in case err of
                              Some e \<Rightarrow>
                                (Return ([], Some (Wrapf e ''failed to discover plugin requirements'')),
                                 h2)
                            | None \<Rightarrow> (Return (appendAnalyzers info kinds (plugs @ deps), None), h2)))
                 else (Return (appendAnalyzers info kinds plugs, None), h1)))
      else
        (if kinds AND ResourcePlugins \<noteq> 0 then (Return (appendAnalyzers info kinds [], None), h)
         else (Panic ''cannot load resource plugins without also loading the language plugin'', h)))"

subsection \<open>Close\<close>

text \<open>
  One of the three loops of \<open>Close\<close>: close each plugin of a map, log and ignore an error.
\<close>

fun closePlugins ::
  "'v env \<Rightarrow> PluginKind \<Rightarrow> string \<Rightarrow> (string \<times> 'v loadedPlugin) list \<Rightarrow> 'v host \<Rightarrow> 'v host" where
  "closePlugins env kind what [] h = h"
| "closePlugins env kind what ((k, plug) # rest) h =
     (let err = PluginClose env (trace h) kind (Plugin plug);
          h1 = emit (CallPluginClose kind (Plugin plug) err) h;
          h2 = (case err of
                  Some e \<Rightarrow>
                    emit (CallInfof (''Error closing '' @ [CHR 0x27] @ Name (Info plug) @
                                     [CHR 0x27, CHR '' ''] @ what @
                                     '' plugin during shutdown; ignoring: '' @ e)) h1
                | None \<Rightarrow> h1)
      in closePlugins env kind what rest h2)"

text \<open>
  \<open>Close\<close>: the three loops, the three maps replaced by empty ones, the channel closed
  (closing a closed channel panics), the server cancelled. \<open>host.plugins\<close> is not touched.
\<close>

definition Close :: "'v env \<Rightarrow> 'v host \<Rightarrow> error option outcome \<times> 'v host" where
  "Close env h =
     (let h1 = closePlugins env AnalyzerPlugin ''analyzer'' (analyzerPlugins h) h;
          h2 = closePlugins env ResourcePlugin ''resource'' (resourcePlugins h1) h1;
          h3 = closePlugins env LanguagePlugin ''language'' (languagePlugins h2) h2;
          h4 = h3\<lparr>analyzerPlugins := [], languagePlugins := [], resourcePlugins := []\<rparr>
      in if loadRequestsClosed h4 then (Panic ''close of closed channel'', h4)
         else (let h5 = emit CloseLoadRequests (h4\<lparr>loadRequestsClosed := True\<rparr>);
                   err = ServerCancel env (trace h5)
               in (Return err, emit (CallServerCancel err) h5)))"

text \<open>The three loops of \<open>Close\<close> together.\<close>

definition closing :: "'v env \<Rightarrow> 'v host \<Rightarrow> 'v host" where
  "closing env h =
     (let h1 = closePlugins env AnalyzerPlugin ''analyzer'' (analyzerPlugins h) h;
          h2 = closePlugins env ResourcePlugin ''resource'' (resourcePlugins h1) h1
      in closePlugins env LanguagePlugin ''language'' (languagePlugins h2) h2)"

subsection \<open>Sequences of calls on one host\<close>

text \<open>The methods of the interface \<open>Host\<close> as requests, and what each returns.\<close>

datatype 'v request =
    ReqServerAddr
  | ReqLog string string string
  | ReqAnalyzer string
  | ReqProvider string "'v option"
  | ReqLanguageRuntime string
  | ReqListPlugins
  | ReqEnsurePlugins "'v PluginInfo list" Flags
  | ReqGetRequiredPlugins ProgInfo Flags
  | ReqClose

datatype 'v reply =
    RepServerAddr string
  | RepLog
  | RepAnalyzer "handle option" "error option"
  | RepProvider "handle option" "error option"
  | RepLanguageRuntime "handle option" "error option"
  | RepListPlugins "'v PluginInfo list"
  | RepEnsurePlugins "error list"
  | RepGetRequiredPlugins "'v PluginInfo list" "error option"
  | RepClose "error option"

definition mapReturn :: "('a \<Rightarrow> 'b) \<Rightarrow> 'a outcome \<times> 'h \<Rightarrow> 'b outcome \<times> 'h" where
  "mapReturn f r = (case r of (Panic m, h) \<Rightarrow> (Panic m, h) | (Return x, h) \<Rightarrow> (Return (f x), h))"

fun call :: "'v env \<Rightarrow> 'v request \<Rightarrow> 'v host \<Rightarrow> 'v reply outcome \<times> 'v host" where
  "call env ReqServerAddr h = (Return (RepServerAddr (ServerAddr env h)), h)"
| "call env (ReqLog sev urn msg) h = (Return RepLog, Log sev urn msg h)"
| "call env (ReqAnalyzer name) h = mapReturn (\<lambda>(p, e). RepAnalyzer p e) (Analyzer env name h)"
| "call env (ReqProvider pkg version) h =
     mapReturn (\<lambda>(p, e). RepProvider p e) (Provider env pkg version h)"
| "call env (ReqLanguageRuntime runtime) h =
     mapReturn (\<lambda>(p, e). RepLanguageRuntime p e) (LanguageRuntime env runtime h)"
| "call env ReqListPlugins h = (Return (RepListPlugins (ListPlugins h)), h)"
| "call env (ReqEnsurePlugins plugs kinds) h =
     mapReturn RepEnsurePlugins (EnsurePlugins env plugs kinds h)"
| "call env (ReqGetRequiredPlugins info kinds) h =
     mapReturn (\<lambda>(ps, e). RepGetRequiredPlugins ps e) (GetRequiredPlugins env info kinds h)"
| "call env ReqClose h = mapReturn RepClose (Close env h)"

text \<open>
  The calls of a list one after the other, each with what it returned and the host it left.
  A panic ends the process, so the list ends there.
\<close>

fun run :: "'v env \<Rightarrow> 'v request list \<Rightarrow> 'v host \<Rightarrow> ('v reply outcome \<times> 'v host) list" where
  "run env [] h = []"
| "run env (r # rs) h =
     (case call env r h of
        (Panic m, h1) \<Rightarrow> [(Panic m, h1)]
      | (Return x, h1) \<Rightarrow> (Return x, h1) # run env rs h1)"

text \<open>The host after the calls of a list.\<close>

fun after :: "'v env \<Rightarrow> 'v request list \<Rightarrow> 'v host \<Rightarrow> 'v host" where
  "after env [] h = h"
| "after env (r # rs) h =
     (case call env r h of
        (Panic m, h1) \<Rightarrow> h1
      | (Return x, h1) \<Rightarrow> after env rs h1)"

subsection \<open>Observations on a host and its history\<close>

text \<open>The plugin infos held in the three maps.\<close>

definition registryInfos :: "'v host \<Rightarrow> 'v PluginInfo list" where
  "registryInfos h =
     map (\<lambda>kp. Info (snd kp)) (analyzerPlugins h @ languagePlugins h @ resourcePlugins h)"

text \<open>The results of the \<open>Configure\<close> calls made on one provider, oldest first.\<close>

fun configureResult :: "handle \<Rightarrow> 'v event \<Rightarrow> error option list" where
  "configureResult p (CallConfigure q cfg r) = (if q = p then [r] else [])"
| "configureResult p _ = []"

definition configureResults :: "handle \<Rightarrow> 'v event list \<Rightarrow> error option list" where
  "configureResults p tr = concat (map (configureResult p) tr)"



fun isPluginClose :: "'v event \<Rightarrow> bool" where
  "isPluginClose (CallPluginClose kind p r) = True"
| "isPluginClose _ = False"

fun isWarning :: "'v event \<Rightarrow> bool" where
  "isWarning (CallWarningf msg) = True"
| "isWarning _ = False"

text \<open>The events a call added to the history.\<close>

definition newEvents :: "'v host \<Rightarrow> 'v host \<Rightarrow> 'v event list" where
  "newEvents h h' = drop (length (trace h)) (trace h')"

text \<open>
  What \<open>NewProvider\<close> is taken to guarantee: the provider it returns is a new object, one
  on which \<open>Configure\<close> has not been called.
\<close>

definition freshProviders :: "'v env \<Rightarrow> bool" where
  "freshProviders env \<longleftrightarrow>
     (\<forall>tr pkg v p. fst (NewProvider env tr pkg v) = Some p \<longrightarrow> configureResults p tr = [])"

text \<open>
  The state of the registry that every sequence of calls keeps: while the channel is open the
  flat list holds the infos of the three maps; once it is closed the maps are empty.
\<close>

definition registryInvariant :: "'v host \<Rightarrow> bool" where
  "registryInvariant h \<longleftrightarrow>
     (if loadRequestsClosed h then
        analyzerPlugins h = [] \<and> languagePlugins h = [] \<and> resourcePlugins h = []
      else mset (plugins h) = mset (registryInfos h))"

text \<open>Every cached provider has had exactly one \<open>Configure\<close> call, a successful one.\<close>

definition configuredOnce :: "'v host \<Rightarrow> bool" where
  "configuredOnce h \<longleftrightarrow>
     list_all (\<lambda>kp. configureResults (Plugin (snd kp)) (trace h) = [None]) (resourcePlugins h)"

text \<open>The steps between the spawn and the insertion that can fail, and the callback.\<close>

fun failedStep :: "'v event \<Rightarrow> bool" where
  "failedStep (CallGetPluginInfo kind p info (Some e)) = True"
| "failedStep (CallGetPackageConfig pkg cfg (Some e)) = True"
| "failedStep (CallConfigure p cfg (Some e)) = True"
| "failedStep _ = False"

fun failedCallback :: "'v event \<Rightarrow> bool" where
  "failedCallback (CallOnPluginLoad info (Some e)) = True"
| "failedCallback _ = False"


text \<open>Relations between the host before and after a step, used in the proofs.\<close>

definition sameRegistry :: "'v host \<Rightarrow> 'v host \<Rightarrow> bool" where
  "sameRegistry h h' \<longleftrightarrow>
     analyzerPlugins h' = analyzerPlugins h \<and> languagePlugins h' = languagePlugins h \<and>
     resourcePlugins h' = resourcePlugins h \<and> plugins h' = plugins h \<and>
     loadRequestsClosed h' = loadRequestsClosed h"

definition quiet :: "'v host \<Rightarrow> 'v host \<Rightarrow> bool" where
  "quiet h h' \<longleftrightarrow> sameRegistry h h' \<and> prefix (trace h) (trace h')"

definition grows :: "'v host \<Rightarrow> 'v host \<Rightarrow> bool" where
  "grows h h' \<longleftrightarrow>
     loadRequestsClosed h' = loadRequestsClosed h \<and>
     prefix (trace h) (trace h') \<and> prefix (plugins h) (plugins h') \<and>
     map_of (analyzerPlugins h) \<subseteq>\<^sub>m map_of (analyzerPlugins h') \<and>
     map_of (languagePlugins h) \<subseteq>\<^sub>m map_of (languagePlugins h') \<and>
     map_of (resourcePlugins h) \<subseteq>\<^sub>m map_of (resourcePlugins h') \<and>
     mset (plugins h') + mset (registryInfos h) = mset (plugins h) + mset (registryInfos h') \<and>
     (loadRequestsClosed h \<longrightarrow> sameRegistry h h')"

subsection \<open>A concrete environment\<close>

text \<open>
  Modelled from the spec: \<open>semver.Version\<close> with its methods \<open>GTE\<close> and \<open>String\<close> belongs to
  the package github.com/blang/semver, which is not among the sources. The spec orders
  versions by their (major, minor, patch) tuple under the semver rules and prints them as
  \<open>major.minor.patch\<close>. Only the concrete scenarios below use this model; the general
  theorems hold for any \<open>GTE\<close> and \<open>String\<close>.
\<close>

record semver =
  Major :: nat
  Minor :: nat
  Patch :: nat

definition semverGTE :: "semver \<Rightarrow> semver \<Rightarrow> bool" where
  "semverGTE a b \<longleftrightarrow>
     Major a > Major b \<or>
     (Major a = Major b \<and> (Minor a > Minor b \<or> (Minor a = Minor b \<and> Patch a \<ge> Patch b)))"

fun showNat :: "nat \<Rightarrow> nat \<Rightarrow> string" where
  "showNat 0 n = []"
| "showNat (Suc fuel) n =
     (if n < 10 then [char_of (48 + n)]
      else showNat fuel (n div 10) @ [char_of (48 + n mod 10)])"

definition semverString :: "semver \<Rightarrow> string" where
  "semverString v =
     showNat (Suc (Major v)) (Major v) @ ''.'' @ showNat (Suc (Minor v)) (Minor v) @ ''.'' @
     showNat (Suc (Patch v)) (Patch v)"

text \<open>A handle that no constructor and no \<open>Configure\<close> call of the history mentions.\<close>

fun usedHandle :: "'v event \<Rightarrow> nat" where
  "usedHandle (CallNewAnalyzer name (Some p) err) = p"
| "usedHandle (CallNewProvider pkg v (Some p) err) = p"
| "usedHandle (CallNewLanguageRuntime runtime (Some p) err) = p"
| "usedHandle (CallConfigure q cfg r) = q"
| "usedHandle _ = 0"

definition freshHandle :: "'v event list \<Rightarrow> handle" where
  "freshHandle tr = Suc (sum_list (map usedHandle tr))"

text \<open>
  An environment where everything works: each constructor returns a new plugin, every
  plugin reports \<open>info\<close>, there is no configuration source and no event callback.
\<close>

definition workingEnv :: "semver PluginInfo \<Rightarrow> semver env" where
  "workingEnv info =
     \<lparr>GTE = semverGTE, VString = semverString,
      NewAnalyzer = (\<lambda>tr name. (Some (freshHandle tr), None)),
      NewProvider = (\<lambda>tr pkg v. (Some (freshHandle tr), None)),
      NewLanguageRuntime = (\<lambda>tr runtime. (Some (freshHandle tr), None)),
      GetPluginInfo = (\<lambda>tr kind p. (info, None)),
      config = None,
      Configure = (\<lambda>tr p cfg. None),
      events = None,
      PluginClose = (\<lambda>tr kind p. None),
      LangGetRequiredPlugins = (\<lambda>tr l prog. ([], None)),
      ServerCancel = (\<lambda>tr. None),
      ServerAddress = ''127.0.0.1:0'',
      PULUMI_DEV = False\<rparr>"

definition ver :: "nat \<Rightarrow> nat \<Rightarrow> nat \<Rightarrow> semver" where
  "ver major minor patch = \<lparr>Major = major, Minor = minor, Patch = patch\<rparr>"

definition aws :: "nat \<Rightarrow> nat \<Rightarrow> nat \<Rightarrow> semver PluginInfo" where
  "aws major minor patch =
     \<lparr>Name = ''aws'', Kind = ResourcePlugin,
      Version = Some \<lparr>Major = major, Minor = minor, Patch = patch\<rparr>\<rparr>"

text \<open>The same environment with constructors that find no plugin and report no error.\<close>

definition nilEnv :: "semver env" where
  "nilEnv = (workingEnv (aws 1 5 0))
     \<lparr>NewAnalyzer := (\<lambda>tr name. (None, None)),
      NewProvider := (\<lambda>tr pkg v. (None, None)),
      NewLanguageRuntime := (\<lambda>tr runtime. (None, None))\<rparr>"

subsection \<open>Vocabulary of the proofs\<close>

text \<open>The kinds of events each part of a load can add to the history.\<close>

fun callbackEvent :: "'v event \<Rightarrow> bool" where
  "callbackEvent (CallOnPluginLoad info r) = True"
| "callbackEvent _ = False"

fun pluginEvent :: "'v event \<Rightarrow> bool" where
  "pluginEvent (CallGetPluginInfo kind p info r) = True"
| "pluginEvent (CallOnPluginLoad info r) = True"
| "pluginEvent _ = False"

fun configureEvent :: "'v event \<Rightarrow> bool" where
  "configureEvent (CallGetPackageConfig pkg cfg r) = True"
| "configureEvent (CallConfigure p cfg r) = True"
| "configureEvent (CallOnPluginLoad info r) = True"
| "configureEvent _ = False"

fun providerEvent :: "'v event \<Rightarrow> bool" where
  "providerEvent (CallGetPluginInfo kind p info r) = True"
| "providerEvent (CallWarningf msg) = True"
| "providerEvent (CallGetPackageConfig pkg cfg r) = True"
| "providerEvent (CallConfigure p cfg r) = True"
| "providerEvent (CallOnPluginLoad info r) = True"
| "providerEvent _ = False"

fun isConfigure :: "'v event \<Rightarrow> bool" where
  "isConfigure (CallConfigure p cfg r) = True"
| "isConfigure _ = False"

text \<open>
  What the part of a load after the constructor does with the plugin \<open>plug\<close> it was given:
  if a step before the insertion fails, the registry is as before and the result is an
  error; otherwise the plugin is in the map \<open>sel\<close> under \<open>key\<close>, and the result is the
  plugin unless the callback failed.
\<close>

definition loadOutcome ::
  "('v event \<Rightarrow> bool) \<Rightarrow> ('v host \<Rightarrow> (string \<times> 'v loadedPlugin) list) \<Rightarrow> string \<Rightarrow> handle \<Rightarrow>
   'v host \<Rightarrow> handle option \<times> error option \<Rightarrow> 'v host \<Rightarrow> bool" where
  "loadOutcome Q sel key plug h r h' \<longleftrightarrow>
     prefix (trace h) (trace h') \<and> list_all Q (newEvents h h') \<and>
     (if list_ex failedStep (newEvents h h') then
        sameRegistry h h' \<and> fst r = None \<and> snd r \<noteq> None \<and>
        \<not> list_ex failedCallback (newEvents h h')
      else
        (case map_of (sel h') key of Some pl \<Rightarrow> Plugin pl = plug | None \<Rightarrow> False) \<and>
        (if list_ex failedCallback (newEvents h h') then fst r = None \<and> snd r \<noteq> None
         else r = (Some plug, None)))"

text \<open>The same for a whole load closure, cache hit included.\<close>

definition loadSummary ::
  "('v host \<Rightarrow> (string \<times> 'v loadedPlugin) list) \<Rightarrow> string \<Rightarrow> 'v host \<Rightarrow>
   handle option \<times> error option \<Rightarrow> 'v host \<Rightarrow> bool" where
  "loadSummary sel key h r h' \<longleftrightarrow>
     prefix (trace h) (trace h') \<and>
     \<not> list_ex isPluginClose (newEvents h h') \<and>
     (list_ex failedStep (newEvents h h') \<longrightarrow>
        sameRegistry h h' \<and> fst r = None \<and> snd r \<noteq> None \<and> map_of (sel h) key = None) \<and>
     (list_ex failedCallback (newEvents h h') \<longrightarrow>
        fst r = None \<and> snd r \<noteq> None \<and> map_of (sel h') key \<noteq> None)"

text \<open>A step that calls no \<open>Configure\<close> and adds no provider to the registry.\<close>

definition calm :: "'v host \<Rightarrow> 'v host \<Rightarrow> bool" where
  "calm h h' \<longleftrightarrow>
     prefix (trace h) (trace h') \<and> \<not> list_ex isConfigure (newEvents h h') \<and>
     set (resourcePlugins h') \<subseteq> set (resourcePlugins h)"

text \<open>
  A step that keeps \<open>configuredOnce\<close> and calls \<open>Configure\<close> on no provider that has been
  configured before.
\<close>

definition confStep :: "'v host \<Rightarrow> 'v host \<Rightarrow> bool" where
  "confStep h h' \<longleftrightarrow>
     (configuredOnce h \<longrightarrow> configuredOnce h') \<and>
     (\<forall>q. configureResults q (trace h) \<noteq> [] \<longrightarrow>
          configureResults q (trace h') = configureResults q (trace h))"

text \<open>
  A step that calls \<open>Configure\<close> on \<open>plug\<close> only, and that adds \<open>plug\<close> to the registry only
  after one successful \<open>Configure\<close>.
\<close>

definition crStep :: "handle \<Rightarrow> 'v host \<Rightarrow> 'v host \<Rightarrow> bool" where
  "crStep plug h h' \<longleftrightarrow>
     (\<forall>q. q \<noteq> plug \<longrightarrow> configureResults q (trace h') = configureResults q (trace h)) \<and>
     (resourcePlugins h' = resourcePlugins h \<or>
      configureResults plug (trace h') = configureResults plug (trace h) @ [None] \<and>
      (\<forall>kp \<in> set (resourcePlugins h'). kp \<in> set (resourcePlugins h) \<or> Plugin (snd kp) = plug))"



text \<open>
  The insertion of lines 176-177, 252-253 and 286-287: the info appended to the flat list and
  the plugin put into the map of its kind under \<open>key\<close>, everything else as it was.
\<close>

definition inserted :: "PluginKind \<Rightarrow> string \<Rightarrow> 'v loadedPlugin \<Rightarrow> 'v host \<Rightarrow> 'v host \<Rightarrow> bool" where
  "inserted kind key pl h h' \<longleftrightarrow>
     plugins h' = plugins h @ [Info pl] \<and>
     analyzerPlugins h' =
       (if kind = AnalyzerPlugin then AList.update key pl (analyzerPlugins h)
        else analyzerPlugins h) \<and>
     languagePlugins h' =
       (if kind = LanguagePlugin then AList.update key pl (languagePlugins h)
        else languagePlugins h) \<and>
     resourcePlugins h' =
       (if kind = ResourcePlugin then AList.update key pl (resourcePlugins h)
        else resourcePlugins h) \<and>
     loadRequestsClosed h' = loadRequestsClosed h"

text \<open>
  Which error a load returns for each call that failed (lines 172, 220 and 282 return the
  error of \<open>GetPluginInfo\<close> as it is; lines 244, 248 and 180, 256, 290 wrap it), and that a failed
  callback comes after the insertion of \<open>plug\<close>.
\<close>

definition loadDetail ::
  "PluginKind \<Rightarrow> string \<Rightarrow> handle \<Rightarrow> 'v host \<Rightarrow> handle option \<times> error option \<Rightarrow> 'v host \<Rightarrow> bool" where
  "loadDetail kind key plug h r h' \<longleftrightarrow>
     prefix (trace h) (trace h') \<and>
     (\<forall>k p info e. CallGetPluginInfo k p info (Some e) \<in> set (newEvents h h') \<longrightarrow>
        r = (None, Some e)) \<and>
     (\<forall>k cfg e. CallGetPackageConfig k cfg (Some e) \<in> set (newEvents h h') \<longrightarrow>
        r = (None, Some (Wrapf e (''failed to fetch configuration for pkg '' @ [CHR 0x27] @ key @
                                   [CHR 0x27] @ '' resource provider'')))) \<and>
     (\<forall>p cfg e. CallConfigure p cfg (Some e) \<in> set (newEvents h h') \<longrightarrow>
        r = (None, Some (Wrapf e (''failed to configure pkg '' @ [CHR 0x27] @ key @
                                   [CHR 0x27] @ '' resource provider'')))) \<and>
     (\<forall>info e. CallOnPluginLoad info (Some e) \<in> set (newEvents h h') \<longrightarrow>
        r = (None, Some (Wrapf e ''failed to perform plugin load callback'')) \<and>
        inserted kind key \<lparr>Plugin = plug, Info = info\<rparr> h h')"

subsection \<open>Environments where something fails\<close>

definition policy :: "semver PluginInfo" where
  "policy = \<lparr>Name = ''policy'', Kind = AnalyzerPlugin, Version = None\<rparr>"

text \<open>Every plugin starts, and none answers \<open>GetPluginInfo\<close>.\<close>

definition failingInfoEnv :: "semver env" where
  "failingInfoEnv = (workingEnv policy)
     \<lparr>GetPluginInfo := (\<lambda>tr kind p. (policy, Some ''plugin info unavailable''))\<rparr>"

text \<open>The load callback refuses every plugin.\<close>

definition callbackEnv :: "semver env" where
  "callbackEnv = (workingEnv policy)\<lparr>events := Some (\<lambda>tr info. Some ''callback refused'')\<rparr>"

text \<open>Every provider rejects its configuration.\<close>

definition configureFailsEnv :: "semver env" where
  "configureFailsEnv = (workingEnv (aws 1 5 0))\<lparr>Configure := (\<lambda>tr p cfg. Some ''bad credentials'')\<rparr>"

text \<open>The development mode: an older plugin than requested is found, and no warning is due.\<close>

definition devEnv :: "semver env" where
  "devEnv = (workingEnv (aws 1 2 0))\<lparr>PULUMI_DEV := True\<rparr>"

text \<open>The configuration source fails for every package.\<close>

definition configFailsEnv :: "semver env" where
  "configFailsEnv = (workingEnv (aws 1 5 0))
     \<lparr>config := Some (\<lambda>tr pkg. ([], Some ''no configuration''))\<rparr>"

section \<open>Properties\<close>

subsection \<open>Basic facts\<close>

lemma emit_simps [simp]:
  "trace (emit e h) = trace h @ [e]"
  "plugins (emit e h) = plugins h"
  "analyzerPlugins (emit e h) = analyzerPlugins h"
  "languagePlugins (emit e h) = languagePlugins h"
  "resourcePlugins (emit e h) = resourcePlugins h"
  "loadRequestsClosed (emit e h) = loadRequestsClosed h"
  by (simp_all add: emit_def)

lemma update_fresh: "map_of al k = None \<Longrightarrow> AList.update k v al = al @ [(k, v)]"
  by (induction al) (auto split: if_splits)

lemma map_le_snoc: "map_of al k = None \<Longrightarrow> map_of al \<subseteq>\<^sub>m map_of (al @ [(k, v)])"
  by (auto simp: map_le_def map_add_def dom_def split: option.splits)

lemma sameRegistry_refl [simp]: "sameRegistry h h"
  by (simp add: sameRegistry_def)

lemma sameRegistry_trans: "sameRegistry a b \<Longrightarrow> sameRegistry b c \<Longrightarrow> sameRegistry a c"
  by (simp add: sameRegistry_def)

lemma sameRegistry_infos: "sameRegistry a b \<Longrightarrow> registryInfos b = registryInfos a"
  by (simp add: sameRegistry_def registryInfos_def)

lemma quiet_refl [simp]: "quiet h h"
  by (simp add: quiet_def)

lemma quiet_trans: "quiet a b \<Longrightarrow> quiet b c \<Longrightarrow> quiet a c"
  by (auto simp: quiet_def intro: sameRegistry_trans)

lemma quiet_emit [simp]: "quiet h (emit e h)"
  by (simp add: quiet_def sameRegistry_def)

lemma grows_refl [simp]: "grows h h"
  by (simp add: grows_def)

lemma mset_balance_trans:
  fixes a b c :: "'a multiset"
  assumes "a' + b = a + b'" "a'' + b' = a' + b''"
  shows "a'' + b = a + b''"
proof -
  have "(a'' + b) + (a' + b') = (a'' + b') + (a' + b)"
    by (simp add: ac_simps)
  also have "\<dots> = (a' + b'') + (a + b')"
    using assms by simp
  also have "\<dots> = (a + b'') + (a' + b')"
    by (simp add: ac_simps)
  finally show ?thesis by simp
qed

lemma grows_trans: "grows a b \<Longrightarrow> grows b c \<Longrightarrow> grows a c"
  unfolding grows_def
  by (auto intro: map_le_trans mset_balance_trans sameRegistry_trans)

lemma quiet_grows: "quiet a b \<Longrightarrow> grows a b"
  by (auto simp: quiet_def grows_def sameRegistry_def registryInfos_def)

lemma quiet_callGetPluginInfo: "quiet h (snd (callGetPluginInfo env k p h))"
  by (simp add: callGetPluginInfo_def split: prod.split)

lemma quiet_fireOnPluginLoad: "quiet h (snd (fireOnPluginLoad env info h))"
  by (simp add: fireOnPluginLoad_def Let_def split: option.split)

lemma quiet_getProviderConfig: "quiet h (snd (getProviderConfig env pkg h))"
  by (simp add: getProviderConfig_def split: option.split prod.split)

lemma quiet_callConfigure: "quiet h (snd (callConfigure env p cfg h))"
  by (simp add: callConfigure_def Let_def)

lemma quiet_warnVersion: "quiet h (warnVersion env v info h)"
  by (simp add: warnVersion_def)

lemma Provider_memoize_grows:
  assumes "map_of (resourcePlugins h) pkg = None" "\<not> loadRequestsClosed h"
  shows "grows h (snd (Provider_memoize env pkg plug info h))"
proof -
  define h1 where "h1 = h\<lparr>plugins := plugins h @ [info],
      resourcePlugins := AList.update pkg \<lparr>Plugin = plug, Info = info\<rparr> (resourcePlugins h)\<rparr>"
  have "grows h h1"
    using assms by (simp add: h1_def grows_def update_fresh registryInfos_def map_le_snoc)
  moreover have "quiet h1 (snd (fireOnPluginLoad env info h1))"
    by (rule quiet_fireOnPluginLoad)
  moreover have "snd (Provider_memoize env pkg plug info h) = snd (fireOnPluginLoad env info h1)"
    by (simp add: Provider_memoize_def h1_def Let_def split: prod.split option.split)
  ultimately show ?thesis
    by (metis grows_trans quiet_grows)
qed

lemma Provider_configure_grows:
  assumes "map_of (resourcePlugins h) pkg = None" "\<not> loadRequestsClosed h"
  shows "grows h (snd (Provider_configure env pkg plug info h))"
proof -
  obtain cfg err h1 where c: "getProviderConfig env pkg h = ((cfg, err), h1)"
    by (metis prod.exhaust)
  have q1: "quiet h h1" using quiet_getProviderConfig [of h env pkg] c by simp
  obtain err2 h2 where d: "callConfigure env plug cfg h1 = (err2, h2)"
    by (metis prod.exhaust)
  have q2: "quiet h1 h2" using quiet_callConfigure [of h1 env plug cfg] d by simp
  have q: "quiet h h2" using q1 q2 by (rule quiet_trans)
  then have "map_of (resourcePlugins h2) pkg = None" "\<not> loadRequestsClosed h2"
    using assms by (simp_all add: quiet_def sameRegistry_def)
  then have "grows h2 (snd (Provider_memoize env pkg plug info h2))"
    by (rule Provider_memoize_grows)
  then have "grows h (snd (Provider_memoize env pkg plug info h2))"
    using q by (metis grows_trans quiet_grows)
  then show ?thesis
    using q1 q c d by (auto simp: Provider_configure_def split: option.split intro: quiet_grows)
qed

subsection \<open>A load only adds to the registry\<close>

lemma Provider_bind_grows:
  assumes "map_of (resourcePlugins h) pkg = None" "\<not> loadRequestsClosed h"
  shows "grows h (snd (Provider_bind env pkg v plug h))"
proof -
  obtain info infoerr h1 where c: "callGetPluginInfo env ResourcePlugin plug h = ((info, infoerr), h1)"
    by (metis prod.exhaust)
  have q1: "quiet h h1" using quiet_callGetPluginInfo [of h env ResourcePlugin plug] c by simp
  define h2 where "h2 = warnVersion env v info h1"
  have q: "quiet h h2" unfolding h2_def using q1 quiet_warnVersion by (rule quiet_trans)
  then have "map_of (resourcePlugins h2) pkg = None" "\<not> loadRequestsClosed h2"
    using assms by (simp_all add: quiet_def sameRegistry_def)
  then have "grows h2 (snd (Provider_configure env pkg plug info h2))"
    by (rule Provider_configure_grows)
  then have "grows h (snd (Provider_configure env pkg plug info h2))"
    using q by (metis grows_trans quiet_grows)
  then show ?thesis
    using q1 c by (auto simp: Provider_bind_def h2_def split: option.split intro: quiet_grows)
qed

lemma Provider_load_grows:
  assumes "\<not> loadRequestsClosed h"
  shows "grows h (snd (Provider_load env pkg v h))"
proof (cases "map_of (resourcePlugins h) pkg")
  case (Some plug)
  then show ?thesis by (simp add: Provider_load_def split: option.split)
next
  case None
  obtain plug err where n: "NewProvider env (trace h) pkg v = (plug, err)"
    by (metis prod.exhaust)
  define h1 where "h1 = emit (CallNewProvider pkg v plug err) h"
  have q: "quiet h h1" by (simp add: h1_def)
  then have "map_of (resourcePlugins h1) pkg = None" "\<not> loadRequestsClosed h1"
    using assms None by (simp_all add: quiet_def sameRegistry_def)
  then have "grows h1 (snd (Provider_bind env pkg v (the plug) h1))"
    by (rule Provider_bind_grows)
  then have "grows h (snd (Provider_bind env pkg v (the plug) h1))"
    using q by (metis grows_trans quiet_grows)
  then show ?thesis
    using None n q by (auto simp: Provider_load_def h1_def Let_def intro: quiet_grows)
qed

lemma unwrapPlugin_snd [simp]: "snd (unwrapPlugin r) = snd r"
  by (auto simp: unwrapPlugin_def split: prod.split outcome.split)

lemma loadPlugin_closed [simp]:
  "loadRequestsClosed h \<Longrightarrow> loadPlugin load h = (Panic ''send on closed channel'', h)"
  by (simp add: loadPlugin_def)

lemma loadPlugin_open [simp]:
  "\<not> loadRequestsClosed h \<Longrightarrow> loadPlugin load h = (Return (fst (load h)), snd (load h))"
  by (simp add: loadPlugin_def split: prod.split)

lemma Provider_closed:
  "loadRequestsClosed h \<Longrightarrow> Provider env pkg v h = (Panic ''send on closed channel'', h)"
  by (simp add: Provider_def unwrapPlugin_def)

lemma Provider_snd:
  "\<not> loadRequestsClosed h \<Longrightarrow> snd (Provider env pkg v h) = snd (Provider_load env pkg v h)"
  by (simp add: Provider_def)

lemma Provider_grows: "grows h (snd (Provider env pkg v h))"
  by (cases "loadRequestsClosed h") (simp_all add: Provider_closed Provider_snd Provider_load_grows)

lemma Analyzer_memoize_grows:
  assumes "map_of (analyzerPlugins h) name = None" "\<not> loadRequestsClosed h"
  shows "grows h (snd (Analyzer_memoize env name plug info h))"
proof -
  define h1 where "h1 = h\<lparr>plugins := plugins h @ [info],
      analyzerPlugins := AList.update name \<lparr>Plugin = plug, Info = info\<rparr> (analyzerPlugins h)\<rparr>"
  have "grows h h1"
    using assms by (simp add: h1_def grows_def update_fresh registryInfos_def map_le_snoc)
  moreover have "quiet h1 (snd (fireOnPluginLoad env info h1))"
    by (rule quiet_fireOnPluginLoad)
  moreover have "snd (Analyzer_memoize env name plug info h) = snd (fireOnPluginLoad env info h1)"
    by (simp add: Analyzer_memoize_def h1_def Let_def split: prod.split option.split)
  ultimately show ?thesis
    by (metis grows_trans quiet_grows)
qed

lemma Analyzer_bind_grows:
  assumes "map_of (analyzerPlugins h) name = None" "\<not> loadRequestsClosed h"
  shows "grows h (snd (Analyzer_bind env name plug h))"
proof -
  obtain info infoerr h1 where c: "callGetPluginInfo env AnalyzerPlugin plug h = ((info, infoerr), h1)"
    by (metis prod.exhaust)
  have q: "quiet h h1" using quiet_callGetPluginInfo [of h env AnalyzerPlugin plug] c by simp
  then have "map_of (analyzerPlugins h1) name = None" "\<not> loadRequestsClosed h1"
    using assms by (simp_all add: quiet_def sameRegistry_def)
  then have "grows h1 (snd (Analyzer_memoize env name plug info h1))"
    by (rule Analyzer_memoize_grows)
  then have "grows h (snd (Analyzer_memoize env name plug info h1))"
    using q by (metis grows_trans quiet_grows)
  then show ?thesis
    using q c by (auto simp: Analyzer_bind_def split: option.split intro: quiet_grows)
qed

lemma Analyzer_load_grows:
  assumes "\<not> loadRequestsClosed h"
  shows "grows h (snd (Analyzer_load env name h))"
proof (cases "map_of (analyzerPlugins h) name")
  case (Some plug)
  then show ?thesis by (simp add: Analyzer_load_def)
next
  case None
  obtain plug err where n: "NewAnalyzer env (trace h) name = (plug, err)"
    by (metis prod.exhaust)
  define h1 where "h1 = emit (CallNewAnalyzer name plug err) h"
  have q: "quiet h h1" by (simp add: h1_def)
  then have "map_of (analyzerPlugins h1) name = None" "\<not> loadRequestsClosed h1"
    using assms None by (simp_all add: quiet_def sameRegistry_def)
  then have "grows h1 (snd (Analyzer_bind env name (the plug) h1))"
    by (rule Analyzer_bind_grows)
  then have "grows h (snd (Analyzer_bind env name (the plug) h1))"
    using q by (metis grows_trans quiet_grows)
  then show ?thesis
    using None n q by (auto simp: Analyzer_load_def h1_def Let_def intro: quiet_grows)
qed

lemma Analyzer_closed:
  "loadRequestsClosed h \<Longrightarrow> Analyzer env name h = (Panic ''send on closed channel'', h)"
  by (simp add: Analyzer_def unwrapPlugin_def)

lemma Analyzer_snd:
  "\<not> loadRequestsClosed h \<Longrightarrow> snd (Analyzer env name h) = snd (Analyzer_load env name h)"
  by (simp add: Analyzer_def)

lemma Analyzer_grows: "grows h (snd (Analyzer env name h))"
  by (cases "loadRequestsClosed h") (simp_all add: Analyzer_closed Analyzer_snd Analyzer_load_grows)

lemma LanguageRuntime_memoize_grows:
  assumes "map_of (languagePlugins h) runtime = None" "\<not> loadRequestsClosed h"
  shows "grows h (snd (LanguageRuntime_memoize env runtime plug info h))"
proof -
  define h1 where "h1 = h\<lparr>plugins := plugins h @ [info],
      languagePlugins := AList.update runtime \<lparr>Plugin = plug, Info = info\<rparr> (languagePlugins h)\<rparr>"
  have "grows h h1"
    using assms by (simp add: h1_def grows_def update_fresh registryInfos_def map_le_snoc)
  moreover have "quiet h1 (snd (fireOnPluginLoad env info h1))"
    by (rule quiet_fireOnPluginLoad)
  moreover have "snd (LanguageRuntime_memoize env runtime plug info h) = snd (fireOnPluginLoad env info h1)"
    by (simp add: LanguageRuntime_memoize_def h1_def Let_def split: prod.split option.split)
  ultimately show ?thesis
    by (metis grows_trans quiet_grows)
qed

lemma LanguageRuntime_bind_grows:
  assumes "map_of (languagePlugins h) runtime = None" "\<not> loadRequestsClosed h"
  shows "grows h (snd (LanguageRuntime_bind env runtime plug h))"
proof -
  obtain info infoerr h1 where c: "callGetPluginInfo env LanguagePlugin plug h = ((info, infoerr), h1)"
    by (metis prod.exhaust)
  have q: "quiet h h1" using quiet_callGetPluginInfo [of h env LanguagePlugin plug] c by simp
  then have "map_of (languagePlugins h1) runtime = None" "\<not> loadRequestsClosed h1"
    using assms by (simp_all add: quiet_def sameRegistry_def)
  then have "grows h1 (snd (LanguageRuntime_memoize env runtime plug info h1))"
    by (rule LanguageRuntime_memoize_grows)
  then have "grows h (snd (LanguageRuntime_memoize env runtime plug info h1))"
    using q by (metis grows_trans quiet_grows)
  then show ?thesis
    using q c by (auto simp: LanguageRuntime_bind_def split: option.split intro: quiet_grows)
qed

lemma LanguageRuntime_load_grows:
  assumes "\<not> loadRequestsClosed h"
  shows "grows h (snd (LanguageRuntime_load env runtime h))"
proof (cases "map_of (languagePlugins h) runtime")
  case (Some plug)
  then show ?thesis by (simp add: LanguageRuntime_load_def)
next
  case None
  obtain plug err where n: "NewLanguageRuntime env (trace h) runtime = (plug, err)"
    by (metis prod.exhaust)
  define h1 where "h1 = emit (CallNewLanguageRuntime runtime plug err) h"
  have q: "quiet h h1" by (simp add: h1_def)
  then have "map_of (languagePlugins h1) runtime = None" "\<not> loadRequestsClosed h1"
    using assms None by (simp_all add: quiet_def sameRegistry_def)
  then have "grows h1 (snd (LanguageRuntime_bind env runtime (the plug) h1))"
    by (rule LanguageRuntime_bind_grows)
  then have "grows h (snd (LanguageRuntime_bind env runtime (the plug) h1))"
    using q by (metis grows_trans quiet_grows)
  then show ?thesis
    using None n q by (auto simp: LanguageRuntime_load_def h1_def Let_def intro: quiet_grows)
qed

lemma LanguageRuntime_closed:
  "loadRequestsClosed h \<Longrightarrow> LanguageRuntime env runtime h = (Panic ''send on closed channel'', h)"
  by (simp add: LanguageRuntime_def unwrapPlugin_def)

lemma LanguageRuntime_snd:
  "\<not> loadRequestsClosed h \<Longrightarrow>
   snd (LanguageRuntime env runtime h) = snd (LanguageRuntime_load env runtime h)"
  by (simp add: LanguageRuntime_def)

lemma LanguageRuntime_grows: "grows h (snd (LanguageRuntime env runtime h))"
  by (cases "loadRequestsClosed h")
    (simp_all add: LanguageRuntime_closed LanguageRuntime_snd LanguageRuntime_load_grows)

subsection \<open>The composed calls only add to the registry\<close>

lemma loadError_snd [simp]:
  "snd (case X of (Panic m, h1) \<Rightarrow> (Panic m, h1)
        | (Return (p, Some err), h1) \<Rightarrow> (Return (Some (W err)), h1)
        | (Return (p, None), h1) \<Rightarrow> (Return None, h1)) = snd X"
  by (auto split: prod.split outcome.split option.split)

lemma ensurePlugin_grows: "grows h (snd (ensurePlugin env plugin kinds h))"
  by (cases "Kind plugin")
    (simp_all add: ensurePlugin_def Analyzer_grows LanguageRuntime_grows Provider_grows)

lemma EnsurePlugins_loop_grows: "grows h (snd (EnsurePlugins_loop env plugs kinds result h))"
proof (induction plugs arbitrary: result h)
  case Nil
  then show ?case by simp
next
  case (Cons plugin rest)
  obtain r h1 where e: "ensurePlugin env plugin kinds h = (r, h1)"
    by (metis prod.exhaust)
  have g: "grows h h1" using ensurePlugin_grows [of h env plugin kinds] e by simp
  show ?case
    using e g Cons.IH [of h1] by (auto split: outcome.split option.split intro: grows_trans)
qed

lemma GetRequiredPlugins_grows: "grows h (snd (GetRequiredPlugins env info kinds h))"
proof -
  obtain x h1 where l: "LanguageRuntime env (Runtime info) h = (x, h1)"
    by (metis prod.exhaust)
  have g: "grows h h1" using LanguageRuntime_grows [of h env "Runtime info"] l by simp
  have e: "grows h (emit ev h1)" for ev
    using g quiet_grows [OF quiet_emit] by (rule grows_trans)
  show ?thesis
    using l g e
    by (simp add: GetRequiredPlugins_def Let_def split: prod.split outcome.split option.split)
qed

lemma mapReturn_snd [simp]: "snd (mapReturn f r) = snd r"
  by (auto simp: mapReturn_def split: prod.split outcome.split)

lemma call_grows: "r \<noteq> ReqClose \<Longrightarrow> grows h (snd (call env r h))"
  by (cases r)
    (simp_all add: Log_def quiet_grows Analyzer_grows Provider_grows LanguageRuntime_grows
      EnsurePlugins_def EnsurePlugins_loop_grows GetRequiredPlugins_grows)

lemma after_grows: "ReqClose \<notin> set reqs \<Longrightarrow> grows h (after env reqs h)"
proof (induction reqs arbitrary: h)
  case Nil
  then show ?case by simp
next
  case (Cons r rs)
  obtain x h1 where c: "call env r h = (x, h1)" by (metis prod.exhaust)
  have "r \<noteq> ReqClose" using Cons.prems by auto
  then have "grows h h1" using call_grows [of r h env] c by simp
  moreover have "grows h1 (after env rs h1)" using Cons by simp
  ultimately show ?case using c by (auto split: outcome.split intro: grows_trans)
qed

subsection \<open>The loops of Close\<close>

lemma closePlugins_quiet: "quiet h (closePlugins env kind what al h)"
proof (induction al arbitrary: h)
  case Nil
  then show ?case by simp
next
  case (Cons kp rest)
  obtain k plug where kp: "kp = (k, plug)" by (cases kp)
  define err where "err = PluginClose env (trace h) kind (Plugin plug)"
  define h1 where "h1 = emit (CallPluginClose kind (Plugin plug) err) h"
  define h2 where "h2 = (case err of
      Some e \<Rightarrow> emit (CallInfof (''Error closing '' @ [CHR 0x27] @ Name (Info plug) @
                                     [CHR 0x27, CHR '' ''] @ what @
                                     '' plugin during shutdown; ignoring: '' @ e)) h1
    | None \<Rightarrow> h1)"
  have "quiet h h1" by (simp add: h1_def)
  moreover have "quiet h1 h2" by (simp add: h2_def split: option.split)
  ultimately have "quiet h h2" by (rule quiet_trans)
  then have "quiet h (closePlugins env kind what rest h2)"
    using Cons.IH by (rule quiet_trans)
  moreover have "closePlugins env kind what (kp # rest) h = closePlugins env kind what rest h2"
    unfolding kp h2_def h1_def err_def by (simp add: Let_def)
  ultimately show ?case by simp
qed

lemma closePlugins_Nil_iff [simp]: "closePlugins env kind what [] h = h"
  by simp

lemma closing_quiet: "quiet h (closing env h)"
proof -
  define h1 where "h1 = closePlugins env AnalyzerPlugin ''analyzer'' (analyzerPlugins h) h"
  define h2 where "h2 = closePlugins env ResourcePlugin ''resource'' (resourcePlugins h1) h1"
  define h3 where "h3 = closePlugins env LanguagePlugin ''language'' (languagePlugins h2) h2"
  have "quiet h h1" unfolding h1_def by (rule closePlugins_quiet)
  moreover have "quiet h1 h2" unfolding h2_def by (rule closePlugins_quiet)
  moreover have "quiet h2 h3" unfolding h3_def by (rule closePlugins_quiet)
  ultimately have "quiet h h3" by (blast intro: quiet_trans)
  moreover have "closing env h = h3"
    unfolding h3_def h2_def h1_def by (simp add: closing_def Let_def)
  ultimately show ?thesis by simp
qed

subsection \<open>Close, and the invariant of the registry\<close>

lemma Close_unfold:
  "Close env h =
     (let h4 = (closing env h)\<lparr>analyzerPlugins := [], languagePlugins := [], resourcePlugins := []\<rparr>
      in if loadRequestsClosed h then (Panic ''close of closed channel'', h4)
         else (let h5 = emit CloseLoadRequests (h4\<lparr>loadRequestsClosed := True\<rparr>);
                   err = ServerCancel env (trace h5)
               in (Return err, emit (CallServerCancel err) h5)))"
  using closing_quiet [of h env]
  by (simp add: Close_def closing_def Let_def quiet_def sameRegistry_def)

lemma Close_state:
  "analyzerPlugins (snd (Close env h)) = []"
  "languagePlugins (snd (Close env h)) = []"
  "resourcePlugins (snd (Close env h)) = []"
  "loadRequestsClosed (snd (Close env h))"
  "plugins (snd (Close env h)) = plugins h"
  "prefix (trace h) (trace (snd (Close env h)))"
  using closing_quiet [of h env]
  by (auto simp: Close_unfold Let_def quiet_def sameRegistry_def intro: prefix_order.trans)

lemma Close_open: "\<not> loadRequestsClosed h \<Longrightarrow> \<exists>err. fst (Close env h) = Return err"
  by (simp add: Close_unfold Let_def)

lemma closing_empty:
  "analyzerPlugins h = [] \<Longrightarrow> languagePlugins h = [] \<Longrightarrow> resourcePlugins h = [] \<Longrightarrow>
   closing env h = h"
  by (simp add: closing_def)

lemma Close_closed:
  assumes "loadRequestsClosed h" "analyzerPlugins h = []" "languagePlugins h = []"
    "resourcePlugins h = []"
  shows "Close env h = (Panic ''close of closed channel'', h)"
  using assms by (simp add: Close_unfold closing_empty)

lemma Close_twice:
  "Close env (snd (Close env h)) = (Panic ''close of closed channel'', snd (Close env h))"
  by (rule Close_closed) (rule Close_state)+

lemma registryInvariant_new: "registryInvariant NewDefaultHost"
  by (simp add: registryInvariant_def NewDefaultHost_def registryInfos_def)

lemma grows_invariant:
  assumes "grows h h'" "registryInvariant h"
  shows "registryInvariant h'"
proof (cases "loadRequestsClosed h")
  case True
  then show ?thesis
    using assms by (simp add: grows_def registryInvariant_def sameRegistry_def)
next
  case False
  have "mset (plugins h') + mset (registryInfos h) = mset (plugins h) + mset (registryInfos h')"
    using assms(1) by (simp add: grows_def)
  moreover have "mset (plugins h) = mset (registryInfos h)"
    using assms(2) False by (simp add: registryInvariant_def)
  ultimately have "mset (plugins h') = mset (registryInfos h')"
    by (simp add: add.commute)
  then show ?thesis
    using assms(1) False by (simp add: grows_def registryInvariant_def)
qed

lemma Close_invariant: "registryInvariant (snd (Close env h))"
  by (simp add: registryInvariant_def Close_state)

lemma call_invariant: "registryInvariant h \<Longrightarrow> registryInvariant (snd (call env r h))"
proof (cases "r = ReqClose")
  case True
  then show ?thesis by (simp add: Close_invariant)
next
  case False
  assume "registryInvariant h"
  with call_grows [OF False] show ?thesis by (rule grows_invariant)
qed

lemma after_invariant: "registryInvariant h \<Longrightarrow> registryInvariant (after env reqs h)"
proof (induction reqs arbitrary: h)
  case Nil
  then show ?case by simp
next
  case (Cons r rs)
  obtain x h1 where c: "call env r h = (x, h1)" by (metis prod.exhaust)
  have "registryInvariant h1" using call_invariant [OF Cons.prems, of env r] c by simp
  then show ?case using c Cons.IH by (auto split: outcome.split)
qed

lemma call_plugins_prefix: "prefix (plugins h) (plugins (snd (call env r h)))"
proof (cases "r = ReqClose")
  case True
  then show ?thesis by (simp add: Close_state)
next
  case False
  then show ?thesis using call_grows [OF False, of h env] by (simp add: grows_def)
qed

lemma after_plugins_prefix: "prefix (plugins h) (plugins (after env reqs h))"
proof (induction reqs arbitrary: h)
  case Nil
  then show ?case by simp
next
  case (Cons r rs)
  obtain x h1 where c: "call env r h = (x, h1)" by (metis prod.exhaust)
  have "prefix (plugins h) (plugins h1)" using call_plugins_prefix [of h env r] c by simp
  then show ?case
    using c Cons.IH [of h1] by (auto split: outcome.split intro: prefix_order.trans)
qed

subsection \<open>What a returned provider tells about the registry\<close>

lemma Provider_memoize_result:
  assumes "Provider_memoize env pkg plug info h = ((Some p, e), h')"
  shows "map_of (resourcePlugins h') pkg = Some \<lparr>Plugin = p, Info = info\<rparr>"
proof -
  define h1 where "h1 = h\<lparr>plugins := plugins h @ [info],
      resourcePlugins := AList.update pkg \<lparr>Plugin = plug, Info = info\<rparr> (resourcePlugins h)\<rparr>"
  have "quiet h1 (snd (fireOnPluginLoad env info h1))"
    by (rule quiet_fireOnPluginLoad)
  moreover have "h' = snd (fireOnPluginLoad env info h1)" "p = plug"
    using assms
    by (auto simp: Provider_memoize_def h1_def Let_def split: prod.splits option.splits)
  ultimately have "resourcePlugins h' = resourcePlugins h1"
    by (simp add: quiet_def sameRegistry_def)
  then show ?thesis
    using \<open>p = plug\<close> by (simp add: h1_def update_conv')
qed

lemma Provider_configure_result:
  assumes "Provider_configure env pkg plug info h = ((Some p, e), h')"
  shows "map_of (resourcePlugins h') pkg = Some \<lparr>Plugin = p, Info = info\<rparr>"
  using assms
  by (auto simp: Provider_configure_def split: prod.splits option.splits
      dest: Provider_memoize_result)

lemma Provider_bind_result:
  assumes "Provider_bind env pkg v plug h = ((Some p, e), h')"
  shows "\<exists>pl. map_of (resourcePlugins h') pkg = Some pl \<and> Plugin pl = p"
  using assms
  by (auto simp: Provider_bind_def split: prod.splits option.splits
      dest: Provider_configure_result)

lemma Provider_load_result:
  assumes "Provider_load env pkg v h = ((Some p, None), h')"
  shows "\<exists>pl. map_of (resourcePlugins h') pkg = Some pl \<and> Plugin pl = p"
proof (cases "map_of (resourcePlugins h) pkg")
  case (Some plug)
  then show ?thesis
    using assms by (auto simp: Provider_load_def split: option.splits if_splits)
next
  case None
  then show ?thesis
    using assms
    by (auto simp: Provider_load_def Let_def split: prod.splits if_splits
        dest: Provider_bind_result)
qed

lemma Provider_fst:
  "\<not> loadRequestsClosed h \<Longrightarrow>
   fst (Provider env pkg v h) =
     Return (if fst (fst (Provider_load env pkg v h)) = None \<or>
                snd (fst (Provider_load env pkg v h)) \<noteq> None
             then (None, snd (fst (Provider_load env pkg v h)))
             else (fst (fst (Provider_load env pkg v h)), None))"
  by (simp add: Provider_def unwrapPlugin_def split: prod.split)

lemma Provider_result:
  assumes "Provider env pkg v h = (Return (Some p, e), h')"
  shows "\<not> loadRequestsClosed h \<and> \<not> loadRequestsClosed h' \<and>
         (\<exists>pl. map_of (resourcePlugins h') pkg = Some pl \<and> Plugin pl = p)"
proof -
  have o: "\<not> loadRequestsClosed h"
    using assms by (auto simp: Provider_closed)
  have g: "grows h h'" using Provider_grows [of h env pkg v] assms by simp
  obtain q e' h'' where l: "Provider_load env pkg v h = ((q, e'), h'')"
    by (metis prod.exhaust)
  have "Provider_load env pkg v h = ((Some p, None), h')"
    using assms o l by (auto simp: Provider_def unwrapPlugin_def split: if_splits)
  then have "\<exists>pl. map_of (resourcePlugins h') pkg = Some pl \<and> Plugin pl = p"
    by (rule Provider_load_result)
  then show ?thesis using o g by (simp add: grows_def)
qed

lemma Provider_hit:
  assumes "\<not> loadRequestsClosed h" "map_of (resourcePlugins h) pkg = Some plug"
  shows "Provider env pkg v h =
     (Return (case (if v \<noteq> None then versionMismatch env (the v) (Version (Info plug)) else None) of
                Some e \<Rightarrow> (None, Some e)
              | None \<Rightarrow> (Some (Plugin plug), None)), h)"
  using assms
  by (simp add: Provider_def Provider_load_def unwrapPlugin_def split: option.split)

lemma grows_cached:
  "grows h h' \<Longrightarrow> map_of (resourcePlugins h) pkg = Some pl \<Longrightarrow>
   map_of (resourcePlugins h') pkg = Some pl"
  by (auto simp: grows_def map_le_def dom_def)

lemma Analyzer_nil:
  assumes "\<not> loadRequestsClosed h" "map_of (analyzerPlugins h) name = None"
    "NewAnalyzer env (trace h) name = (None, None)"
  shows "Analyzer env name h = (Return (None, None), emit (CallNewAnalyzer name None None) h)"
  using assms by (simp add: Analyzer_def Analyzer_load_def unwrapPlugin_def)

lemma Provider_nil:
  assumes "\<not> loadRequestsClosed h" "map_of (resourcePlugins h) pkg = None"
    "NewProvider env (trace h) pkg v = (None, None)"
  shows "Provider env pkg v h = (Return (None, None), emit (CallNewProvider pkg v None None) h)"
  using assms by (simp add: Provider_def Provider_load_def unwrapPlugin_def)

lemma LanguageRuntime_nil:
  assumes "\<not> loadRequestsClosed h" "map_of (languagePlugins h) runtime = None"
    "NewLanguageRuntime env (trace h) runtime = (None, None)"
  shows "LanguageRuntime env runtime h =
           (Return (None, None), emit (CallNewLanguageRuntime runtime None None) h)"
  using assms by (simp add: LanguageRuntime_def LanguageRuntime_load_def unwrapPlugin_def)

subsection \<open>The events of a load and its outcome\<close>

lemma newEvents_self [simp]: "newEvents h h = []"
  by (simp add: newEvents_def)

lemma newEvents_append: "trace h' = trace h @ evs \<Longrightarrow> newEvents h h' = evs"
  by (simp add: newEvents_def)

lemma trace_newEvents: "prefix (trace h) (trace h') \<Longrightarrow> trace h' = trace h @ newEvents h h'"
  by (auto simp: newEvents_def prefix_def)

lemma newEvents_trans:
  "prefix (trace a) (trace b) \<Longrightarrow> prefix (trace b) (trace c) \<Longrightarrow>
   newEvents a c = newEvents a b @ newEvents b c"
  by (auto simp: newEvents_def prefix_def)

lemma loadOutcome_after:
  assumes "loadOutcome Q sel key plug h1 r h'" "trace h1 = trace h @ evs" "sameRegistry h h1"
    "list_all Q evs" "\<not> list_ex failedStep evs" "\<not> list_ex failedCallback evs"
  shows "loadOutcome Q sel key plug h r h'"
proof -
  have p: "prefix (trace h) (trace h1)" "prefix (trace h1) (trace h')"
    using assms(1,2) by (simp_all add: loadOutcome_def)
  have n: "newEvents h h' = evs @ newEvents h1 h'"
    using newEvents_trans [OF p] assms(2) by (simp add: newEvents_append)
  have fs: "list_ex failedStep (newEvents h h') = list_ex failedStep (newEvents h1 h')"
    using assms(5) by (simp add: n)
  have fc: "list_ex failedCallback (newEvents h h') = list_ex failedCallback (newEvents h1 h')"
    using assms(6) by (simp add: n)
  have la: "list_all Q (newEvents h h') = list_all Q (newEvents h1 h')"
    using assms(4) by (simp add: n)
  have pp: "prefix (trace h) (trace h')"
    using p by (rule prefix_order.trans)
  have sr: "sameRegistry h1 h' \<Longrightarrow> sameRegistry h h'"
    using assms(3) by (rule sameRegistry_trans)
  show ?thesis
    using assms(1) pp sr unfolding loadOutcome_def fs fc la by (simp split: if_splits)
qed

lemma loadOutcome_fail:
  assumes "trace h' = trace h @ evs" "sameRegistry h h'" "list_all Q evs" "list_ex failedStep evs"
    "fst r = None" "snd r \<noteq> None" "\<not> list_ex failedCallback evs"
  shows "loadOutcome Q sel key plug h r h'"
  using assms by (simp add: loadOutcome_def newEvents_append)

lemma loadOutcome_mono:
  assumes "loadOutcome Q sel key plug h r h'" "\<And>e. Q e \<Longrightarrow> Q' e"
  shows "loadOutcome Q' sel key plug h r h'"
  using assms unfolding loadOutcome_def by (auto simp: list_all_iff)

lemma callback_provider: "callbackEvent e \<Longrightarrow> configureEvent e"
  by (cases e) simp_all

lemma configure_provider: "configureEvent e \<Longrightarrow> providerEvent e"
  by (cases e) simp_all

lemma callback_plugin: "callbackEvent e \<Longrightarrow> pluginEvent e"
  by (cases e) simp_all

lemma Provider_memoize_outcome:
  "Provider_memoize env pkg plug info h = (r, h') \<Longrightarrow>
   loadOutcome callbackEvent resourcePlugins pkg plug h r h'"
  by (auto simp: Provider_memoize_def fireOnPluginLoad_def loadOutcome_def newEvents_def Let_def
      update_conv' Wrapf_def split: option.splits)

lemma getProviderConfig_events:
  assumes "getProviderConfig env pkg h = ((cfg, err), h1)"
  shows "sameRegistry h h1 \<and>
         (\<exists>evs. trace h1 = trace h @ evs \<and> list_all configureEvent evs \<and>
                (list_ex failedStep evs \<longleftrightarrow> err \<noteq> None) \<and> \<not> list_ex failedCallback evs)"
proof (cases "config env")
  case None
  then have "h1 = h" "err = None"
    using assms by (simp_all add: getProviderConfig_def)
  then show ?thesis by simp
next
  case (Some src)
  then have "h1 = emit (CallGetPackageConfig pkg cfg err) h"
    using assms by (auto simp: getProviderConfig_def split: prod.splits)
  then have "sameRegistry h h1" "trace h1 = trace h @ [CallGetPackageConfig pkg cfg err]"
    by (simp_all add: sameRegistry_def)
  moreover have "list_all configureEvent [CallGetPackageConfig pkg cfg err]"
    "list_ex failedStep [CallGetPackageConfig pkg cfg err] \<longleftrightarrow> err \<noteq> None"
    "\<not> list_ex failedCallback [CallGetPackageConfig pkg cfg err]"
    by (cases err; simp)+
  ultimately show ?thesis by blast
qed

lemma Provider_configure_outcome:
  assumes "Provider_configure env pkg plug info h = (r, h')"
  shows "loadOutcome configureEvent resourcePlugins pkg plug h r h'"
proof -
  obtain cfg err h1 where c: "getProviderConfig env pkg h = ((cfg, err), h1)"
    by (metis prod.exhaust)
  obtain evs1 where q1: "sameRegistry h h1" and t1: "trace h1 = trace h @ evs1"
    and a1: "list_all configureEvent evs1" and f1: "list_ex failedStep evs1 \<longleftrightarrow> err \<noteq> None"
    and b1: "\<not> list_ex failedCallback evs1"
    using getProviderConfig_events [OF c] by blast
  show ?thesis
  proof (cases err)
    case (Some e)
    then have "h' = h1" "fst r = None" "snd r \<noteq> None"
      using assms c by (auto simp: Provider_configure_def Wrapf_def)
    then show ?thesis
      using t1 q1 a1 f1 b1 Some by (intro loadOutcome_fail [where evs = evs1]) simp_all
  next
    case None
    define e2 where "e2 = Configure env (trace h1) plug cfg"
    define h2 where "h2 = emit (CallConfigure plug cfg e2) h1"
    have q2: "sameRegistry h h2" using q1 by (simp add: h2_def sameRegistry_def)
    have t2: "trace h2 = trace h @ (evs1 @ [CallConfigure plug cfg e2])"
      using t1 by (simp add: h2_def)
    have a2: "list_all configureEvent (evs1 @ [CallConfigure plug cfg e2])"
      using a1 by simp
    have b2: "\<not> list_ex failedCallback (evs1 @ [CallConfigure plug cfg e2])"
      using b1 by simp
    have u: "Provider_configure env pkg plug info h =
        (case e2 of
           Some e \<Rightarrow> ((None, Some (Wrapf e (''failed to configure pkg '' @ [CHR 0x27] @ pkg @
                                             [CHR 0x27] @ '' resource provider''))), h2)
         | None \<Rightarrow> Provider_memoize env pkg plug info h2)"
      using c None unfolding e2_def h2_def
      by (simp add: Provider_configure_def callConfigure_def Let_def)
    show ?thesis
    proof (cases e2)
      case (Some e)
      then have "h' = h2" "fst r = None" "snd r \<noteq> None"
        using assms u by (auto simp: Wrapf_def)
      moreover have "list_ex failedStep (evs1 @ [CallConfigure plug cfg e2])"
        using Some by simp
      ultimately show ?thesis
        using t2 q2 a2 b2
        by (intro loadOutcome_fail [where evs = "evs1 @ [CallConfigure plug cfg e2]"]) simp_all
    next
      case n2: None
      then have "Provider_memoize env pkg plug info h2 = (r, h')"
        using assms u by simp
      then have lo: "loadOutcome configureEvent resourcePlugins pkg plug h2 r h'"
        by (intro loadOutcome_mono [OF Provider_memoize_outcome] callback_provider)
      have f2: "\<not> list_ex failedStep (evs1 @ [CallConfigure plug cfg e2])"
        using f1 None n2 by simp
      show ?thesis
        using lo t2 q2 a2 f2 b2 by (rule loadOutcome_after)
    qed
  qed
qed

subsection \<open>The outcome of the part after the constructor\<close>

lemma warnVersion_events:
  "sameRegistry h (warnVersion env v info h) \<and>
   trace (warnVersion env v info h) =
     trace h @
     (if v \<noteq> None \<and> \<not> PULUMI_DEV env \<and>
         (Version info = None \<or> \<not> GTE env (the (Version info)) (the v))
      then [CallWarningf (versionWarning env (the v) info)] else [])"
  by (simp add: warnVersion_def sameRegistry_def)

lemma Provider_bind_unfold:
  assumes "GetPluginInfo env (trace h) ResourcePlugin plug = (info, infoerr)"
  shows "Provider_bind env pkg v plug h =
     (case infoerr of
        Some e \<Rightarrow> ((None, Some e), emit (CallGetPluginInfo ResourcePlugin plug info infoerr) h)
      | None \<Rightarrow>
          Provider_configure env pkg plug info
            (warnVersion env v info (emit (CallGetPluginInfo ResourcePlugin plug info infoerr) h)))"
  using assms by (simp add: Provider_bind_def callGetPluginInfo_def)

lemma Provider_bind_outcome:
  fixes h :: "'v host"
  assumes "Provider_bind env pkg v plug h = (r, h')"
  shows "loadOutcome providerEvent resourcePlugins pkg plug h r h'"
proof -
  obtain info infoerr where g: "GetPluginInfo env (trace h) ResourcePlugin plug = (info, infoerr)"
    by (metis prod.exhaust)
  define ev where "ev = CallGetPluginInfo ResourcePlugin plug info infoerr"
  define h1 where "h1 = emit ev h"
  note u = Provider_bind_unfold [OF g, of pkg v, folded ev_def, folded h1_def]
  have q1: "sameRegistry h h1" by (simp add: h1_def sameRegistry_def)
  show ?thesis
  proof (cases infoerr)
    case (Some e)
    then have "h' = h1" "fst r = None" "snd r \<noteq> None"
      using assms u by auto
    moreover have "trace h1 = trace h @ [ev]" by (simp add: h1_def)
    moreover have "list_all providerEvent [ev]" "list_ex failedStep [ev]"
      "\<not> list_ex failedCallback [ev]"
      using Some by (simp_all add: ev_def)
    ultimately show ?thesis
      using q1 by (intro loadOutcome_fail [where evs = "[ev]"]) simp_all
  next
    case None
    define h2 where "h2 = warnVersion env v info h1"
    define w :: "'v event list" where "w = (if v \<noteq> None \<and> \<not> PULUMI_DEV env \<and>
         (Version info = None \<or> \<not> GTE env (the (Version info)) (the v))
      then [CallWarningf (versionWarning env (the v) info)] else [])"
    have q2: "sameRegistry h h2"
      using q1 warnVersion_events [of h1 env v info] unfolding h2_def
      by (blast intro: sameRegistry_trans)
    have t2: "trace h2 = trace h @ (ev # w)"
      using warnVersion_events [of h1 env v info] by (simp add: h2_def h1_def w_def)
    have a2: "list_all providerEvent (ev # w)" by (simp add: ev_def w_def)
    have f2: "\<not> list_ex failedStep (ev # w)" using None by (simp add: ev_def w_def)
    have b2: "\<not> list_ex failedCallback (ev # w)" by (simp add: ev_def w_def)
    have "Provider_configure env pkg plug info h2 = (r, h')"
      using assms u None by (simp add: h2_def)
    then have lo: "loadOutcome providerEvent resourcePlugins pkg plug h2 r h'"
      by (intro loadOutcome_mono [OF Provider_configure_outcome] configure_provider)
    show ?thesis
      using lo t2 q2 a2 f2 b2 by (rule loadOutcome_after)
  qed
qed

lemma Analyzer_memoize_outcome:
  "Analyzer_memoize env name plug info h = (r, h') \<Longrightarrow>
   loadOutcome callbackEvent analyzerPlugins name plug h r h'"
  by (auto simp: Analyzer_memoize_def fireOnPluginLoad_def loadOutcome_def newEvents_def Let_def
      update_conv' Wrapf_def split: option.splits)

lemma LanguageRuntime_memoize_outcome:
  "LanguageRuntime_memoize env runtime plug info h = (r, h') \<Longrightarrow>
   loadOutcome callbackEvent languagePlugins runtime plug h r h'"
  by (auto simp: LanguageRuntime_memoize_def fireOnPluginLoad_def loadOutcome_def newEvents_def
      Let_def update_conv' Wrapf_def split: option.splits)

lemma Analyzer_bind_unfold:
  assumes "GetPluginInfo env (trace h) AnalyzerPlugin plug = (info, infoerr)"
  shows "Analyzer_bind env name plug h =
     (case infoerr of
        Some e \<Rightarrow> ((None, Some e), emit (CallGetPluginInfo AnalyzerPlugin plug info infoerr) h)
      | None \<Rightarrow>
          Analyzer_memoize env name plug info
            (emit (CallGetPluginInfo AnalyzerPlugin plug info infoerr) h))"
  using assms by (simp add: Analyzer_bind_def callGetPluginInfo_def)

lemma LanguageRuntime_bind_unfold:
  assumes "GetPluginInfo env (trace h) LanguagePlugin plug = (info, infoerr)"
  shows "LanguageRuntime_bind env runtime plug h =
     (case infoerr of
        Some e \<Rightarrow> ((None, Some e), emit (CallGetPluginInfo LanguagePlugin plug info infoerr) h)
      | None \<Rightarrow>
          LanguageRuntime_memoize env runtime plug info
            (emit (CallGetPluginInfo LanguagePlugin plug info infoerr) h))"
  using assms by (simp add: LanguageRuntime_bind_def callGetPluginInfo_def)

lemma Analyzer_bind_outcome:
  assumes "Analyzer_bind env name plug h = (r, h')"
  shows "loadOutcome pluginEvent analyzerPlugins name plug h r h'"
proof -
  obtain info infoerr where g: "GetPluginInfo env (trace h) AnalyzerPlugin plug = (info, infoerr)"
    by (metis prod.exhaust)
  define ev where "ev = CallGetPluginInfo AnalyzerPlugin plug info infoerr"
  define h1 where "h1 = emit ev h"
  note u = Analyzer_bind_unfold [OF g, of name, folded ev_def, folded h1_def]
  have q1: "sameRegistry h h1" by (simp add: h1_def sameRegistry_def)
  have t1: "trace h1 = trace h @ [ev]" by (simp add: h1_def)
  have a1: "list_all pluginEvent [ev]" by (simp add: ev_def)
  have b1: "\<not> list_ex failedCallback [ev]" by (simp add: ev_def)
  show ?thesis
  proof (cases infoerr)
    case (Some e)
    then have "h' = h1" "fst r = None" "snd r \<noteq> None"
      using assms u by auto
    moreover have "list_ex failedStep [ev]"
      using Some by (simp add: ev_def)
    ultimately show ?thesis
      using q1 t1 a1 b1 by (intro loadOutcome_fail [where evs = "[ev]"]) simp_all
  next
    case None
    have f1: "\<not> list_ex failedStep [ev]" using None by (simp add: ev_def)
    have "Analyzer_memoize env name plug info h1 = (r, h')"
      using assms u None by simp
    then have lo: "loadOutcome pluginEvent analyzerPlugins name plug h1 r h'"
      by (intro loadOutcome_mono [OF Analyzer_memoize_outcome] callback_plugin)
    show ?thesis
      using lo t1 q1 a1 f1 b1 by (rule loadOutcome_after)
  qed
qed

lemma LanguageRuntime_bind_outcome:
  assumes "LanguageRuntime_bind env runtime plug h = (r, h')"
  shows "loadOutcome pluginEvent languagePlugins runtime plug h r h'"
proof -
  obtain info infoerr where g: "GetPluginInfo env (trace h) LanguagePlugin plug = (info, infoerr)"
    by (metis prod.exhaust)
  define ev where "ev = CallGetPluginInfo LanguagePlugin plug info infoerr"
  define h1 where "h1 = emit ev h"
  note u = LanguageRuntime_bind_unfold [OF g, of runtime, folded ev_def, folded h1_def]
  have q1: "sameRegistry h h1" by (simp add: h1_def sameRegistry_def)
  have t1: "trace h1 = trace h @ [ev]" by (simp add: h1_def)
  have a1: "list_all pluginEvent [ev]" by (simp add: ev_def)
  have b1: "\<not> list_ex failedCallback [ev]" by (simp add: ev_def)
  show ?thesis
  proof (cases infoerr)
    case (Some e)
    then have "h' = h1" "fst r = None" "snd r \<noteq> None"
      using assms u by auto
    moreover have "list_ex failedStep [ev]"
      using Some by (simp add: ev_def)
    ultimately show ?thesis
      using q1 t1 a1 b1 by (intro loadOutcome_fail [where evs = "[ev]"]) simp_all
  next
    case None
    have f1: "\<not> list_ex failedStep [ev]" using None by (simp add: ev_def)
    have "LanguageRuntime_memoize env runtime plug info h1 = (r, h')"
      using assms u None by simp
    then have lo: "loadOutcome pluginEvent languagePlugins runtime plug h1 r h'"
      by (intro loadOutcome_mono [OF LanguageRuntime_memoize_outcome] callback_plugin)
    show ?thesis
      using lo t1 q1 a1 f1 b1 by (rule loadOutcome_after)
  qed
qed

subsection \<open>The outcome of a load closure\<close>

lemma list_all_not_ex: "list_all Q xs \<Longrightarrow> (\<And>x. Q x \<Longrightarrow> \<not> P x) \<Longrightarrow> \<not> list_ex P xs"
  by (auto simp: list_all_iff list_ex_iff)

lemma pluginEvent_noClose: "pluginEvent e \<Longrightarrow> \<not> isPluginClose e"
  by (cases e) simp_all

lemma providerEvent_noClose: "providerEvent e \<Longrightarrow> \<not> isPluginClose e"
  by (cases e) simp_all

text \<open>A load that missed the cache: the constructor call \<open>e\<close>, then the rest.\<close>

lemma ctor_then_bind:
  assumes lo: "ok \<Longrightarrow> loadOutcome Q sel key plug hm r h'"
    and nok: "\<not> ok \<Longrightarrow> h' = hm"
    and hm: "hm = emit e h"
    and e: "\<not> failedStep e" "\<not> failedCallback e" "\<not> isPluginClose e"
    and Q: "\<And>x. Q x \<Longrightarrow> \<not> isPluginClose x"
  shows "prefix (trace h) (trace h') \<and>
         (\<exists>rest. newEvents h h' = e # rest \<and> list_all Q rest) \<and>
         \<not> list_ex isPluginClose (newEvents h h') \<and>
         (list_ex failedStep (newEvents h h') \<longrightarrow>
            sameRegistry h h' \<and> fst r = None \<and> snd r \<noteq> None) \<and>
         (list_ex failedCallback (newEvents h h') \<longrightarrow>
            fst r = None \<and> snd r \<noteq> None \<and> map_of (sel h') key \<noteq> None)"
proof (cases ok)
  case False
  then have "h' = emit e h" using nok hm by simp
  then have "newEvents h h' = [e]" "prefix (trace h) (trace h')"
    by (simp_all add: newEvents_def)
  then show ?thesis using e by simp
next
  case True
  note o = lo [OF True]
  have p1: "prefix (trace h) (trace hm)" and q1: "sameRegistry h hm"
    by (simp_all add: hm sameRegistry_def)
  have p2: "prefix (trace hm) (trace h')"
    using o by (simp add: loadOutcome_def)
  have n: "newEvents h h' = e # newEvents hm h'"
    using newEvents_trans [OF p1 p2] by (simp add: hm newEvents_def)
  have a: "list_all Q (newEvents hm h')"
    using o by (simp add: loadOutcome_def)
  have c: "\<not> list_ex isPluginClose (newEvents hm h')"
    using a Q by (rule list_all_not_ex)
  have fs: "sameRegistry h h' \<and> fst r = None \<and> snd r \<noteq> None"
    if "list_ex failedStep (newEvents hm h')"
    using o that q1 by (auto simp: loadOutcome_def intro: sameRegistry_trans)
  have fc: "fst r = None \<and> snd r \<noteq> None \<and> map_of (sel h') key \<noteq> None"
    if "list_ex failedCallback (newEvents hm h')"
    using o that by (auto simp: loadOutcome_def split: if_splits option.splits)
  show ?thesis
    unfolding n using p1 p2 a c fs fc e by (auto intro: prefix_order.trans)
qed

lemma loadSummary_same [simp]: "loadSummary sel key h r h"
  by (simp add: loadSummary_def)

lemma Provider_load_miss:
  assumes "map_of (resourcePlugins h) pkg = None" "NewProvider env (trace h) pkg v = (plug, err)"
  shows "Provider_load env pkg v h =
     (if err = None \<and> plug \<noteq> None
      then Provider_bind env pkg v (the plug) (emit (CallNewProvider pkg v plug err) h)
      else ((plug, err), emit (CallNewProvider pkg v plug err) h))"
  using assms by (simp add: Provider_load_def Let_def)

lemma Provider_load_hit:
  assumes "map_of (resourcePlugins h) pkg = Some pl"
  shows "snd (Provider_load env pkg v h) = h"
  using assms by (simp add: Provider_load_def split: option.split)

lemma Provider_load_events:
  assumes "Provider_load env pkg v h = (r, h')" "map_of (resourcePlugins h) pkg = None"
    "NewProvider env (trace h) pkg v = (plug, err)"
  shows "prefix (trace h) (trace h') \<and>
         (\<exists>rest. newEvents h h' = CallNewProvider pkg v plug err # rest \<and>
                 list_all providerEvent rest) \<and>
         \<not> list_ex isPluginClose (newEvents h h') \<and>
         (list_ex failedStep (newEvents h h') \<longrightarrow>
            sameRegistry h h' \<and> fst r = None \<and> snd r \<noteq> None) \<and>
         (list_ex failedCallback (newEvents h h') \<longrightarrow>
            fst r = None \<and> snd r \<noteq> None \<and> map_of (resourcePlugins h') pkg \<noteq> None)"
proof (rule ctor_then_bind [where ok = "err = None \<and> plug \<noteq> None" and plug = "the plug"
      and hm = "emit (CallNewProvider pkg v plug err) h"])
  show "loadOutcome providerEvent resourcePlugins pkg (the plug)
          (emit (CallNewProvider pkg v plug err) h) r h'"
    if "err = None \<and> plug \<noteq> None"
    using assms that by (intro Provider_bind_outcome [of env pkg v]) (simp add: Provider_load_miss)
  show "h' = emit (CallNewProvider pkg v plug err) h" if "\<not> (err = None \<and> plug \<noteq> None)"
    using assms that by (auto simp: Provider_load_miss split: if_splits)
qed (simp_all add: providerEvent_noClose)

lemma Provider_load_summary:
  assumes "Provider_load env pkg v h = (r, h')"
  shows "loadSummary resourcePlugins pkg h r h'"
proof (cases "map_of (resourcePlugins h) pkg")
  case (Some pl)
  then show ?thesis using Provider_load_hit [OF Some, of env v] assms by simp
next
  case None
  obtain plug err where n: "NewProvider env (trace h) pkg v = (plug, err)"
    by (metis prod.exhaust)
  show ?thesis
    using Provider_load_events [OF assms None n] None by (simp add: loadSummary_def)
qed

lemma Analyzer_load_miss:
  assumes "map_of (analyzerPlugins h) name = None" "NewAnalyzer env (trace h) name = (plug, err)"
  shows "Analyzer_load env name h =
     (if err = None \<and> plug \<noteq> None
      then Analyzer_bind env name (the plug) (emit (CallNewAnalyzer name plug err) h)
      else ((plug, err), emit (CallNewAnalyzer name plug err) h))"
  using assms by (simp add: Analyzer_load_def Let_def)

lemma Analyzer_load_hit:
  assumes "map_of (analyzerPlugins h) name = Some pl"
  shows "snd (Analyzer_load env name h) = h"
  using assms by (simp add: Analyzer_load_def)

lemma Analyzer_load_events:
  assumes "Analyzer_load env name h = (r, h')" "map_of (analyzerPlugins h) name = None"
    "NewAnalyzer env (trace h) name = (plug, err)"
  shows "prefix (trace h) (trace h') \<and>
         (\<exists>rest. newEvents h h' = CallNewAnalyzer name plug err # rest \<and>
                 list_all pluginEvent rest) \<and>
         \<not> list_ex isPluginClose (newEvents h h') \<and>
         (list_ex failedStep (newEvents h h') \<longrightarrow>
            sameRegistry h h' \<and> fst r = None \<and> snd r \<noteq> None) \<and>
         (list_ex failedCallback (newEvents h h') \<longrightarrow>
            fst r = None \<and> snd r \<noteq> None \<and> map_of (analyzerPlugins h') name \<noteq> None)"
proof (rule ctor_then_bind [where ok = "err = None \<and> plug \<noteq> None" and plug = "the plug"
      and hm = "emit (CallNewAnalyzer name plug err) h"])
  show "loadOutcome pluginEvent analyzerPlugins name (the plug)
          (emit (CallNewAnalyzer name plug err) h) r h'"
    if "err = None \<and> plug \<noteq> None"
    using assms that by (intro Analyzer_bind_outcome [of env name]) (simp add: Analyzer_load_miss)
  show "h' = emit (CallNewAnalyzer name plug err) h" if "\<not> (err = None \<and> plug \<noteq> None)"
    using assms that by (auto simp: Analyzer_load_miss split: if_splits)
qed (simp_all add: pluginEvent_noClose)

lemma Analyzer_load_summary:
  assumes "Analyzer_load env name h = (r, h')"
  shows "loadSummary analyzerPlugins name h r h'"
proof (cases "map_of (analyzerPlugins h) name")
  case (Some pl)
  then show ?thesis using Analyzer_load_hit [OF Some, of env] assms by simp
next
  case None
  obtain plug err where n: "NewAnalyzer env (trace h) name = (plug, err)"
    by (metis prod.exhaust)
  show ?thesis
    using Analyzer_load_events [OF assms None n] None by (simp add: loadSummary_def)
qed

lemma LanguageRuntime_load_miss:
  assumes "map_of (languagePlugins h) runtime = None"
    "NewLanguageRuntime env (trace h) runtime = (plug, err)"
  shows "LanguageRuntime_load env runtime h =
     (if err = None \<and> plug \<noteq> None
      then LanguageRuntime_bind env runtime (the plug) (emit (CallNewLanguageRuntime runtime plug err) h)
      else ((plug, err), emit (CallNewLanguageRuntime runtime plug err) h))"
  using assms by (simp add: LanguageRuntime_load_def Let_def)

lemma LanguageRuntime_load_hit:
  assumes "map_of (languagePlugins h) runtime = Some pl"
  shows "snd (LanguageRuntime_load env runtime h) = h"
  using assms by (simp add: LanguageRuntime_load_def)

lemma LanguageRuntime_load_events:
  assumes "LanguageRuntime_load env runtime h = (r, h')" "map_of (languagePlugins h) runtime = None"
    "NewLanguageRuntime env (trace h) runtime = (plug, err)"
  shows "prefix (trace h) (trace h') \<and>
         (\<exists>rest. newEvents h h' = CallNewLanguageRuntime runtime plug err # rest \<and>
                 list_all pluginEvent rest) \<and>
         \<not> list_ex isPluginClose (newEvents h h') \<and>
         (list_ex failedStep (newEvents h h') \<longrightarrow>
            sameRegistry h h' \<and> fst r = None \<and> snd r \<noteq> None) \<and>
         (list_ex failedCallback (newEvents h h') \<longrightarrow>
            fst r = None \<and> snd r \<noteq> None \<and> map_of (languagePlugins h') runtime \<noteq> None)"
proof (rule ctor_then_bind [where ok = "err = None \<and> plug \<noteq> None" and plug = "the plug"
      and hm = "emit (CallNewLanguageRuntime runtime plug err) h"])
  show "loadOutcome pluginEvent languagePlugins runtime (the plug)
          (emit (CallNewLanguageRuntime runtime plug err) h) r h'"
    if "err = None \<and> plug \<noteq> None"
    using assms that
    by (intro LanguageRuntime_bind_outcome [of env runtime]) (simp add: LanguageRuntime_load_miss)
  show "h' = emit (CallNewLanguageRuntime runtime plug err) h" if "\<not> (err = None \<and> plug \<noteq> None)"
    using assms that by (auto simp: LanguageRuntime_load_miss split: if_splits)
qed (simp_all add: pluginEvent_noClose)

lemma LanguageRuntime_load_summary:
  assumes "LanguageRuntime_load env runtime h = (r, h')"
  shows "loadSummary languagePlugins runtime h r h'"
proof (cases "map_of (languagePlugins h) runtime")
  case (Some pl)
  then show ?thesis using LanguageRuntime_load_hit [OF Some, of env] assms by simp
next
  case None
  obtain plug err where n: "NewLanguageRuntime env (trace h) runtime = (plug, err)"
    by (metis prod.exhaust)
  show ?thesis
    using LanguageRuntime_load_events [OF assms None n] None by (simp add: loadSummary_def)
qed

subsection \<open>The outcome of the three methods\<close>

text \<open>From the closure to the method: a closed channel panics before anything happens.\<close>

lemma method_summary:
  assumes m: "unwrapPlugin (loadPlugin load h) = (x, h')"
    and l: "\<And>r h1. load h = (r, h1) \<Longrightarrow> loadSummary sel key h r h1"
  shows "prefix (trace h) (trace h') \<and>
         \<not> list_ex isPluginClose (newEvents h h') \<and>
         (list_ex failedStep (newEvents h h') \<longrightarrow>
            sameRegistry h h' \<and> (\<exists>err. x = Return (None, Some err)) \<and>
            \<not> loadRequestsClosed h \<and> map_of (sel h) key = None) \<and>
         (list_ex failedCallback (newEvents h h') \<longrightarrow>
            (\<exists>err. x = Return (None, Some err)) \<and> map_of (sel h') key \<noteq> None)"
proof (cases "loadRequestsClosed h")
  case True
  then have "h' = h" using m by (simp add: unwrapPlugin_def)
  then show ?thesis by simp
next
  case False
  obtain p e h1 where r: "load h = ((p, e), h1)"
    by (metis prod.exhaust)
  have h': "h' = h1" and x: "x = Return (if p = None \<or> e \<noteq> None then (None, e) else (p, None))"
    using m False r by (auto simp: unwrapPlugin_def split: if_splits)
  have s: "loadSummary sel key h (p, e) h'"
    using l [OF r] h' by simp
  have "\<exists>err. x = Return (None, Some err)" if "p = None" "e \<noteq> None"
    using that x by auto
  then show ?thesis
    using s False by (auto simp: loadSummary_def)
qed

lemma Provider_summary:
  assumes "Provider env pkg v h = (x, h')"
  shows "prefix (trace h) (trace h') \<and>
         \<not> list_ex isPluginClose (newEvents h h') \<and>
         (list_ex failedStep (newEvents h h') \<longrightarrow>
            sameRegistry h h' \<and> (\<exists>err. x = Return (None, Some err)) \<and>
            \<not> loadRequestsClosed h \<and> map_of (resourcePlugins h) pkg = None) \<and>
         (list_ex failedCallback (newEvents h h') \<longrightarrow>
            (\<exists>err. x = Return (None, Some err)) \<and> map_of (resourcePlugins h') pkg \<noteq> None)"
  using assms unfolding Provider_def
  by (rule method_summary) (rule Provider_load_summary)

lemma Analyzer_summary:
  assumes "Analyzer env name h = (x, h')"
  shows "prefix (trace h) (trace h') \<and>
         \<not> list_ex isPluginClose (newEvents h h') \<and>
         (list_ex failedStep (newEvents h h') \<longrightarrow>
            sameRegistry h h' \<and> (\<exists>err. x = Return (None, Some err)) \<and>
            \<not> loadRequestsClosed h \<and> map_of (analyzerPlugins h) name = None) \<and>
         (list_ex failedCallback (newEvents h h') \<longrightarrow>
            (\<exists>err. x = Return (None, Some err)) \<and> map_of (analyzerPlugins h') name \<noteq> None)"
  using assms unfolding Analyzer_def
  by (rule method_summary) (rule Analyzer_load_summary)

lemma LanguageRuntime_summary:
  assumes "LanguageRuntime env runtime h = (x, h')"
  shows "prefix (trace h) (trace h') \<and>
         \<not> list_ex isPluginClose (newEvents h h') \<and>
         (list_ex failedStep (newEvents h h') \<longrightarrow>
            sameRegistry h h' \<and> (\<exists>err. x = Return (None, Some err)) \<and>
            \<not> loadRequestsClosed h \<and> map_of (languagePlugins h) runtime = None) \<and>
         (list_ex failedCallback (newEvents h h') \<longrightarrow>
            (\<exists>err. x = Return (None, Some err)) \<and> map_of (languagePlugins h') runtime \<noteq> None)"
  using assms unfolding LanguageRuntime_def
  by (rule method_summary) (rule LanguageRuntime_load_summary)

text \<open>A request that misses the cache starts with the constructor.\<close>

lemma Provider_retry:
  assumes "\<not> loadRequestsClosed h" "map_of (resourcePlugins h) pkg = None"
  shows "\<exists>rest. newEvents h (snd (Provider env pkg v h)) =
           CallNewProvider pkg v (fst (NewProvider env (trace h) pkg v))
             (snd (NewProvider env (trace h) pkg v)) # rest"
proof -
  obtain r h' where l: "Provider_load env pkg v h = (r, h')"
    by (metis prod.exhaust)
  have "snd (Provider env pkg v h) = h'"
    using assms(1) l by (simp add: Provider_snd)
  then show ?thesis
    using Provider_load_events [OF l assms(2), of "fst (NewProvider env (trace h) pkg v)"
        "snd (NewProvider env (trace h) pkg v)"] by auto
qed

lemma Analyzer_retry:
  assumes "\<not> loadRequestsClosed h" "map_of (analyzerPlugins h) name = None"
  shows "\<exists>rest. newEvents h (snd (Analyzer env name h)) =
           CallNewAnalyzer name (fst (NewAnalyzer env (trace h) name))
             (snd (NewAnalyzer env (trace h) name)) # rest"
proof -
  obtain r h' where l: "Analyzer_load env name h = (r, h')"
    by (metis prod.exhaust)
  have "snd (Analyzer env name h) = h'"
    using assms(1) l by (simp add: Analyzer_snd)
  then show ?thesis
    using Analyzer_load_events [OF l assms(2), of "fst (NewAnalyzer env (trace h) name)"
        "snd (NewAnalyzer env (trace h) name)"] by auto
qed

lemma LanguageRuntime_retry:
  assumes "\<not> loadRequestsClosed h" "map_of (languagePlugins h) runtime = None"
  shows "\<exists>rest. newEvents h (snd (LanguageRuntime env runtime h)) =
           CallNewLanguageRuntime runtime (fst (NewLanguageRuntime env (trace h) runtime))
             (snd (NewLanguageRuntime env (trace h) runtime)) # rest"
proof -
  obtain r h' where l: "LanguageRuntime_load env runtime h = (r, h')"
    by (metis prod.exhaust)
  have "snd (LanguageRuntime env runtime h) = h'"
    using assms(1) l by (simp add: LanguageRuntime_snd)
  then show ?thesis
    using LanguageRuntime_load_events [OF l assms(2),
        of "fst (NewLanguageRuntime env (trace h) runtime)"
        "snd (NewLanguageRuntime env (trace h) runtime)"] by auto
qed

lemma Provider_failed_load:
  assumes "Provider env pkg v h = (x, h')"
  shows "\<not> list_ex isPluginClose (newEvents h h') \<and>
         (list_ex failedStep (newEvents h h') \<longrightarrow>
            (\<exists>err. x = Return (None, Some err)) \<and> sameRegistry h h' \<and>
            (\<exists>rest. newEvents h' (snd (Provider env pkg v h')) =
               CallNewProvider pkg v (fst (NewProvider env (trace h') pkg v))
                 (snd (NewProvider env (trace h') pkg v)) # rest)) \<and>
         (list_ex failedCallback (newEvents h h') \<longrightarrow>
            (\<exists>err. x = Return (None, Some err)) \<and> map_of (resourcePlugins h') pkg \<noteq> None)"
proof -
  note s = Provider_summary [OF assms]
  have "\<exists>rest. newEvents h' (snd (Provider env pkg v h')) =
               CallNewProvider pkg v (fst (NewProvider env (trace h') pkg v))
                 (snd (NewProvider env (trace h') pkg v)) # rest"
    if "list_ex failedStep (newEvents h h')"
  proof (rule Provider_retry)
    show "\<not> loadRequestsClosed h'" "map_of (resourcePlugins h') pkg = None"
      using s that by (auto simp: sameRegistry_def)
  qed
  then show ?thesis using s by blast
qed

lemma Analyzer_failed_load:
  assumes "Analyzer env name h = (x, h')"
  shows "\<not> list_ex isPluginClose (newEvents h h') \<and>
         (list_ex failedStep (newEvents h h') \<longrightarrow>
            (\<exists>err. x = Return (None, Some err)) \<and> sameRegistry h h' \<and>
            (\<exists>rest. newEvents h' (snd (Analyzer env name h')) =
               CallNewAnalyzer name (fst (NewAnalyzer env (trace h') name))
                 (snd (NewAnalyzer env (trace h') name)) # rest)) \<and>
         (list_ex failedCallback (newEvents h h') \<longrightarrow>
            (\<exists>err. x = Return (None, Some err)) \<and> map_of (analyzerPlugins h') name \<noteq> None)"
proof -
  note s = Analyzer_summary [OF assms]
  have "\<exists>rest. newEvents h' (snd (Analyzer env name h')) =
               CallNewAnalyzer name (fst (NewAnalyzer env (trace h') name))
                 (snd (NewAnalyzer env (trace h') name)) # rest"
    if "list_ex failedStep (newEvents h h')"
  proof (rule Analyzer_retry)
    show "\<not> loadRequestsClosed h'" "map_of (analyzerPlugins h') name = None"
      using s that by (auto simp: sameRegistry_def)
  qed
  then show ?thesis using s by blast
qed

lemma LanguageRuntime_failed_load:
  assumes "LanguageRuntime env runtime h = (x, h')"
  shows "\<not> list_ex isPluginClose (newEvents h h') \<and>
         (list_ex failedStep (newEvents h h') \<longrightarrow>
            (\<exists>err. x = Return (None, Some err)) \<and> sameRegistry h h' \<and>
            (\<exists>rest. newEvents h' (snd (LanguageRuntime env runtime h')) =
               CallNewLanguageRuntime runtime (fst (NewLanguageRuntime env (trace h') runtime))
                 (snd (NewLanguageRuntime env (trace h') runtime)) # rest)) \<and>
         (list_ex failedCallback (newEvents h h') \<longrightarrow>
            (\<exists>err. x = Return (None, Some err)) \<and> map_of (languagePlugins h') runtime \<noteq> None)"
proof -
  note s = LanguageRuntime_summary [OF assms]
  have "\<exists>rest. newEvents h' (snd (LanguageRuntime env runtime h')) =
               CallNewLanguageRuntime runtime (fst (NewLanguageRuntime env (trace h') runtime))
                 (snd (NewLanguageRuntime env (trace h') runtime)) # rest"
    if "list_ex failedStep (newEvents h h')"
  proof (rule LanguageRuntime_retry)
    show "\<not> loadRequestsClosed h'" "map_of (languagePlugins h') runtime = None"
      using s that by (auto simp: sameRegistry_def)
  qed
  then show ?thesis using s by blast
qed

subsection \<open>The error a failed load returns, and what a failed callback leaves\<close>

lemma failedStep_mem: "e \<in> set evs \<Longrightarrow> failedStep e \<Longrightarrow> list_ex failedStep evs"
  by (auto simp: list_ex_iff)

lemma failedCallback_mem: "e \<in> set evs \<Longrightarrow> failedCallback e \<Longrightarrow> list_ex failedCallback evs"
  by (auto simp: list_ex_iff)

lemma inserted_after: "sameRegistry h h1 \<Longrightarrow> inserted kind key pl h1 h' \<Longrightarrow> inserted kind key pl h h'"
  by (simp add: inserted_def sameRegistry_def)

lemma loadDetail_none:
  assumes "trace h' = trace h @ evs" "\<not> list_ex failedStep evs" "\<not> list_ex failedCallback evs"
  shows "loadDetail kind key plug h r h'"
proof -
  have n: "newEvents h h' = evs"
    using assms(1) by (rule newEvents_append)
  have "\<not> failedStep e" "\<not> failedCallback e" if "e \<in> set evs" for e
    using that assms(2,3) by (auto simp: list_ex_iff)
  then have "CallGetPluginInfo k p info (Some e) \<notin> set evs"
    "CallGetPackageConfig k' cfg (Some e) \<notin> set evs"
    "CallConfigure p cfg (Some e) \<notin> set evs"
    "CallOnPluginLoad info (Some e) \<notin> set evs" for k p info e k' cfg
    by fastforce+
  then show ?thesis
    using assms(1) by (simp add: loadDetail_def n)
qed

lemma loadDetail_after:
  assumes d: "loadDetail kind key plug h1 r h'" and t: "trace h1 = trace h @ evs"
    and s: "sameRegistry h h1"
    and f: "\<not> list_ex failedStep evs" "\<not> list_ex failedCallback evs"
  shows "loadDetail kind key plug h r h'"
proof -
  have p: "prefix (trace h) (trace h1)" "prefix (trace h1) (trace h')"
    using d t by (simp_all add: loadDetail_def)
  have n: "newEvents h h' = evs @ newEvents h1 h'"
    using newEvents_trans [OF p] t by (simp add: newEvents_append)
  have "\<not> failedStep e" "\<not> failedCallback e" if "e \<in> set evs" for e
    using that f by (auto simp: list_ex_iff)
  then have o: "CallGetPluginInfo k p info (Some e) \<notin> set evs"
    "CallGetPackageConfig k' cfg (Some e) \<notin> set evs"
    "CallConfigure p cfg (Some e) \<notin> set evs"
    "CallOnPluginLoad info (Some e) \<notin> set evs" for k p info e k' cfg
    by fastforce+
  have pp: "prefix (trace h) (trace h')"
    using p by (rule prefix_order.trans)
  have i: "inserted kind key pl h1 h' \<Longrightarrow> inserted kind key pl h h'" for pl
    using s by (rule inserted_after)
  show ?thesis
    using d pp i unfolding loadDetail_def n by (simp add: o)
qed

lemma Analyzer_memoize_detail:
  "Analyzer_memoize env name plug info h = (r, h') \<Longrightarrow>
   loadDetail AnalyzerPlugin name plug h r h'"
  by (auto simp: Analyzer_memoize_def fireOnPluginLoad_def loadDetail_def inserted_def
      newEvents_def Let_def split: option.splits)

lemma LanguageRuntime_memoize_detail:
  "LanguageRuntime_memoize env runtime plug info h = (r, h') \<Longrightarrow>
   loadDetail LanguagePlugin runtime plug h r h'"
  by (auto simp: LanguageRuntime_memoize_def fireOnPluginLoad_def loadDetail_def inserted_def
      newEvents_def Let_def split: option.splits)

lemma Provider_memoize_detail:
  "Provider_memoize env pkg plug info h = (r, h') \<Longrightarrow>
   loadDetail ResourcePlugin pkg plug h r h'"
  by (auto simp: Provider_memoize_def fireOnPluginLoad_def loadDetail_def inserted_def
      newEvents_def Let_def split: option.splits)

lemma loadDetail_info:
  "loadDetail kind key plug h (None, Some e) (emit (CallGetPluginInfo k p info (Some e)) h)"
  by (simp add: loadDetail_def newEvents_def)

lemma Analyzer_bind_detail:
  assumes "Analyzer_bind env name plug h = (r, h')"
  shows "loadDetail AnalyzerPlugin name plug h r h'"
proof -
  obtain info infoerr where g: "GetPluginInfo env (trace h) AnalyzerPlugin plug = (info, infoerr)"
    by (metis prod.exhaust)
  define ev where "ev = CallGetPluginInfo AnalyzerPlugin plug info infoerr"
  define h1 where "h1 = emit ev h"
  note u = Analyzer_bind_unfold [OF g, of name, folded ev_def, folded h1_def]
  show ?thesis
  proof (cases infoerr)
    case (Some e)
    then have "h' = emit (CallGetPluginInfo AnalyzerPlugin plug info (Some e)) h" "r = (None, Some e)"
      using assms u by (auto simp: h1_def ev_def)
    then show ?thesis by (simp add: loadDetail_info)
  next
    case None
    have "Analyzer_memoize env name plug info h1 = (r, h')"
      using assms u None by simp
    then have "loadDetail AnalyzerPlugin name plug h1 r h'"
      by (rule Analyzer_memoize_detail)
    moreover have "trace h1 = trace h @ [ev]" "sameRegistry h h1"
      by (simp_all add: h1_def sameRegistry_def)
    moreover have "\<not> list_ex failedStep [ev]" "\<not> list_ex failedCallback [ev]"
      using None by (simp_all add: ev_def)
    ultimately show ?thesis by (rule loadDetail_after)
  qed
qed

lemma LanguageRuntime_bind_detail:
  assumes "LanguageRuntime_bind env runtime plug h = (r, h')"
  shows "loadDetail LanguagePlugin runtime plug h r h'"
proof -
  obtain info infoerr where g: "GetPluginInfo env (trace h) LanguagePlugin plug = (info, infoerr)"
    by (metis prod.exhaust)
  define ev where "ev = CallGetPluginInfo LanguagePlugin plug info infoerr"
  define h1 where "h1 = emit ev h"
  note u = LanguageRuntime_bind_unfold [OF g, of runtime, folded ev_def, folded h1_def]
  show ?thesis
  proof (cases infoerr)
    case (Some e)
    then have "h' = emit (CallGetPluginInfo LanguagePlugin plug info (Some e)) h" "r = (None, Some e)"
      using assms u by (auto simp: h1_def ev_def)
    then show ?thesis by (simp add: loadDetail_info)
  next
    case None
    have "LanguageRuntime_memoize env runtime plug info h1 = (r, h')"
      using assms u None by simp
    then have "loadDetail LanguagePlugin runtime plug h1 r h'"
      by (rule LanguageRuntime_memoize_detail)
    moreover have "trace h1 = trace h @ [ev]" "sameRegistry h h1"
      by (simp_all add: h1_def sameRegistry_def)
    moreover have "\<not> list_ex failedStep [ev]" "\<not> list_ex failedCallback [ev]"
      using None by (simp_all add: ev_def)
    ultimately show ?thesis by (rule loadDetail_after)
  qed
qed

lemma getProviderConfig_cases:
  assumes "getProviderConfig env pkg h = ((cfg, err), h1)"
  shows "sameRegistry h h1 \<and>
         (h1 = h \<and> err = None \<or> h1 = emit (CallGetPackageConfig pkg cfg err) h)"
proof (cases "config env")
  case None
  then show ?thesis using assms by (auto simp: getProviderConfig_def)
next
  case (Some src)
  then have "h1 = emit (CallGetPackageConfig pkg cfg err) h"
    using assms by (auto simp: getProviderConfig_def split: prod.splits)
  then show ?thesis by (simp add: sameRegistry_def)
qed

lemma Provider_configure_detail:
  assumes "Provider_configure env pkg plug info h = (r, h')"
  shows "loadDetail ResourcePlugin pkg plug h r h'"
proof -
  obtain cfg err h1 where c: "getProviderConfig env pkg h = ((cfg, err), h1)"
    by (metis prod.exhaust)
  note gc = getProviderConfig_cases [OF c]
  have q1: "sameRegistry h h1" using gc by simp
  obtain evs1 where t1: "trace h1 = trace h @ evs1"
    and e1: "evs1 = [] \<and> err = None \<or> evs1 = [CallGetPackageConfig pkg cfg err]"
    using gc by auto
  have b1: "\<not> list_ex failedCallback evs1"
    using e1 by auto
  show ?thesis
  proof (cases err)
    case (Some e)
    then have r: "h' = h1" "r = (None, Some (Wrapf e (''failed to fetch configuration for pkg '' @
        [CHR 0x27] @ pkg @ [CHR 0x27] @ '' resource provider'')))"
      using assms c by (auto simp: Provider_configure_def)
    have "evs1 = [CallGetPackageConfig pkg cfg (Some e)]"
      using e1 Some by simp
    then have "newEvents h h' = [CallGetPackageConfig pkg cfg (Some e)]"
      using t1 r(1) by (simp add: newEvents_append)
    then show ?thesis
      using r t1 by (simp add: loadDetail_def)
  next
    case None
    have f1: "\<not> list_ex failedStep evs1"
      using e1 None by auto
    define e2 where "e2 = Configure env (trace h1) plug cfg"
    define h2 where "h2 = emit (CallConfigure plug cfg e2) h1"
    have q2: "sameRegistry h1 h2" by (simp add: h2_def sameRegistry_def)
    have u: "Provider_configure env pkg plug info h =
        (case e2 of
           Some e \<Rightarrow> ((None, Some (Wrapf e (''failed to configure pkg '' @ [CHR 0x27] @ pkg @
                                             [CHR 0x27] @ '' resource provider''))), h2)
         | None \<Rightarrow> Provider_memoize env pkg plug info h2)"
      using c None unfolding e2_def h2_def
      by (simp add: Provider_configure_def callConfigure_def Let_def)
    have d1: "loadDetail ResourcePlugin pkg plug h1 r h'"
    proof (cases e2)
      case (Some e)
      then have r: "h' = h2" "r = (None, Some (Wrapf e (''failed to configure pkg '' @
          [CHR 0x27] @ pkg @ [CHR 0x27] @ '' resource provider'')))"
        using assms u by auto
      have "newEvents h1 h' = [CallConfigure plug cfg (Some e)]"
        using r(1) Some by (simp add: h2_def newEvents_def)
      then show ?thesis
        using r by (simp add: loadDetail_def h2_def)
    next
      case n2: None
      then have "Provider_memoize env pkg plug info h2 = (r, h')"
        using assms u by simp
      then have "loadDetail ResourcePlugin pkg plug h2 r h'"
        by (rule Provider_memoize_detail)
      moreover have "trace h2 = trace h1 @ [CallConfigure plug cfg e2]"
        by (simp add: h2_def)
      moreover note q2
      moreover have "\<not> list_ex failedStep [CallConfigure plug cfg e2]"
        "\<not> list_ex failedCallback [CallConfigure plug cfg e2]"
        using n2 by simp_all
      ultimately show ?thesis by (rule loadDetail_after)
    qed
    show ?thesis
      using d1 t1 q1 f1 b1 by (rule loadDetail_after)
  qed
qed

lemma Provider_bind_detail:
  fixes h :: "'v host"
  assumes "Provider_bind env pkg v plug h = (r, h')"
  shows "loadDetail ResourcePlugin pkg plug h r h'"
proof -
  obtain info infoerr where g: "GetPluginInfo env (trace h) ResourcePlugin plug = (info, infoerr)"
    by (metis prod.exhaust)
  define ev where "ev = CallGetPluginInfo ResourcePlugin plug info infoerr"
  define h1 where "h1 = emit ev h"
  note u = Provider_bind_unfold [OF g, of pkg v, folded ev_def, folded h1_def]
  have q1: "sameRegistry h h1" by (simp add: h1_def sameRegistry_def)
  show ?thesis
  proof (cases infoerr)
    case (Some e)
    then have "h' = emit (CallGetPluginInfo ResourcePlugin plug info (Some e)) h" "r = (None, Some e)"
      using assms u by (auto simp: h1_def ev_def)
    then show ?thesis by (simp add: loadDetail_info)
  next
    case None
    define h2 where "h2 = warnVersion env v info h1"
    define w :: "'v event list" where "w = (if v \<noteq> None \<and> \<not> PULUMI_DEV env \<and>
         (Version info = None \<or> \<not> GTE env (the (Version info)) (the v))
      then [CallWarningf (versionWarning env (the v) info)] else [])"
    have q2: "sameRegistry h h2"
      using q1 warnVersion_events [of h1 env v info] unfolding h2_def
      by (blast intro: sameRegistry_trans)
    have t2: "trace h2 = trace h @ (ev # w)"
      using warnVersion_events [of h1 env v info] by (simp add: h2_def h1_def w_def)
    have f2: "\<not> list_ex failedStep (ev # w)" using None by (simp add: ev_def w_def)
    have b2: "\<not> list_ex failedCallback (ev # w)" by (simp add: ev_def w_def)
    have "Provider_configure env pkg plug info h2 = (r, h')"
      using assms u None by (simp add: h2_def)
    then have lo: "loadDetail ResourcePlugin pkg plug h2 r h'"
      by (rule Provider_configure_detail)
    show ?thesis
      using lo t2 q2 f2 b2 by (rule loadDetail_after)
  qed
qed

text \<open>A load that missed the cache: the constructor call \<open>e\<close>, then the rest.\<close>

lemma ctor_then_detail:
  assumes lo: "ok \<Longrightarrow> loadDetail kind key plug hm r h'"
    and nok: "\<not> ok \<Longrightarrow> h' = hm"
    and hm: "hm = emit e h"
    and e: "\<not> failedStep e" "\<not> failedCallback e"
  shows "loadDetail kind key plug h r h' \<and> (list_ex failedCallback (newEvents h h') \<longrightarrow> ok)"
proof (cases ok)
  case False
  then have t: "trace h' = trace h @ [e]" using nok hm by simp
  then have "newEvents h h' = [e]" by (rule newEvents_append)
  moreover have "loadDetail kind key plug h r h'"
    using t by (rule loadDetail_none) (simp_all add: e)
  ultimately show ?thesis using e by simp
next
  case True
  have "loadDetail kind key plug h r h'"
    using lo [OF True] by (rule loadDetail_after [where evs = "[e]"])
      (simp_all add: hm sameRegistry_def e)
  then show ?thesis using True by simp
qed

lemma Analyzer_load_detail:
  assumes "Analyzer_load env name h = (r, h')"
  shows "loadDetail AnalyzerPlugin name (the (fst (NewAnalyzer env (trace h) name))) h r h' \<and>
         (list_ex failedCallback (newEvents h h') \<longrightarrow> fst (NewAnalyzer env (trace h) name) \<noteq> None)"
proof (cases "map_of (analyzerPlugins h) name")
  case (Some pl)
  then have "h' = h" using Analyzer_load_hit [OF Some, of env] assms by simp
  then show ?thesis by (simp add: loadDetail_none [where evs = "[]"])
next
  case None
  obtain plug err where n: "NewAnalyzer env (trace h) name = (plug, err)"
    by (metis prod.exhaust)
  have "loadDetail AnalyzerPlugin name (the plug) h r h' \<and>
        (list_ex failedCallback (newEvents h h') \<longrightarrow> err = None \<and> plug \<noteq> None)"
  proof (rule ctor_then_detail [where e = "CallNewAnalyzer name plug err"])
    show "loadDetail AnalyzerPlugin name (the plug) (emit (CallNewAnalyzer name plug err) h) r h'"
      if "err = None \<and> plug \<noteq> None"
      using assms that by (intro Analyzer_bind_detail [of env name]) (simp add: Analyzer_load_miss [OF None n])
    show "h' = emit (CallNewAnalyzer name plug err) h" if "\<not> (err = None \<and> plug \<noteq> None)"
      using assms that by (auto simp: Analyzer_load_miss [OF None n] split: if_splits)
  qed simp_all
  then show ?thesis by (simp add: n)
qed

lemma LanguageRuntime_load_detail:
  assumes "LanguageRuntime_load env runtime h = (r, h')"
  shows "loadDetail LanguagePlugin runtime
           (the (fst (NewLanguageRuntime env (trace h) runtime))) h r h' \<and>
         (list_ex failedCallback (newEvents h h') \<longrightarrow>
            fst (NewLanguageRuntime env (trace h) runtime) \<noteq> None)"
proof (cases "map_of (languagePlugins h) runtime")
  case (Some pl)
  then have "h' = h" using LanguageRuntime_load_hit [OF Some, of env] assms by simp
  then show ?thesis by (simp add: loadDetail_none [where evs = "[]"])
next
  case None
  obtain plug err where n: "NewLanguageRuntime env (trace h) runtime = (plug, err)"
    by (metis prod.exhaust)
  have "loadDetail LanguagePlugin runtime (the plug) h r h' \<and>
        (list_ex failedCallback (newEvents h h') \<longrightarrow> err = None \<and> plug \<noteq> None)"
  proof (rule ctor_then_detail [where e = "CallNewLanguageRuntime runtime plug err"])
    show "loadDetail LanguagePlugin runtime (the plug)
            (emit (CallNewLanguageRuntime runtime plug err) h) r h'"
      if "err = None \<and> plug \<noteq> None"
      using assms that
      by (intro LanguageRuntime_bind_detail [of env runtime])
        (simp add: LanguageRuntime_load_miss [OF None n])
    show "h' = emit (CallNewLanguageRuntime runtime plug err) h"
      if "\<not> (err = None \<and> plug \<noteq> None)"
      using assms that by (auto simp: LanguageRuntime_load_miss [OF None n] split: if_splits)
  qed simp_all
  then show ?thesis by (simp add: n)
qed

lemma Provider_load_detail:
  assumes "Provider_load env pkg v h = (r, h')"
  shows "loadDetail ResourcePlugin pkg (the (fst (NewProvider env (trace h) pkg v))) h r h' \<and>
         (list_ex failedCallback (newEvents h h') \<longrightarrow>
            fst (NewProvider env (trace h) pkg v) \<noteq> None)"
proof (cases "map_of (resourcePlugins h) pkg")
  case (Some pl)
  then have "h' = h" using Provider_load_hit [OF Some, of env v] assms by simp
  then show ?thesis by (simp add: loadDetail_none [where evs = "[]"])
next
  case None
  obtain plug err where n: "NewProvider env (trace h) pkg v = (plug, err)"
    by (metis prod.exhaust)
  have "loadDetail ResourcePlugin pkg (the plug) h r h' \<and>
        (list_ex failedCallback (newEvents h h') \<longrightarrow> err = None \<and> plug \<noteq> None)"
  proof (rule ctor_then_detail [where e = "CallNewProvider pkg v plug err"])
    show "loadDetail ResourcePlugin pkg (the plug) (emit (CallNewProvider pkg v plug err) h) r h'"
      if "err = None \<and> plug \<noteq> None"
      using assms that
      by (intro Provider_bind_detail [of env pkg v]) (simp add: Provider_load_miss [OF None n])
    show "h' = emit (CallNewProvider pkg v plug err) h" if "\<not> (err = None \<and> plug \<noteq> None)"
      using assms that by (auto simp: Provider_load_miss [OF None n] split: if_splits)
  qed simp_all
  then show ?thesis by (simp add: n)
qed

text \<open>From the closure to the method.\<close>

lemma method_detail:
  assumes m: "unwrapPlugin (loadPlugin load h) = (x, h')"
    and l: "\<And>r h1. load h = (r, h1) \<Longrightarrow>
              loadDetail kind key plug h r h1 \<and> (list_ex failedCallback (newEvents h h1) \<longrightarrow> ok)"
  shows "\<exists>r. loadDetail kind key plug h r h' \<and> (list_ex failedCallback (newEvents h h') \<longrightarrow> ok) \<and>
             (fst r = None \<and> snd r \<noteq> None \<longrightarrow> x = Return r)"
proof (cases "loadRequestsClosed h")
  case True
  then have "h' = h" using m by (simp add: unwrapPlugin_def)
  then show ?thesis
    using loadDetail_none [where evs = "[]" and h = h and h' = h and kind = kind and key = key
        and plug = plug and r = "(Some plug, None)"]
    by auto
next
  case False
  obtain p e h1 where r: "load h = ((p, e), h1)"
    by (metis prod.exhaust)
  have h': "h' = h1" and x: "x = Return (if p = None \<or> e \<noteq> None then (None, e) else (p, None))"
    using m False r by (auto simp: unwrapPlugin_def split: if_splits)
  have "loadDetail kind key plug h (p, e) h' \<and> (list_ex failedCallback (newEvents h h') \<longrightarrow> ok)"
    using l [OF r] h' by simp
  moreover have "fst (p, e) = None \<and> snd (p, e) \<noteq> None \<longrightarrow> x = Return (p, e)"
    using x by simp
  ultimately show ?thesis by blast
qed

lemma Analyzer_failure:
  assumes "Analyzer env name h = (x, h')"
  shows "(\<forall>k p info e. CallGetPluginInfo k p info (Some e) \<in> set (newEvents h h') \<longrightarrow>
            x = Return (None, Some e)) \<and>
         (\<forall>info e. CallOnPluginLoad info (Some e) \<in> set (newEvents h h') \<longrightarrow>
            x = Return (None, Some (Wrapf e ''failed to perform plugin load callback'')) \<and>
            (\<exists>p. fst (NewAnalyzer env (trace h) name) = Some p \<and>
                 inserted AnalyzerPlugin name \<lparr>Plugin = p, Info = info\<rparr> h h'))"
proof -
  obtain r where d: "loadDetail AnalyzerPlugin name (the (fst (NewAnalyzer env (trace h) name))) h r h'"
    and o: "list_ex failedCallback (newEvents h h') \<longrightarrow> fst (NewAnalyzer env (trace h) name) \<noteq> None"
    and x: "fst r = None \<and> snd r \<noteq> None \<longrightarrow> x = Return r"
    using method_detail [OF assms [unfolded Analyzer_def], of AnalyzerPlugin name
        "the (fst (NewAnalyzer env (trace h) name))" "fst (NewAnalyzer env (trace h) name) \<noteq> None"]
      Analyzer_load_detail [of env name h]
    by blast
  have c: "fst (NewAnalyzer env (trace h) name) \<noteq> None"
    if "CallOnPluginLoad info (Some e) \<in> set (newEvents h h')" for info e
    using o failedCallback_mem [OF that] by simp
  show ?thesis
    using d x c unfolding loadDetail_def by fastforce
qed


lemma LanguageRuntime_failure:
  assumes "LanguageRuntime env runtime h = (x, h')"
  shows "(\<forall>k p info e. CallGetPluginInfo k p info (Some e) \<in> set (newEvents h h') \<longrightarrow>
            x = Return (None, Some e)) \<and>
         (\<forall>info e. CallOnPluginLoad info (Some e) \<in> set (newEvents h h') \<longrightarrow>
            x = Return (None, Some (Wrapf e ''failed to perform plugin load callback'')) \<and>
            (\<exists>p. fst (NewLanguageRuntime env (trace h) runtime) = Some p \<and>
                 inserted LanguagePlugin runtime \<lparr>Plugin = p, Info = info\<rparr> h h'))"
proof -
  obtain r where d: "loadDetail LanguagePlugin runtime
        (the (fst (NewLanguageRuntime env (trace h) runtime))) h r h'"
    and o: "list_ex failedCallback (newEvents h h') \<longrightarrow>
        fst (NewLanguageRuntime env (trace h) runtime) \<noteq> None"
    and x: "fst r = None \<and> snd r \<noteq> None \<longrightarrow> x = Return r"
    using method_detail [OF assms [unfolded LanguageRuntime_def], of LanguagePlugin runtime
        "the (fst (NewLanguageRuntime env (trace h) runtime))"
        "fst (NewLanguageRuntime env (trace h) runtime) \<noteq> None"]
      LanguageRuntime_load_detail [of env runtime h]
    by blast
  have c: "fst (NewLanguageRuntime env (trace h) runtime) \<noteq> None"
    if "CallOnPluginLoad info (Some e) \<in> set (newEvents h h')" for info e
    using o failedCallback_mem [OF that] by simp
  show ?thesis
    using d x c unfolding loadDetail_def by fastforce
qed

lemma Provider_failure:
  assumes "Provider env pkg v h = (x, h')"
  shows "(\<forall>k p info e. CallGetPluginInfo k p info (Some e) \<in> set (newEvents h h') \<longrightarrow>
            x = Return (None, Some e)) \<and>
         (\<forall>k cfg e. CallGetPackageConfig k cfg (Some e) \<in> set (newEvents h h') \<longrightarrow>
            x = Return (None, Some (Wrapf e (''failed to fetch configuration for pkg '' @
                  [CHR 0x27] @ pkg @ [CHR 0x27] @ '' resource provider'')))) \<and>
         (\<forall>p cfg e. CallConfigure p cfg (Some e) \<in> set (newEvents h h') \<longrightarrow>
            x = Return (None, Some (Wrapf e (''failed to configure pkg '' @
                  [CHR 0x27] @ pkg @ [CHR 0x27] @ '' resource provider'')))) \<and>
         (\<forall>info e. CallOnPluginLoad info (Some e) \<in> set (newEvents h h') \<longrightarrow>
            x = Return (None, Some (Wrapf e ''failed to perform plugin load callback'')) \<and>
            (\<exists>p. fst (NewProvider env (trace h) pkg v) = Some p \<and>
                 inserted ResourcePlugin pkg \<lparr>Plugin = p, Info = info\<rparr> h h'))"
proof -
  obtain r where d: "loadDetail ResourcePlugin pkg
        (the (fst (NewProvider env (trace h) pkg v))) h r h'"
    and o: "list_ex failedCallback (newEvents h h') \<longrightarrow>
        fst (NewProvider env (trace h) pkg v) \<noteq> None"
    and x: "fst r = None \<and> snd r \<noteq> None \<longrightarrow> x = Return r"
    using method_detail [OF assms [unfolded Provider_def], of ResourcePlugin pkg
        "the (fst (NewProvider env (trace h) pkg v))"
        "fst (NewProvider env (trace h) pkg v) \<noteq> None"]
      Provider_load_detail [of env pkg v h]
    by blast
  have c: "fst (NewProvider env (trace h) pkg v) \<noteq> None"
    if "CallOnPluginLoad info (Some e) \<in> set (newEvents h h')" for info e
    using o failedCallback_mem [OF that] by simp
  show ?thesis
    using d x c unfolding loadDetail_def by fastforce
qed

lemma inserted_Analyzer:
  assumes "inserted AnalyzerPlugin name pl h h'"
  shows "map_of (analyzerPlugins h') name = Some pl \<and>
         analyzerPlugins h' = AList.update name pl (analyzerPlugins h) \<and>
         ListPlugins h' = ListPlugins h @ [Info pl] \<and>
         languagePlugins h' = languagePlugins h \<and> resourcePlugins h' = resourcePlugins h"
  using assms by (simp add: inserted_def ListPlugins_def update_conv')

lemma inserted_LanguageRuntime:
  assumes "inserted LanguagePlugin runtime pl h h'"
  shows "map_of (languagePlugins h') runtime = Some pl \<and>
         languagePlugins h' = AList.update runtime pl (languagePlugins h) \<and>
         ListPlugins h' = ListPlugins h @ [Info pl] \<and>
         analyzerPlugins h' = analyzerPlugins h \<and> resourcePlugins h' = resourcePlugins h"
  using assms by (simp add: inserted_def ListPlugins_def update_conv')

lemma inserted_Provider:
  assumes "inserted ResourcePlugin pkg pl h h'"
  shows "map_of (resourcePlugins h') pkg = Some pl \<and>
         resourcePlugins h' = AList.update pkg pl (resourcePlugins h) \<and>
         ListPlugins h' = ListPlugins h @ [Info pl] \<and>
         analyzerPlugins h' = analyzerPlugins h \<and> languagePlugins h' = languagePlugins h"
  using assms by (simp add: inserted_def ListPlugins_def update_conv')

lemma Analyzer_failed_detail:
  assumes "Analyzer env name h = (x, h')"
  shows "\<not> list_ex isPluginClose (newEvents h h') \<and>
      (list_ex failedStep (newEvents h h') \<longrightarrow>
         (\<exists>err. x = Return (None, Some err)) \<and> sameRegistry h h' \<and>
         (\<exists>rest. newEvents h' (snd (Analyzer env name h')) =
            CallNewAnalyzer name (fst (NewAnalyzer env (trace h') name))
              (snd (NewAnalyzer env (trace h') name)) # rest)) \<and>
      (\<forall>k p info e. CallGetPluginInfo k p info (Some e) \<in> set (newEvents h h') \<longrightarrow>
         x = Return (None, Some e)) \<and>
      (\<forall>info e. CallOnPluginLoad info (Some e) \<in> set (newEvents h h') \<longrightarrow>
         x = Return (None, Some (Wrapf e ''failed to perform plugin load callback'')) \<and>
         (\<exists>p. fst (NewAnalyzer env (trace h) name) = Some p \<and>
              map_of (analyzerPlugins h') name = Some \<lparr>Plugin = p, Info = info\<rparr> \<and>
              analyzerPlugins h' =
                AList.update name \<lparr>Plugin = p, Info = info\<rparr> (analyzerPlugins h) \<and>
              ListPlugins h' = ListPlugins h @ [info] \<and>
              languagePlugins h' = languagePlugins h \<and> resourcePlugins h' = resourcePlugins h))"
proof -
  note f = Analyzer_failed_load [OF assms]
  note d = Analyzer_failure [OF assms]
  have c: "x = Return (None, Some (Wrapf e ''failed to perform plugin load callback'')) \<and>
         (\<exists>p. fst (NewAnalyzer env (trace h) name) = Some p \<and>
              map_of (analyzerPlugins h') name = Some \<lparr>Plugin = p, Info = info\<rparr> \<and>
              analyzerPlugins h' =
                AList.update name \<lparr>Plugin = p, Info = info\<rparr> (analyzerPlugins h) \<and>
              ListPlugins h' = ListPlugins h @ [info] \<and>
              languagePlugins h' = languagePlugins h \<and> resourcePlugins h' = resourcePlugins h)"
    if m: "CallOnPluginLoad info (Some e) \<in> set (newEvents h h')" for info e
  proof -
    obtain p where x: "x = Return (None, Some (Wrapf e ''failed to perform plugin load callback''))"
      and p: "fst (NewAnalyzer env (trace h) name) = Some p"
      and i: "inserted AnalyzerPlugin name \<lparr>Plugin = p, Info = info\<rparr> h h'"
      using d [THEN conjunct2, rule_format, OF m] by blast
    show ?thesis
      using x p inserted_Analyzer [OF i] by (simp add: update_conv')
  qed
  show ?thesis
    using f [THEN conjunct1] f [THEN conjunct2, THEN conjunct1] d [THEN conjunct1] c
    by (intro conjI allI impI) blast+
qed


lemma LanguageRuntime_failed_detail:
  assumes "LanguageRuntime env runtime h = (x, h')"
  shows "\<not> list_ex isPluginClose (newEvents h h') \<and>
      (list_ex failedStep (newEvents h h') \<longrightarrow>
         (\<exists>err. x = Return (None, Some err)) \<and> sameRegistry h h' \<and>
         (\<exists>rest. newEvents h' (snd (LanguageRuntime env runtime h')) =
            CallNewLanguageRuntime runtime (fst (NewLanguageRuntime env (trace h') runtime))
              (snd (NewLanguageRuntime env (trace h') runtime)) # rest)) \<and>
      (\<forall>k p info e. CallGetPluginInfo k p info (Some e) \<in> set (newEvents h h') \<longrightarrow>
         x = Return (None, Some e)) \<and>
      (\<forall>info e. CallOnPluginLoad info (Some e) \<in> set (newEvents h h') \<longrightarrow>
         x = Return (None, Some (Wrapf e ''failed to perform plugin load callback'')) \<and>
         (\<exists>p. fst (NewLanguageRuntime env (trace h) runtime) = Some p \<and>
              map_of (languagePlugins h') runtime = Some \<lparr>Plugin = p, Info = info\<rparr> \<and>
              languagePlugins h' =
                AList.update runtime \<lparr>Plugin = p, Info = info\<rparr> (languagePlugins h) \<and>
              ListPlugins h' = ListPlugins h @ [info] \<and>
              analyzerPlugins h' = analyzerPlugins h \<and> resourcePlugins h' = resourcePlugins h))"
proof -
  note f = LanguageRuntime_failed_load [OF assms]
  note d = LanguageRuntime_failure [OF assms]
  have c: "x = Return (None, Some (Wrapf e ''failed to perform plugin load callback'')) \<and>
         (\<exists>p. fst (NewLanguageRuntime env (trace h) runtime) = Some p \<and>
              map_of (languagePlugins h') runtime = Some \<lparr>Plugin = p, Info = info\<rparr> \<and>
              languagePlugins h' =
                AList.update runtime \<lparr>Plugin = p, Info = info\<rparr> (languagePlugins h) \<and>
              ListPlugins h' = ListPlugins h @ [info] \<and>
              analyzerPlugins h' = analyzerPlugins h \<and> resourcePlugins h' = resourcePlugins h)"
    if m: "CallOnPluginLoad info (Some e) \<in> set (newEvents h h')" for info e
  proof -
    obtain p where x: "x = Return (None, Some (Wrapf e ''failed to perform plugin load callback''))"
      and p: "fst (NewLanguageRuntime env (trace h) runtime) = Some p"
      and i: "inserted LanguagePlugin runtime \<lparr>Plugin = p, Info = info\<rparr> h h'"
      using d [THEN conjunct2, rule_format, OF m] by blast
    show ?thesis
      using x p inserted_LanguageRuntime [OF i] by (simp add: update_conv')
  qed
  show ?thesis
    using f [THEN conjunct1] f [THEN conjunct2, THEN conjunct1] d [THEN conjunct1] c
    by (intro conjI allI impI) blast+
qed

lemma Provider_failed_detail:
  assumes "Provider env pkg v h = (x, h')"
  shows "\<not> list_ex isPluginClose (newEvents h h') \<and>
      (list_ex failedStep (newEvents h h') \<longrightarrow>
         (\<exists>err. x = Return (None, Some err)) \<and> sameRegistry h h' \<and>
         (\<exists>rest. newEvents h' (snd (Provider env pkg v h')) =
            CallNewProvider pkg v (fst (NewProvider env (trace h') pkg v))
              (snd (NewProvider env (trace h') pkg v)) # rest)) \<and>
      (\<forall>k p info e. CallGetPluginInfo k p info (Some e) \<in> set (newEvents h h') \<longrightarrow>
         x = Return (None, Some e)) \<and>
      (\<forall>k cfg e. CallGetPackageConfig k cfg (Some e) \<in> set (newEvents h h') \<longrightarrow>
         x = Return (None, Some (Wrapf e (''failed to fetch configuration for pkg '' @
               [CHR 0x27] @ pkg @ [CHR 0x27] @ '' resource provider'')))) \<and>
      (\<forall>p cfg e. CallConfigure p cfg (Some e) \<in> set (newEvents h h') \<longrightarrow>
         x = Return (None, Some (Wrapf e (''failed to configure pkg '' @
               [CHR 0x27] @ pkg @ [CHR 0x27] @ '' resource provider'')))) \<and>
      (\<forall>info e. CallOnPluginLoad info (Some e) \<in> set (newEvents h h') \<longrightarrow>
         x = Return (None, Some (Wrapf e ''failed to perform plugin load callback'')) \<and>
         (\<exists>p. fst (NewProvider env (trace h) pkg v) = Some p \<and>
              map_of (resourcePlugins h') pkg = Some \<lparr>Plugin = p, Info = info\<rparr> \<and>
              resourcePlugins h' =
                AList.update pkg \<lparr>Plugin = p, Info = info\<rparr> (resourcePlugins h) \<and>
              ListPlugins h' = ListPlugins h @ [info] \<and>
              analyzerPlugins h' = analyzerPlugins h \<and> languagePlugins h' = languagePlugins h))"
proof -
  note f = Provider_failed_load [OF assms]
  note d = Provider_failure [OF assms]
  have c: "x = Return (None, Some (Wrapf e ''failed to perform plugin load callback'')) \<and>
         (\<exists>p. fst (NewProvider env (trace h) pkg v) = Some p \<and>
              map_of (resourcePlugins h') pkg = Some \<lparr>Plugin = p, Info = info\<rparr> \<and>
              resourcePlugins h' =
                AList.update pkg \<lparr>Plugin = p, Info = info\<rparr> (resourcePlugins h) \<and>
              ListPlugins h' = ListPlugins h @ [info] \<and>
              analyzerPlugins h' = analyzerPlugins h \<and> languagePlugins h' = languagePlugins h)"
    if m: "CallOnPluginLoad info (Some e) \<in> set (newEvents h h')" for info e
  proof -
    obtain p where x: "x = Return (None, Some (Wrapf e ''failed to perform plugin load callback''))"
      and p: "fst (NewProvider env (trace h) pkg v) = Some p"
      and i: "inserted ResourcePlugin pkg \<lparr>Plugin = p, Info = info\<rparr> h h'"
      using d [THEN conjunct2, THEN conjunct2, THEN conjunct2, rule_format, OF m] by blast
    show ?thesis
      using x p inserted_Provider [OF i] by (simp add: update_conv')
  qed
  show ?thesis
    using f [THEN conjunct1] f [THEN conjunct2, THEN conjunct1] d [THEN conjunct1]
      d [THEN conjunct2, THEN conjunct1] d [THEN conjunct2, THEN conjunct2, THEN conjunct1] c
    by (intro conjI allI impI) blast+
qed

subsection \<open>Warnings\<close>

lemma list_all_filter_none: "list_all Q xs \<Longrightarrow> (\<And>x. Q x \<Longrightarrow> \<not> P x) \<Longrightarrow> filter P xs = []"
  by (induction xs) auto

lemma configureEvent_noWarning: "configureEvent e \<Longrightarrow> \<not> isWarning e"
  by (cases e) simp_all

subsection \<open>The Configure calls in a history\<close>

lemma configureResults_Nil [simp]: "configureResults p [] = []"
  by (simp add: configureResults_def)

lemma configureResults_append [simp]:
  "configureResults p (xs @ ys) = configureResults p xs @ configureResults p ys"
  by (simp add: configureResults_def)

lemma configureResults_Cons [simp]:
  "configureResults p (x # xs) = configureResult p x @ configureResults p xs"
  by (simp add: configureResults_def)

lemma configureResults_none: "\<not> list_ex isConfigure evs \<Longrightarrow> configureResults q evs = []"
proof (induction evs)
  case Nil
  then show ?case by simp
next
  case (Cons e evs)
  then show ?case by (cases e) simp_all
qed

subsection \<open>Steps that configure nothing\<close>

lemma calm_refl [simp]: "calm h h"
  by (simp add: calm_def)

lemma calm_trans:
  assumes "calm a b" "calm b c"
  shows "calm a c"
proof -
  have p: "prefix (trace a) (trace b)" "prefix (trace b) (trace c)"
    using assms by (simp_all add: calm_def)
  have n: "newEvents a c = newEvents a b @ newEvents b c"
    using p by (rule newEvents_trans)
  have "prefix (trace a) (trace c)"
    using p by (rule prefix_order.trans)
  moreover have "\<not> list_ex isConfigure (newEvents a c)"
    using assms by (simp add: n calm_def)
  moreover have "set (resourcePlugins c) \<subseteq> set (resourcePlugins a)"
    using assms unfolding calm_def by blast
  ultimately show ?thesis by (simp add: calm_def)
qed

lemma calm_emit: "\<not> isConfigure e \<Longrightarrow> calm h (emit e h)"
  by (simp add: calm_def newEvents_def)

lemma calm_confStep:
  assumes "calm h h'"
  shows "confStep h h'"
proof -
  have t: "trace h' = trace h @ newEvents h h'"
    using assms by (intro trace_newEvents) (simp add: calm_def)
  have n: "configureResults q (newEvents h h') = []" for q
    using assms by (intro configureResults_none) (simp add: calm_def)
  have c: "configureResults q (trace h') = configureResults q (trace h)" for q
    by (subst t) (simp add: n)
  have s: "set (resourcePlugins h') \<subseteq> set (resourcePlugins h)"
    using assms by (simp add: calm_def)
  have "configuredOnce h'" if "configuredOnce h"
    using that s unfolding configuredOnce_def list_all_iff c by blast
  then show ?thesis
    by (simp add: confStep_def c)
qed

lemma confStep_refl [simp]: "confStep h h"
  by (simp add: confStep_def)

lemma confStep_trans:
  assumes "confStep a b" "confStep b c"
  shows "confStep a c"
proof -
  have "configureResults q (trace c) = configureResults q (trace a)"
    if "configureResults q (trace a) \<noteq> []" for q
  proof -
    have 1: "configureResults q (trace b) = configureResults q (trace a)"
      using assms(1) that by (simp add: confStep_def)
    then have "configureResults q (trace b) \<noteq> []" using that by simp
    then have "configureResults q (trace c) = configureResults q (trace b)"
      using assms(2) by (simp add: confStep_def)
    then show ?thesis using 1 by simp
  qed
  moreover have "configuredOnce a \<longrightarrow> configuredOnce c"
    using assms by (simp add: confStep_def)
  ultimately show ?thesis by (simp add: confStep_def)
qed

subsection \<open>The calls that configure nothing\<close>

lemma pluginEvent_noConfigure: "pluginEvent e \<Longrightarrow> \<not> isConfigure e"
  by (cases e) simp_all

lemma Analyzer_memoize_resource:
  "resourcePlugins (snd (Analyzer_memoize env name plug info h)) = resourcePlugins h"
  by (simp add: Analyzer_memoize_def fireOnPluginLoad_def Let_def split: option.split)

lemma Analyzer_bind_resource:
  "resourcePlugins (snd (Analyzer_bind env name plug h)) = resourcePlugins h"
  by (simp add: Analyzer_bind_def callGetPluginInfo_def Analyzer_memoize_resource
      split: prod.split option.split)

lemma Analyzer_load_resource:
  "resourcePlugins (snd (Analyzer_load env name h)) = resourcePlugins h"
  by (simp add: Analyzer_load_def Analyzer_bind_resource Let_def split: prod.split option.split)

lemma LanguageRuntime_memoize_resource:
  "resourcePlugins (snd (LanguageRuntime_memoize env runtime plug info h)) = resourcePlugins h"
  by (simp add: LanguageRuntime_memoize_def fireOnPluginLoad_def Let_def split: option.split)

lemma LanguageRuntime_bind_resource:
  "resourcePlugins (snd (LanguageRuntime_bind env runtime plug h)) = resourcePlugins h"
  by (simp add: LanguageRuntime_bind_def callGetPluginInfo_def LanguageRuntime_memoize_resource
      split: prod.split option.split)

lemma LanguageRuntime_load_resource:
  "resourcePlugins (snd (LanguageRuntime_load env runtime h)) = resourcePlugins h"
  by (simp add: LanguageRuntime_load_def LanguageRuntime_bind_resource Let_def
      split: prod.split option.split)

lemma Analyzer_calm: "calm h (snd (Analyzer env name h))"
proof (cases "loadRequestsClosed h")
  case True
  then show ?thesis by (simp add: Analyzer_closed)
next
  case False
  obtain r h' where l: "Analyzer_load env name h = (r, h')"
    by (metis prod.exhaust)
  have s: "snd (Analyzer env name h) = h'"
    using False l by (simp add: Analyzer_snd)
  have rs: "resourcePlugins h' = resourcePlugins h"
    using Analyzer_load_resource [of env name h] l by simp
  show ?thesis
  proof (cases "map_of (analyzerPlugins h) name")
    case (Some pl)
    then show ?thesis using Analyzer_load_hit [OF Some, of env] l s by simp
  next
    case None
    obtain plug err where n: "NewAnalyzer env (trace h) name = (plug, err)"
      by (metis prod.exhaust)
    obtain rest where e: "prefix (trace h) (trace h')"
      "newEvents h h' = CallNewAnalyzer name plug err # rest" "list_all pluginEvent rest"
      using Analyzer_load_events [OF l None n] by blast
    have "\<not> list_ex isConfigure rest"
      using e(3) pluginEvent_noConfigure by (rule list_all_not_ex)
    then show ?thesis
      using e rs s by (simp add: calm_def)
  qed
qed

lemma LanguageRuntime_calm: "calm h (snd (LanguageRuntime env runtime h))"
proof (cases "loadRequestsClosed h")
  case True
  then show ?thesis by (simp add: LanguageRuntime_closed)
next
  case False
  obtain r h' where l: "LanguageRuntime_load env runtime h = (r, h')"
    by (metis prod.exhaust)
  have s: "snd (LanguageRuntime env runtime h) = h'"
    using False l by (simp add: LanguageRuntime_snd)
  have rs: "resourcePlugins h' = resourcePlugins h"
    using LanguageRuntime_load_resource [of env runtime h] l by simp
  show ?thesis
  proof (cases "map_of (languagePlugins h) runtime")
    case (Some pl)
    then show ?thesis using LanguageRuntime_load_hit [OF Some, of env] l s by simp
  next
    case None
    obtain plug err where n: "NewLanguageRuntime env (trace h) runtime = (plug, err)"
      by (metis prod.exhaust)
    obtain rest where e: "prefix (trace h) (trace h')"
      "newEvents h h' = CallNewLanguageRuntime runtime plug err # rest" "list_all pluginEvent rest"
      using LanguageRuntime_load_events [OF l None n] by blast
    have "\<not> list_ex isConfigure rest"
      using e(3) pluginEvent_noConfigure by (rule list_all_not_ex)
    then show ?thesis
      using e rs s by (simp add: calm_def)
  qed
qed

lemma closePlugins_calm: "calm h (closePlugins env kind what al h)"
proof (induction al arbitrary: h)
  case Nil
  then show ?case by simp
next
  case (Cons kp rest)
  obtain k plug where kp: "kp = (k, plug)" by (cases kp)
  define err where "err = PluginClose env (trace h) kind (Plugin plug)"
  define h1 where "h1 = emit (CallPluginClose kind (Plugin plug) err) h"
  define h2 where "h2 = (case err of
      Some e \<Rightarrow> emit (CallInfof (''Error closing '' @ [CHR 0x27] @ Name (Info plug) @
                                     [CHR 0x27, CHR '' ''] @ what @
                                     '' plugin during shutdown; ignoring: '' @ e)) h1
    | None \<Rightarrow> h1)"
  have "calm h h1" by (simp add: h1_def calm_emit)
  moreover have "calm h1 h2" by (simp add: h2_def calm_emit split: option.split)
  ultimately have "calm h h2" by (rule calm_trans)
  then have "calm h (closePlugins env kind what rest h2)"
    using Cons.IH by (rule calm_trans)
  moreover have "closePlugins env kind what (kp # rest) h = closePlugins env kind what rest h2"
    unfolding kp h2_def h1_def err_def by (simp add: Let_def)
  ultimately show ?case by simp
qed

lemma closing_calm: "calm h (closing env h)"
proof -
  define h1 where "h1 = closePlugins env AnalyzerPlugin ''analyzer'' (analyzerPlugins h) h"
  define h2 where "h2 = closePlugins env ResourcePlugin ''resource'' (resourcePlugins h1) h1"
  define h3 where "h3 = closePlugins env LanguagePlugin ''language'' (languagePlugins h2) h2"
  have "calm h h1" unfolding h1_def by (rule closePlugins_calm)
  moreover have "calm h1 h2" unfolding h2_def by (rule closePlugins_calm)
  moreover have "calm h2 h3" unfolding h3_def by (rule closePlugins_calm)
  ultimately have "calm h h3" by (blast intro: calm_trans)
  moreover have "closing env h = h3"
    unfolding h3_def h2_def h1_def by (simp add: closing_def Let_def)
  ultimately show ?thesis by simp
qed

lemma calm_fields:
  assumes "calm h h1" "trace h2 = trace h1" "resourcePlugins h2 = [] \<or> resourcePlugins h2 = resourcePlugins h1"
  shows "calm h h2"
  using assms by (auto simp: calm_def newEvents_def)

lemma Close_calm: "calm h (snd (Close env h))"
proof -
  define h4 where
    "h4 = (closing env h)\<lparr>analyzerPlugins := [], languagePlugins := [], resourcePlugins := []\<rparr>"
  define h5 where "h5 = emit CloseLoadRequests (h4\<lparr>loadRequestsClosed := True\<rparr>)"
  have c4: "calm h h4"
    using closing_calm [of h env] by (rule calm_fields) (simp_all add: h4_def)
  have "calm h (h4\<lparr>loadRequestsClosed := True\<rparr>)"
    using c4 by (rule calm_fields) simp_all
  then have c5: "calm h h5"
    unfolding h5_def by (rule calm_trans) (simp add: calm_emit)
  have "calm h (emit (CallServerCancel (ServerCancel env (trace h5))) h5)"
    using c5 by (rule calm_trans) (simp add: calm_emit)
  then show ?thesis
    using c4 unfolding h5_def h4_def by (simp add: Close_unfold Let_def)
qed

lemma GetRequiredPlugins_calm: "calm h (snd (GetRequiredPlugins env info kinds h))"
proof -
  obtain x h1 where l: "LanguageRuntime env (Runtime info) h = (x, h1)"
    by (metis prod.exhaust)
  have g: "calm h h1" using LanguageRuntime_calm [of h env "Runtime info"] l by simp
  have e: "calm h (emit (CallLangGetRequiredPlugins a b c d) h1)" for a b c d
    using g by (rule calm_trans) (simp add: calm_emit)
  show ?thesis
    using l g e
    by (simp add: GetRequiredPlugins_def Let_def split: prod.split outcome.split option.split)
qed

subsection \<open>Provider configures a new provider once\<close>

lemma set_alist_update: "set (AList.update k v al) \<subseteq> insert (k, v) (set al)"
  by (induction al) auto

lemma Provider_memoize_cr:
  assumes "Provider_memoize env pkg plug info h = (r, h')"
  shows "(\<forall>q. configureResults q (trace h') = configureResults q (trace h)) \<and>
         (\<forall>kp \<in> set (resourcePlugins h'). kp \<in> set (resourcePlugins h) \<or> Plugin (snd kp) = plug)"
proof -
  define h1 where "h1 = h\<lparr>plugins := plugins h @ [info],
      resourcePlugins := AList.update pkg \<lparr>Plugin = plug, Info = info\<rparr> (resourcePlugins h)\<rparr>"
  have h': "h' = snd (fireOnPluginLoad env info h1)"
    using assms by (auto simp: Provider_memoize_def h1_def Let_def split: prod.splits option.splits)
  have t: "configureResults q (trace h') = configureResults q (trace h)" for q
    unfolding h' by (simp add: fireOnPluginLoad_def h1_def Let_def split: option.split)
  have "resourcePlugins h' = resourcePlugins h1"
    unfolding h' by (simp add: fireOnPluginLoad_def Let_def split: option.split)
  then have "set (resourcePlugins h') \<subseteq> insert (pkg, \<lparr>Plugin = plug, Info = info\<rparr>) (set (resourcePlugins h))"
    by (simp add: h1_def set_alist_update)
  then show ?thesis using t by auto
qed

lemma crStep_after:
  assumes "crStep plug h1 h'" "resourcePlugins h1 = resourcePlugins h"
    "\<And>q. configureResults q (trace h1) = configureResults q (trace h)"
  shows "crStep plug h h'"
  using assms by (simp add: crStep_def)

lemma crStep_same:
  assumes "resourcePlugins h' = resourcePlugins h"
    "\<And>q. q \<noteq> plug \<Longrightarrow> configureResults q (trace h') = configureResults q (trace h)"
  shows "crStep plug h h'"
  using assms by (simp add: crStep_def)

lemma getProviderConfig_cr:
  assumes "getProviderConfig env pkg h = ((cfg, err), h1)"
  shows "resourcePlugins h1 = resourcePlugins h \<and>
         configureResults q (trace h1) = configureResults q (trace h)"
  using assms by (auto simp: getProviderConfig_def split: option.splits prod.splits)

lemma Provider_configure_cr:
  assumes "Provider_configure env pkg plug info h = (r, h')"
  shows "crStep plug h h'"
proof -
  obtain cfg err h1 where c: "getProviderConfig env pkg h = ((cfg, err), h1)"
    by (metis prod.exhaust)
  note g = getProviderConfig_cr [OF c]
  show ?thesis
  proof (cases err)
    case (Some e)
    then have "h' = h1" using assms c by (simp add: Provider_configure_def)
    then show ?thesis using g by (intro crStep_same) simp_all
  next
    case None
    define e2 where "e2 = Configure env (trace h1) plug cfg"
    define h2 where "h2 = emit (CallConfigure plug cfg e2) h1"
    have u: "Provider_configure env pkg plug info h =
        (case e2 of
           Some e \<Rightarrow> ((None, Some (Wrapf e (''failed to configure pkg '' @ [CHR 0x27] @ pkg @
                                             [CHR 0x27] @ '' resource provider''))), h2)
         | None \<Rightarrow> Provider_memoize env pkg plug info h2)"
      using c None unfolding e2_def h2_def
      by (simp add: Provider_configure_def callConfigure_def Let_def)
    show ?thesis
    proof (cases e2)
      case (Some e)
      then have "h' = h2" using assms u by simp
      then show ?thesis using g by (intro crStep_same) (simp_all add: h2_def)
    next
      case n2: None
      then have "Provider_memoize env pkg plug info h2 = (r, h')"
        using assms u by simp
      note m = Provider_memoize_cr [OF this]
      have "configureResults q (trace h') = configureResults q (trace h)" if "q \<noteq> plug" for q
        using m g that by (simp add: h2_def)
      moreover have "configureResults plug (trace h') = configureResults plug (trace h) @ [None]"
        using m g n2 by (simp add: h2_def)
      moreover have "\<forall>kp \<in> set (resourcePlugins h'). kp \<in> set (resourcePlugins h) \<or> Plugin (snd kp) = plug"
        using m g by (simp add: h2_def)
      ultimately show ?thesis by (simp add: crStep_def)
    qed
  qed
qed

lemma Provider_bind_cr:
  fixes h :: "'v host"
  assumes "Provider_bind env pkg v plug h = (r, h')"
  shows "crStep plug h h'"
proof -
  obtain info infoerr where g: "GetPluginInfo env (trace h) ResourcePlugin plug = (info, infoerr)"
    by (metis prod.exhaust)
  define ev where "ev = CallGetPluginInfo ResourcePlugin plug info infoerr"
  define h1 where "h1 = emit ev h"
  note u = Provider_bind_unfold [OF g, of pkg v, folded ev_def, folded h1_def]
  show ?thesis
  proof (cases infoerr)
    case (Some e)
    then have "h' = h1" using assms u by auto
    then show ?thesis by (intro crStep_same) (simp_all add: h1_def ev_def)
  next
    case None
    define h2 where "h2 = warnVersion env v info h1"
    have "Provider_configure env pkg plug info h2 = (r, h')"
      using assms u None by (simp add: h2_def)
    then have "crStep plug h2 h'" by (rule Provider_configure_cr)
    moreover have "resourcePlugins h2 = resourcePlugins h"
      by (simp add: h2_def h1_def warnVersion_def)
    moreover have "configureResults q (trace h2) = configureResults q (trace h)" for q
      by (simp add: h2_def h1_def ev_def warnVersion_def)
    ultimately show ?thesis by (rule crStep_after)
  qed
qed

lemma crStep_confStep:
  assumes "crStep plug h h'" "configureResults plug (trace h) = []"
  shows "confStep h h'"
proof -
  have s: "configureResults q (trace h') = configureResults q (trace h)"
    if "configureResults q (trace h) \<noteq> []" for q
    using assms that by (auto simp: crStep_def)
  have "configuredOnce h'" if c: "configuredOnce h"
  proof -
    have old: "configureResults (Plugin (snd kp)) (trace h') = [None]"
      if "kp \<in> set (resourcePlugins h)" for kp
    proof -
      have "configureResults (Plugin (snd kp)) (trace h) = [None]"
        using c that by (simp add: configuredOnce_def list_all_iff)
      then show ?thesis using s [of "Plugin (snd kp)"] by simp
    qed
    show ?thesis
    proof (cases "resourcePlugins h' = resourcePlugins h")
      case True
      then show ?thesis using old by (simp add: configuredOnce_def list_all_iff)
    next
      case False
      then have n: "configureResults plug (trace h') = [None]"
        and k: "\<forall>kp \<in> set (resourcePlugins h'). kp \<in> set (resourcePlugins h) \<or> Plugin (snd kp) = plug"
        using assms by (auto simp: crStep_def)
      show ?thesis
        unfolding configuredOnce_def list_all_iff using old n k by auto
    qed
  qed
  then show ?thesis using s by (simp add: confStep_def)
qed

lemma Provider_load_confStep:
  assumes f: "freshProviders env"
  shows "confStep h (snd (Provider_load env pkg v h))"
proof (cases "map_of (resourcePlugins h) pkg")
  case (Some pl)
  then show ?thesis by (simp add: Provider_load_hit)
next
  case None
  obtain plug err where n: "NewProvider env (trace h) pkg v = (plug, err)"
    by (metis prod.exhaust)
  define h1 where "h1 = emit (CallNewProvider pkg v plug err) h"
  have c1: "calm h h1" by (simp add: h1_def calm_emit)
  show ?thesis
  proof (cases "err = None \<and> plug \<noteq> None")
    case False
    then have "snd (Provider_load env pkg v h) = h1"
      using Provider_load_miss [OF None n] by (auto simp: h1_def)
    then show ?thesis using c1 by (simp add: calm_confStep)
  next
    case True
    then obtain p where p: "plug = Some p" by auto
    obtain r h' where b: "Provider_bind env pkg v p h1 = (r, h')"
      by (metis prod.exhaust)
    have s: "snd (Provider_load env pkg v h) = h'"
      using Provider_load_miss [OF None n] True p b by (simp add: h1_def)
    have "configureResults p (trace h) = []"
      using f n p unfolding freshProviders_def by (metis fst_conv)
    then have "configureResults p (trace h1) = []"
      by (simp add: h1_def)
    then have "confStep h1 h'"
      using Provider_bind_cr [OF b] by (intro crStep_confStep)
    then show ?thesis
      unfolding s using calm_confStep [OF c1] by (blast intro: confStep_trans)
  qed
qed

lemma Provider_confStep: "freshProviders env \<Longrightarrow> confStep h (snd (Provider env pkg v h))"
  by (cases "loadRequestsClosed h") (simp_all add: Provider_closed Provider_snd Provider_load_confStep)

lemma ensurePlugin_confStep:
  "freshProviders env \<Longrightarrow> confStep h (snd (ensurePlugin env plugin kinds h))"
  by (cases "Kind plugin")
    (simp_all add: ensurePlugin_def Analyzer_calm LanguageRuntime_calm Provider_confStep calm_confStep)

lemma EnsurePlugins_loop_confStep:
  assumes "freshProviders env"
  shows "confStep h (snd (EnsurePlugins_loop env plugs kinds result h))"
proof (induction plugs arbitrary: result h)
  case Nil
  then show ?case by simp
next
  case (Cons plugin rest)
  obtain r h1 where e: "ensurePlugin env plugin kinds h = (r, h1)"
    by (metis prod.exhaust)
  have g: "confStep h h1" using ensurePlugin_confStep [OF assms, of h plugin kinds] e by simp
  show ?case
    using e g Cons.IH [of h1] by (auto split: outcome.split option.split intro: confStep_trans)
qed

lemma call_confStep:
  assumes "freshProviders env"
  shows "confStep h (snd (call env r h))"
  using assms
  by (cases r)
    (simp_all add: Log_def calm_emit calm_confStep Analyzer_calm LanguageRuntime_calm
      Provider_confStep EnsurePlugins_def EnsurePlugins_loop_confStep GetRequiredPlugins_calm
      Close_calm)

lemma after_confStep:
  assumes "freshProviders env"
  shows "confStep h (after env reqs h)"
proof (induction reqs arbitrary: h)
  case Nil
  then show ?case by simp
next
  case (Cons r rs)
  obtain x h1 where c: "call env r h = (x, h1)" by (metis prod.exhaust)
  have "confStep h h1" using call_confStep [OF assms, of h r] c by simp
  moreover have "confStep h1 (after env rs h1)" by (rule Cons.IH)
  ultimately show ?case using c by (auto split: outcome.split intro: confStep_trans)
qed

lemma call_returns_provider:
  assumes "call env r h = (Return (RepProvider (Some p) e), h1)"
  shows "\<exists>pkg v. Provider env pkg v h = (Return (Some p, e), h1)"
  using assms
  by (cases r) (auto simp: mapReturn_def split: prod.splits outcome.splits)

lemma run_configured:
  assumes f: "freshProviders env"
  shows "configuredOnce h0 \<Longrightarrow> (Return (RepProvider (Some p) None), h) \<in> set (run env reqs h0) \<Longrightarrow>
         configureResults p (trace h) = [None] \<and>
         configureResults p (trace (after env reqs h0)) = [None]"
proof (induction reqs arbitrary: h0)
  case Nil
  then show ?case by simp
next
  case (Cons r rs)
  obtain x h1 where c: "call env r h0 = (x, h1)" by (metis prod.exhaust)
  have s1: "confStep h0 h1" using call_confStep [OF f, of h0 r] c by simp
  then have i1: "configuredOnce h1" using Cons.prems(1) by (simp add: confStep_def)
  show ?case
  proof (cases x)
    case (Panic m)
    then show ?thesis using Cons.prems(2) c by simp
  next
    case (Return y)
    then have a: "after env (r # rs) h0 = after env rs h1"
      and m: "(Return (RepProvider (Some p) None), h) = (Return y, h1) \<or>
              (Return (RepProvider (Some p) None), h) \<in> set (run env rs h1)"
      using Cons.prems(2) c by auto
    from m show ?thesis
    proof
      assume "(Return (RepProvider (Some p) None), h) \<in> set (run env rs h1)"
      then show ?thesis using Cons.IH [OF i1] a by simp
    next
      assume e: "(Return (RepProvider (Some p) None), h) = (Return y, h1)"
      then have "call env r h0 = (Return (RepProvider (Some p) None), h)"
        using c Return by simp
      then obtain pkg v where "Provider env pkg v h0 = (Return (Some p, None), h)"
        using call_returns_provider by blast
      then obtain pl where "map_of (resourcePlugins h) pkg = Some pl" "Plugin pl = p"
        using Provider_result by blast
      then have "(pkg, pl) \<in> set (resourcePlugins h)" "Plugin pl = p"
        by (simp_all add: map_of_SomeD)
      then have now: "configureResults p (trace h) = [None]"
        using i1 e by (auto simp: configuredOnce_def list_all_iff)
      have "confStep h (after env rs h)" by (rule after_confStep [OF f])
      then have "configureResults p (trace (after env rs h)) = [None]"
        using now by (simp add: confStep_def)
      then show ?thesis using now a e by simp
    qed
  qed
qed

subsection \<open>Fresh providers in the concrete environments\<close>

lemma configuredOnce_new: "configuredOnce NewDefaultHost"
  by (simp add: configuredOnce_def NewDefaultHost_def)

lemma failed_configure_step: "CallConfigure p cfg (Some e) \<in> set evs \<Longrightarrow> list_ex failedStep evs"
  by (auto simp: list_ex_iff intro: bexI [where x = "CallConfigure p cfg (Some e)"])

lemma configureResults_le:
  "configureResults p tr \<noteq> [] \<Longrightarrow> p \<le> sum_list (map usedHandle tr)"
proof (induction tr)
  case Nil
  then show ?case by simp
next
  case (Cons e tr)
  then show ?case by (cases e) (auto split: if_splits)
qed

lemma freshHandle_fresh: "configureResults (freshHandle tr) tr = []"
  using configureResults_le [of "freshHandle tr" tr] by (auto simp: freshHandle_def)

lemma freshProviders_workingEnv: "freshProviders (workingEnv info)"
  by (simp add: freshProviders_def workingEnv_def freshHandle_fresh)

lemma freshProviders_configureFailsEnv: "freshProviders configureFailsEnv"
  by (simp add: freshProviders_def configureFailsEnv_def workingEnv_def freshHandle_fresh)

subsection \<open>Counting spawns\<close>





section \<open>The claims of the specification\<close>

text \<open>The definitions a concrete run unfolds.\<close>

lemmas eval_defs =
  Provider_def Provider_load_def Provider_bind_def Provider_configure_def Provider_memoize_def
  Analyzer_def Analyzer_load_def Analyzer_bind_def Analyzer_memoize_def
  LanguageRuntime_def LanguageRuntime_load_def LanguageRuntime_bind_def LanguageRuntime_memoize_def
  loadPlugin_def unwrapPlugin_def callGetPluginInfo_def fireOnPluginLoad_def
  getProviderConfig_def callConfigure_def warnVersion_def versionWarning_def versionMismatch_def
  emit_def Close_def mapReturn_def ListPlugins_def Let_def
  workingEnv_def aws_def freshHandle_def NewDefaultHost_def semverGTE_def semverString_def
  registryInfos_def newEvents_def ver_def nilEnv_def
  GetRequiredPlugins_def appendAnalyzers_def AnalyzerPlugins_def LanguagePlugins_def
  ResourcePlugins_def AllPlugins_def policy_def failingInfoEnv_def callbackEnv_def
  sameRegistry_def Wrapf_def

subsection \<open>C1: a provider is configured once before it is returned\<close>

text \<open>
  Claim C1. Let \<open>NewProvider\<close> return new objects, on which \<open>Configure\<close> has not been
  called. Then for every handle that a \<open>Provider\<close> call returns in a sequence of calls on a
  new host, the history up to that return holds exactly one \<open>Configure\<close> call on that
  provider, a successful one, and so does the history at the end of the sequence. If a
  \<open>Configure\<close> call made by \<open>Provider\<close> fails, \<open>Provider\<close> returns an error and no
  handle, and the maps and the flat list are as before.
\<close>

theorem provider_configured_exactly_once:
  assumes "freshProviders env"
  shows "((Return (RepProvider (Some p) None), h) \<in> set (run env reqs NewDefaultHost) \<longrightarrow>
            configureResults p (trace h) = [None] \<and>
            configureResults p (trace (after env reqs NewDefaultHost)) = [None]) \<and>
         (CallConfigure q cfg (Some e) \<in> set (newEvents h0 (snd (Provider env pkg v h0))) \<longrightarrow>
            (\<exists>err. fst (Provider env pkg v h0) = Return (None, Some err)) \<and>
            sameRegistry h0 (snd (Provider env pkg v h0)))"
proof (intro conjI impI)
  assume "(Return (RepProvider (Some p) None), h) \<in> set (run env reqs NewDefaultHost)"
  then have "configureResults p (trace h) = [None] \<and>
             configureResults p (trace (after env reqs NewDefaultHost)) = [None]"
    using run_configured [OF assms configuredOnce_new] by blast
  then show "configureResults p (trace h) = [None]"
    and "configureResults p (trace (after env reqs NewDefaultHost)) = [None]"
    by simp_all
next
  assume "CallConfigure q cfg (Some e) \<in> set (newEvents h0 (snd (Provider env pkg v h0)))"
  then have f: "list_ex failedStep (newEvents h0 (snd (Provider env pkg v h0)))"
    by (rule failed_configure_step)
  show "\<exists>err. fst (Provider env pkg v h0) = Return (None, Some err)"
    and "sameRegistry h0 (snd (Provider env pkg v h0))"
    using Provider_summary [where env = env and pkg = pkg and v = v and h = h0,
        OF surjective_pairing] f by auto
qed

text \<open>
  Two calls for aws: both return provider 1, configured once. And a provider that rejects
  its configuration: the call fails and the registry stays empty.
\<close>

theorem provider_configured_exactly_once_witness:
  "freshProviders (workingEnv (aws 1 5 0)) \<and>
   map fst (run (workingEnv (aws 1 5 0)) [ReqProvider ''aws'' None, ReqProvider ''aws'' None]
     NewDefaultHost) =
     [Return (RepProvider (Some 1) None), Return (RepProvider (Some 1) None)] \<and>
   configureResults 1
     (trace (after (workingEnv (aws 1 5 0)) [ReqProvider ''aws'' None, ReqProvider ''aws'' None]
        NewDefaultHost)) = [None] \<and>
   freshProviders configureFailsEnv \<and>
   CallConfigure 1 [] (Some ''bad credentials'') \<in>
     set (newEvents NewDefaultHost (snd (Provider configureFailsEnv ''aws'' None NewDefaultHost))) \<and>
   sameRegistry NewDefaultHost (snd (Provider configureFailsEnv ''aws'' None NewDefaultHost))"
proof -
  define h1 where
    "h1 = snd (Provider (workingEnv (aws 1 5 0)) ''aws'' None (NewDefaultHost :: semver host))"
  have r: "run (workingEnv (aws 1 5 0)) [ReqProvider ''aws'' None, ReqProvider ''aws'' None]
     NewDefaultHost = [(Return (RepProvider (Some 1) None), h1), (Return (RepProvider (Some 1) None), h1)]"
    unfolding h1_def by (simp add: eval_defs)
  then have m: "(Return (RepProvider (Some 1) None), h1) \<in>
      set (run (workingEnv (aws 1 5 0)) [ReqProvider ''aws'' None, ReqProvider ''aws'' None]
        NewDefaultHost)"
    by simp
  have c: "CallConfigure 1 [] (Some ''bad credentials'') \<in>
     set (newEvents NewDefaultHost (snd (Provider configureFailsEnv ''aws'' None NewDefaultHost)))"
    by (simp add: eval_defs configureFailsEnv_def)
  show ?thesis
    using provider_configured_exactly_once [OF freshProviders_workingEnv [of "aws 1 5 0"],
        where p = 1 and h = h1 and reqs = "[ReqProvider ''aws'' None, ReqProvider ''aws'' None]"
        and q = 1 and cfg = "[]" and e = "''bad credentials''" and pkg = "''aws''" and v = None
        and ?h0.0 = NewDefaultHost]
      provider_configured_exactly_once [OF freshProviders_configureFailsEnv,
        where p = 1 and h = h1 and reqs = "[ReqProvider ''aws'' None, ReqProvider ''aws'' None]"
        and q = 1 and cfg = "[]" and e = "''bad credentials''" and pkg = "''aws''" and v = None
        and ?h0.0 = NewDefaultHost]
      m c r freshProviders_workingEnv freshProviders_configureFailsEnv
    by simp
qed

subsection \<open>C2: a loaded provider is served from the cache\<close>

text \<open>
  Claim C2. If \<open>Provider(pkg, nil)\<close> succeeds and returns a handle, then after any further
  calls on the host other than \<open>Close\<close>, \<open>Provider(pkg, nil)\<close> succeeds again, returns
  the same handle and leaves the host as it was: nothing is spawned, nothing is called.
\<close>

theorem provider_cached_until_close:
  assumes "Provider env pkg None h = (Return (Some p, None), h1)"
    and "ReqClose \<notin> set reqs"
  shows "Provider env pkg None (after env reqs h1) =
           (Return (Some p, None), after env reqs h1)"
proof -
  obtain pl where pl: "\<not> loadRequestsClosed h1" "map_of (resourcePlugins h1) pkg = Some pl"
    "Plugin pl = p"
    using Provider_result [OF assms(1)] by blast
  have g: "grows h1 (after env reqs h1)"
    using assms(2) by (rule after_grows)
  have "\<not> loadRequestsClosed (after env reqs h1)"
    using g pl(1) by (simp add: grows_def)
  moreover have "map_of (resourcePlugins (after env reqs h1)) pkg = Some pl"
    using g pl(2) by (rule grows_cached)
  ultimately show ?thesis
    using pl(3) by (simp add: Provider_hit)
qed

text \<open>
  The scenario S1: the first call loads aws, an analyzer is loaded in between, and the
  second call for aws gets provider 1 again.
\<close>

theorem provider_cached_until_close_witness:
  "Provider (workingEnv (aws 1 5 0)) ''aws'' None
     (after (workingEnv (aws 1 5 0)) [ReqAnalyzer ''policy'']
        (snd (Provider (workingEnv (aws 1 5 0)) ''aws'' None NewDefaultHost))) =
   (Return (Some 1, None),
    after (workingEnv (aws 1 5 0)) [ReqAnalyzer ''policy'']
        (snd (Provider (workingEnv (aws 1 5 0)) ''aws'' None NewDefaultHost)))"
proof -
  have "Provider (workingEnv (aws 1 5 0)) ''aws'' None NewDefaultHost =
          (Return (Some 1, None), snd (Provider (workingEnv (aws 1 5 0)) ''aws'' None NewDefaultHost))"
    by (simp add: eval_defs)
  moreover have "ReqClose \<notin> set [ReqAnalyzer ''policy'' :: semver request]"
    by simp
  ultimately show ?thesis
    by (rule provider_cached_until_close)
qed

text \<open>
  Without the restriction to calls before \<open>Close\<close> the claim fails: \<open>Close\<close> closes the
  channel of load requests, and the next \<open>Provider\<close> call panics on sending to it.
\<close>

theorem provider_after_close_counterexample:
  "map fst (run (workingEnv (aws 1 5 0)) [ReqProvider ''aws'' None, ReqClose, ReqProvider ''aws'' None]
     NewDefaultHost) =
   [Return (RepProvider (Some 1) None), Return (RepClose None), Panic ''send on closed channel'']"
  by (simp add: eval_defs)

subsection \<open>C3: the version check of a cache hit\<close>

text \<open>
  Claim C3. On a host reached by any sequence of calls, if a provider for \<open>pkg\<close> is cached
  and \<open>Provider(pkg, v)\<close> is called with a version \<open>v\<close>, the call returns the error of
  lines 200 to 210 exactly when the cached plugin has no version or one that is not
  \<open>GTE v\<close>, and the cached handle otherwise. In both cases the host is left as it was:
  no process is spawned, the maps and the flat list are unchanged.
\<close>

theorem cached_version_check:
  assumes "h = after env reqs NewDefaultHost"
    and "map_of (resourcePlugins h) pkg = Some plug"
  shows "Provider env pkg (Some v) h =
           (Return (case versionMismatch env v (Version (Info plug)) of
                      Some e \<Rightarrow> (None, Some e)
                    | None \<Rightarrow> (Some (Plugin plug), None)), h) \<and>
         (versionMismatch env v (Version (Info plug)) \<noteq> None \<longleftrightarrow>
            Version (Info plug) = None \<or> \<not> GTE env (the (Version (Info plug))) v)"
proof -
  have "registryInvariant h"
    unfolding assms(1) using registryInvariant_new by (rule after_invariant)
  then have "\<not> loadRequestsClosed h"
    using assms(2) by (auto simp: registryInvariant_def)
  then show ?thesis
    using assms(2) by (auto simp: Provider_hit versionMismatch_def split: option.splits)
qed

text \<open>
  The scenario S2: aws 1.5.0 is loaded, version 2.0.0 is requested.
\<close>

theorem cached_version_check_witness:
  "map_of (resourcePlugins (after (workingEnv (aws 1 5 0)) [ReqProvider ''aws'' (Some (ver 1 2 0))]
      NewDefaultHost)) ''aws'' = Some \<lparr>Plugin = 1, Info = aws 1 5 0\<rparr> \<and>
   Provider (workingEnv (aws 1 5 0)) ''aws'' (Some (ver 2 0 0))
     (after (workingEnv (aws 1 5 0)) [ReqProvider ''aws'' (Some (ver 1 2 0))] NewDefaultHost) =
   (Return (None, Some ''resource plugin version 2.0.0 requested, but version 1.5.0 was found''),
    after (workingEnv (aws 1 5 0)) [ReqProvider ''aws'' (Some (ver 1 2 0))] NewDefaultHost)"
proof -
  have c: "map_of (resourcePlugins (after (workingEnv (aws 1 5 0)) [ReqProvider ''aws'' (Some (ver 1 2 0))]
      NewDefaultHost)) ''aws'' = Some \<lparr>Plugin = 1, Info = aws 1 5 0\<rparr>"
    by (simp add: eval_defs)
  have m: "versionMismatch (workingEnv (aws 1 5 0)) (ver 2 0 0) (Version (Info \<lparr>Plugin = 1, Info = aws 1 5 0\<rparr>)) =
      Some ''resource plugin version 2.0.0 requested, but version 1.5.0 was found''"
    by code_simp
  show ?thesis
    using cached_version_check [OF refl c, of "ver 2 0 0"] c unfolding m by simp
qed

subsection \<open>C4: the warning for a stale plugin\<close>

text \<open>
  Claim C4. On an open host, when \<open>Provider(pkg, v)\<close> misses the cache, the plugin starts
  and reports \<open>info\<close>, the call emits one warning if the reported version is missing or
  not \<open>GTE v\<close> and \<open>PULUMI_DEV\<close> is not set, and no warning otherwise. The warning is the
  text "resource plugin NAME is expected to have version >=V, but has ACTUAL" followed by
  "; the wrong version may be on your path, or this may be a bug in the plugin". The version
  check itself never fails the load: unless fetching the configuration, \<open>Configure\<close> or the
  load callback fails, the call returns the new provider and the provider is cached.
\<close>

theorem stale_version_warning:
  fixes h :: "'v host"
  assumes o: "\<not> loadRequestsClosed h"
    and m: "map_of (resourcePlugins h) pkg = None"
    and n: "NewProvider env (trace h) pkg (Some v) = (Some p, None)"
    and g: "GetPluginInfo env (trace h @ [CallNewProvider pkg (Some v) (Some p) None])
              ResourcePlugin p = (info, None)"
    and r: "Provider env pkg (Some v) h = (x, h')"
  shows "filter isWarning (newEvents h h') =
           (if \<not> PULUMI_DEV env \<and> (Version info = None \<or> \<not> GTE env (the (Version info)) v)
            then [CallWarningf
                    (''resource plugin '' @ Name info @ '' is expected to have version >='' @
                     VString env v @ '', but has '' @
                     (case Version info of None \<Rightarrow> [] | Some iv \<Rightarrow> VString env iv) @
                     ''; the wrong version may be on your path, or this may be a bug in the plugin'')]
            else []) \<and>
         (\<not> list_ex failedStep (newEvents h h') \<and> \<not> list_ex failedCallback (newEvents h h') \<longrightarrow>
            x = Return (Some p, None) \<and>
            (\<exists>pl. map_of (resourcePlugins h') pkg = Some pl \<and> Plugin pl = p))"
proof -
  define e1 :: "'v event" where "e1 = CallNewProvider pkg (Some v) (Some p) None"
  define e2 :: "'v event" where "e2 = CallGetPluginInfo ResourcePlugin p info None"
  define w :: "'v event list" where
    "w = (if \<not> PULUMI_DEV env \<and> (Version info = None \<or> \<not> GTE env (the (Version info)) v)
          then [CallWarningf (versionWarning env v info)] else [])"
  define h3 where "h3 = warnVersion env (Some v) info (emit e2 (emit e1 h))"
  obtain q e where l: "Provider_load env pkg (Some v) h = ((q, e), h')"
    and x: "x = Return (if q = None \<or> e \<noteq> None then (None, e) else (q, None))"
    using r o by (cases "Provider_load env pkg (Some v) h")
      (auto simp: Provider_def unwrapPlugin_def split: if_splits)
  have "Provider_load env pkg (Some v) h = Provider_bind env pkg (Some v) p (emit e1 h)"
    using Provider_load_miss [OF m n] by (simp add: e1_def)
  also have "\<dots> = Provider_configure env pkg p info h3"
    using g by (simp add: Provider_bind_unfold [where info = info and infoerr = None]
        e1_def e2_def h3_def)
  finally have c: "Provider_configure env pkg p info h3 = ((q, e), h')"
    using l by simp
  have lo: "loadOutcome configureEvent resourcePlugins pkg p h3 (q, e) h'"
    using c by (rule Provider_configure_outcome)
  have t3: "trace h3 = trace h @ (e1 # e2 # w)"
    using warnVersion_events [of "emit e2 (emit e1 h)" env "Some v" info]
    by (simp add: h3_def w_def)
  have p3: "prefix (trace h) (trace h3)" "prefix (trace h3) (trace h')"
    using t3 lo by (simp_all add: loadOutcome_def)
  have ne: "newEvents h h' = (e1 # e2 # w) @ newEvents h3 h'"
    using newEvents_trans [OF p3] t3 by (simp add: newEvents_append)
  have nw: "filter isWarning (newEvents h3 h') = []"
    using lo by (intro list_all_filter_none [where Q = configureEvent] configureEvent_noWarning)
      (simp_all add: loadOutcome_def)
  have first: "filter isWarning (newEvents h h') = w"
    unfolding ne using nw by (simp add: e1_def e2_def w_def)
  have fs: "list_ex failedStep (newEvents h h') = list_ex failedStep (newEvents h3 h')"
    and fc: "list_ex failedCallback (newEvents h h') = list_ex failedCallback (newEvents h3 h')"
    unfolding ne by (simp_all add: e1_def e2_def w_def)
  have second: "x = Return (Some p, None) \<and>
      (\<exists>pl. map_of (resourcePlugins h') pkg = Some pl \<and> Plugin pl = p)"
    if "\<not> list_ex failedStep (newEvents h h')" "\<not> list_ex failedCallback (newEvents h h')"
    using lo that x unfolding fs fc loadOutcome_def by (auto split: option.splits)
  show ?thesis
    using first second by (simp add: w_def versionWarning_def)
qed

text \<open>
  The scenario S3: version 1.5.0 is requested and the plugin found is aws 1.2.0. The same
  with \<open>PULUMI_DEV\<close> set: no warning.
\<close>

theorem stale_version_warning_witness:
  "filter isWarning (newEvents NewDefaultHost
     (snd (Provider (workingEnv (aws 1 2 0)) ''aws'' (Some (ver 1 5 0)) NewDefaultHost))) =
     [CallWarningf (''resource plugin aws is expected to have version >=1.5.0, but has 1.2.0'' @
        ''; the wrong version may be on your path, or this may be a bug in the plugin'')] \<and>
   fst (Provider (workingEnv (aws 1 2 0)) ''aws'' (Some (ver 1 5 0)) NewDefaultHost) =
     Return (Some 1, None) \<and>
   filter isWarning (newEvents NewDefaultHost
     (snd (Provider devEnv ''aws'' (Some (ver 1 5 0)) NewDefaultHost))) = [] \<and>
   fst (Provider devEnv ''aws'' (Some (ver 1 5 0)) NewDefaultHost) = Return (Some 1, None)"
proof -
  have o: "\<not> loadRequestsClosed (NewDefaultHost :: semver host)"
    and m: "map_of (resourcePlugins (NewDefaultHost :: semver host)) ''aws'' = None"
    and n: "NewProvider (workingEnv (aws 1 2 0)) (trace NewDefaultHost) ''aws'' (Some (ver 1 5 0)) =
              (Some 1, None)"
    and g: "GetPluginInfo (workingEnv (aws 1 2 0))
              (trace NewDefaultHost @ [CallNewProvider ''aws'' (Some (ver 1 5 0)) (Some 1) None])
              ResourcePlugin 1 = (aws 1 2 0, None)"
    and n': "NewProvider devEnv (trace NewDefaultHost) ''aws'' (Some (ver 1 5 0)) = (Some 1, None)"
    and g': "GetPluginInfo devEnv
              (trace NewDefaultHost @ [CallNewProvider ''aws'' (Some (ver 1 5 0)) (Some 1) None])
              ResourcePlugin 1 = (aws 1 2 0, None)"
    by (simp_all add: NewDefaultHost_def workingEnv_def freshHandle_def devEnv_def)
  have s: "\<not> list_ex failedStep (newEvents NewDefaultHost
             (snd (Provider (workingEnv (aws 1 2 0)) ''aws'' (Some (ver 1 5 0)) NewDefaultHost)))"
    "\<not> list_ex failedCallback (newEvents NewDefaultHost
             (snd (Provider (workingEnv (aws 1 2 0)) ''aws'' (Some (ver 1 5 0)) NewDefaultHost)))"
    "\<not> list_ex failedStep (newEvents NewDefaultHost
             (snd (Provider devEnv ''aws'' (Some (ver 1 5 0)) NewDefaultHost)))"
    "\<not> list_ex failedCallback (newEvents NewDefaultHost
             (snd (Provider devEnv ''aws'' (Some (ver 1 5 0)) NewDefaultHost)))"
    by (simp_all add: eval_defs devEnv_def)
  have d: "\<not> PULUMI_DEV (workingEnv (aws 1 2 0))"
    "\<not> GTE (workingEnv (aws 1 2 0)) (the (Version (aws 1 2 0))) (ver 1 5 0)"
    "PULUMI_DEV devEnv"
    by (simp_all add: workingEnv_def aws_def ver_def semverGTE_def devEnv_def)
  have t: "''resource plugin '' @ Name (aws 1 2 0) @ '' is expected to have version >='' @
       VString (workingEnv (aws 1 2 0)) (ver 1 5 0) @ '', but has '' @
       (case Version (aws 1 2 0) of None \<Rightarrow> [] | Some iv \<Rightarrow> VString (workingEnv (aws 1 2 0)) iv) @
       ''; the wrong version may be on your path, or this may be a bug in the plugin'' =
     ''resource plugin aws is expected to have version >=1.5.0, but has 1.2.0'' @
        ''; the wrong version may be on your path, or this may be a bug in the plugin''"
    by code_simp
  show ?thesis
    using stale_version_warning [OF o m n g surjective_pairing]
      stale_version_warning [OF o m n' g' surjective_pairing] s d unfolding t by simp
qed

text \<open>
  The warning of scenario S3 as the specification words it, ending after the version, is
  not what the host emits.
\<close>

theorem stale_version_warning_counterexample:
  "CallWarningf ''resource plugin aws is expected to have version >=1.5.0, but has 1.2.0'' \<notin>
     set (trace (snd (Provider (workingEnv (aws 1 2 0)) ''aws'' (Some (ver 1 5 0)) NewDefaultHost)))"
proof -
  have "trace (snd (Provider (workingEnv (aws 1 2 0)) ''aws'' (Some (ver 1 5 0)) NewDefaultHost)) =
    [CallNewProvider ''aws'' (Some (ver 1 5 0)) (Some 1) None,
     CallGetPluginInfo ResourcePlugin 1 (aws 1 2 0) None,
     CallWarningf (''resource plugin aws is expected to have version >=1.5.0, but has 1.2.0'' @
        ''; the wrong version may be on your path, or this may be a bug in the plugin''),
     CallConfigure 1 [] None]"
    by code_simp
  then show ?thesis by simp
qed

subsection \<open>C5: a load that fails after the spawn\<close>

text \<open>
  Claim C5. For each of \<open>Analyzer\<close>, \<open>LanguageRuntime\<close> and \<open>Provider\<close>: the host never
  closes a plugin during a load. If a step between the spawn and the insertion fails
  (\<open>GetPluginInfo\<close>, and for a provider fetching the configuration or \<open>Configure\<close>), the
  method returns no plugin and the error of that step (the error of \<open>GetPluginInfo\<close> as it
  is, the two others wrapped with the messages of lines 244 and 248), the maps and the flat
  list are as before, and the next request for the same key starts again with the
  constructor. If the load callback fails, the method returns no plugin and the callback's
  error wrapped with \<open>failed to perform plugin load callback\<close>, and the insertion has
  happened: the plugin the constructor returned is in its map under the key, its info is the
  new last entry of the flat list, and the two other maps are as before.
\<close>

theorem failed_load_is_not_memoized:
  "(case Analyzer env name h of (x, h') \<Rightarrow>
      \<not> list_ex isPluginClose (newEvents h h') \<and>
      (list_ex failedStep (newEvents h h') \<longrightarrow>
         (\<exists>err. x = Return (None, Some err)) \<and> sameRegistry h h' \<and>
         (\<exists>rest. newEvents h' (snd (Analyzer env name h')) =
            CallNewAnalyzer name (fst (NewAnalyzer env (trace h') name))
              (snd (NewAnalyzer env (trace h') name)) # rest)) \<and>
      (\<forall>k p info e. CallGetPluginInfo k p info (Some e) \<in> set (newEvents h h') \<longrightarrow>
         x = Return (None, Some e)) \<and>
      (\<forall>info e. CallOnPluginLoad info (Some e) \<in> set (newEvents h h') \<longrightarrow>
         x = Return (None, Some (Wrapf e ''failed to perform plugin load callback'')) \<and>
         (\<exists>p. fst (NewAnalyzer env (trace h) name) = Some p \<and>
              map_of (analyzerPlugins h') name = Some \<lparr>Plugin = p, Info = info\<rparr> \<and>
              analyzerPlugins h' =
                AList.update name \<lparr>Plugin = p, Info = info\<rparr> (analyzerPlugins h) \<and>
              ListPlugins h' = ListPlugins h @ [info] \<and>
              languagePlugins h' = languagePlugins h \<and> resourcePlugins h' = resourcePlugins h))) \<and>
   (case LanguageRuntime env runtime h of (x, h') \<Rightarrow>
      \<not> list_ex isPluginClose (newEvents h h') \<and>
      (list_ex failedStep (newEvents h h') \<longrightarrow>
         (\<exists>err. x = Return (None, Some err)) \<and> sameRegistry h h' \<and>
         (\<exists>rest. newEvents h' (snd (LanguageRuntime env runtime h')) =
            CallNewLanguageRuntime runtime (fst (NewLanguageRuntime env (trace h') runtime))
              (snd (NewLanguageRuntime env (trace h') runtime)) # rest)) \<and>
      (\<forall>k p info e. CallGetPluginInfo k p info (Some e) \<in> set (newEvents h h') \<longrightarrow>
         x = Return (None, Some e)) \<and>
      (\<forall>info e. CallOnPluginLoad info (Some e) \<in> set (newEvents h h') \<longrightarrow>
         x = Return (None, Some (Wrapf e ''failed to perform plugin load callback'')) \<and>
         (\<exists>p. fst (NewLanguageRuntime env (trace h) runtime) = Some p \<and>
              map_of (languagePlugins h') runtime = Some \<lparr>Plugin = p, Info = info\<rparr> \<and>
              languagePlugins h' =
                AList.update runtime \<lparr>Plugin = p, Info = info\<rparr> (languagePlugins h) \<and>
              ListPlugins h' = ListPlugins h @ [info] \<and>
              analyzerPlugins h' = analyzerPlugins h \<and> resourcePlugins h' = resourcePlugins h))) \<and>
   (case Provider env pkg v h of (x, h') \<Rightarrow>
      \<not> list_ex isPluginClose (newEvents h h') \<and>
      (list_ex failedStep (newEvents h h') \<longrightarrow>
         (\<exists>err. x = Return (None, Some err)) \<and> sameRegistry h h' \<and>
         (\<exists>rest. newEvents h' (snd (Provider env pkg v h')) =
            CallNewProvider pkg v (fst (NewProvider env (trace h') pkg v))
              (snd (NewProvider env (trace h') pkg v)) # rest)) \<and>
      (\<forall>k p info e. CallGetPluginInfo k p info (Some e) \<in> set (newEvents h h') \<longrightarrow>
         x = Return (None, Some e)) \<and>
      (\<forall>k cfg e. CallGetPackageConfig k cfg (Some e) \<in> set (newEvents h h') \<longrightarrow>
         x = Return (None, Some (Wrapf e (''failed to fetch configuration for pkg '' @
               [CHR 0x27] @ pkg @ [CHR 0x27] @ '' resource provider'')))) \<and>
      (\<forall>p cfg e. CallConfigure p cfg (Some e) \<in> set (newEvents h h') \<longrightarrow>
         x = Return (None, Some (Wrapf e (''failed to configure pkg '' @
               [CHR 0x27] @ pkg @ [CHR 0x27] @ '' resource provider'')))) \<and>
      (\<forall>info e. CallOnPluginLoad info (Some e) \<in> set (newEvents h h') \<longrightarrow>
         x = Return (None, Some (Wrapf e ''failed to perform plugin load callback'')) \<and>
         (\<exists>p. fst (NewProvider env (trace h) pkg v) = Some p \<and>
              map_of (resourcePlugins h') pkg = Some \<lparr>Plugin = p, Info = info\<rparr> \<and>
              resourcePlugins h' =
                AList.update pkg \<lparr>Plugin = p, Info = info\<rparr> (resourcePlugins h) \<and>
              ListPlugins h' = ListPlugins h @ [info] \<and>
              analyzerPlugins h' = analyzerPlugins h \<and> languagePlugins h' = languagePlugins h)))"
  unfolding case_prod_beta
  by (rule conjI [OF Analyzer_failed_detail
        conjI [OF LanguageRuntime_failed_detail Provider_failed_detail]]) simp_all

text \<open>
  Plugins of the three kinds whose \<open>GetPluginInfo\<close> fails, a provider whose configuration
  cannot be fetched, a provider that rejects its configuration, and plugins of the three
  kinds whose load callback fails.
\<close>

theorem failed_load_is_not_memoized_witness:
  "CallGetPluginInfo AnalyzerPlugin 1 policy (Some ''plugin info unavailable'') \<in>
     set (newEvents NewDefaultHost (snd (Analyzer failingInfoEnv ''policy'' NewDefaultHost))) \<and>
   fst (Analyzer failingInfoEnv ''policy'' NewDefaultHost) =
     Return (None, Some ''plugin info unavailable'') \<and>
   sameRegistry NewDefaultHost (snd (Analyzer failingInfoEnv ''policy'' NewDefaultHost)) \<and>
   CallGetPluginInfo LanguagePlugin 1 policy (Some ''plugin info unavailable'') \<in>
     set (newEvents NewDefaultHost (snd (LanguageRuntime failingInfoEnv ''nodejs'' NewDefaultHost))) \<and>
   fst (LanguageRuntime failingInfoEnv ''nodejs'' NewDefaultHost) =
     Return (None, Some ''plugin info unavailable'') \<and>
   sameRegistry NewDefaultHost (snd (LanguageRuntime failingInfoEnv ''nodejs'' NewDefaultHost)) \<and>
   CallGetPluginInfo ResourcePlugin 1 policy (Some ''plugin info unavailable'') \<in>
     set (newEvents NewDefaultHost (snd (Provider failingInfoEnv ''aws'' None NewDefaultHost))) \<and>
   fst (Provider failingInfoEnv ''aws'' None NewDefaultHost) =
     Return (None, Some ''plugin info unavailable'') \<and>
   sameRegistry NewDefaultHost (snd (Provider failingInfoEnv ''aws'' None NewDefaultHost)) \<and>
   CallGetPackageConfig ''aws'' [] (Some ''no configuration'') \<in>
     set (newEvents NewDefaultHost (snd (Provider configFailsEnv ''aws'' None NewDefaultHost))) \<and>
   fst (Provider configFailsEnv ''aws'' None NewDefaultHost) =
     Return (None, Some (Wrapf ''no configuration'' (''failed to fetch configuration for pkg '' @
       [CHR 0x27] @ ''aws'' @ [CHR 0x27] @ '' resource provider''))) \<and>
   sameRegistry NewDefaultHost (snd (Provider configFailsEnv ''aws'' None NewDefaultHost)) \<and>
   CallConfigure 1 [] (Some ''bad credentials'') \<in>
     set (newEvents NewDefaultHost (snd (Provider configureFailsEnv ''aws'' None NewDefaultHost))) \<and>
   fst (Provider configureFailsEnv ''aws'' None NewDefaultHost) =
     Return (None, Some (Wrapf ''bad credentials'' (''failed to configure pkg '' @
       [CHR 0x27] @ ''aws'' @ [CHR 0x27] @ '' resource provider''))) \<and>
   sameRegistry NewDefaultHost (snd (Provider configureFailsEnv ''aws'' None NewDefaultHost)) \<and>
   CallOnPluginLoad policy (Some ''callback refused'') \<in>
     set (newEvents NewDefaultHost (snd (Analyzer callbackEnv ''policy'' NewDefaultHost))) \<and>
   fst (Analyzer callbackEnv ''policy'' NewDefaultHost) =
     Return (None, Some (Wrapf ''callback refused'' ''failed to perform plugin load callback'')) \<and>
   map_of (analyzerPlugins (snd (Analyzer callbackEnv ''policy'' NewDefaultHost))) ''policy'' =
     Some \<lparr>Plugin = 1, Info = policy\<rparr> \<and>
   ListPlugins (snd (Analyzer callbackEnv ''policy'' NewDefaultHost)) = [policy] \<and>
   CallOnPluginLoad policy (Some ''callback refused'') \<in>
     set (newEvents NewDefaultHost (snd (LanguageRuntime callbackEnv ''nodejs'' NewDefaultHost))) \<and>
   fst (LanguageRuntime callbackEnv ''nodejs'' NewDefaultHost) =
     Return (None, Some (Wrapf ''callback refused'' ''failed to perform plugin load callback'')) \<and>
   map_of (languagePlugins (snd (LanguageRuntime callbackEnv ''nodejs'' NewDefaultHost))) ''nodejs'' =
     Some \<lparr>Plugin = 1, Info = policy\<rparr> \<and>
   ListPlugins (snd (LanguageRuntime callbackEnv ''nodejs'' NewDefaultHost)) = [policy] \<and>
   CallOnPluginLoad policy (Some ''callback refused'') \<in>
     set (newEvents NewDefaultHost (snd (Provider callbackEnv ''aws'' None NewDefaultHost))) \<and>
   fst (Provider callbackEnv ''aws'' None NewDefaultHost) =
     Return (None, Some (Wrapf ''callback refused'' ''failed to perform plugin load callback'')) \<and>
   map_of (resourcePlugins (snd (Provider callbackEnv ''aws'' None NewDefaultHost))) ''aws'' =
     Some \<lparr>Plugin = 1, Info = policy\<rparr> \<and>
   ListPlugins (snd (Provider callbackEnv ''aws'' None NewDefaultHost)) = [policy]"
proof -
  note I = failed_load_is_not_memoized [where env = failingInfoEnv and name = "''policy''"
      and h = NewDefaultHost and runtime = "''nodejs''" and pkg = "''aws''" and v = None,
      unfolded case_prod_beta]
  note F = failed_load_is_not_memoized [where env = configFailsEnv and name = "''policy''"
      and h = NewDefaultHost and runtime = "''nodejs''" and pkg = "''aws''" and v = None,
      unfolded case_prod_beta, THEN conjunct2, THEN conjunct2]
  note G = failed_load_is_not_memoized [where env = configureFailsEnv and name = "''policy''"
      and h = NewDefaultHost and runtime = "''nodejs''" and pkg = "''aws''" and v = None,
      unfolded case_prod_beta, THEN conjunct2, THEN conjunct2]
  note C = failed_load_is_not_memoized [where env = callbackEnv and name = "''policy''"
      and h = NewDefaultHost and runtime = "''nodejs''" and pkg = "''aws''" and v = None,
      unfolded case_prod_beta]
  have i: "CallGetPluginInfo AnalyzerPlugin 1 policy (Some ''plugin info unavailable'') \<in>
      set (newEvents NewDefaultHost (snd (Analyzer failingInfoEnv ''policy'' NewDefaultHost)))"
    "CallGetPluginInfo LanguagePlugin 1 policy (Some ''plugin info unavailable'') \<in>
      set (newEvents NewDefaultHost (snd (LanguageRuntime failingInfoEnv ''nodejs'' NewDefaultHost)))"
    "CallGetPluginInfo ResourcePlugin 1 policy (Some ''plugin info unavailable'') \<in>
      set (newEvents NewDefaultHost (snd (Provider failingInfoEnv ''aws'' None NewDefaultHost)))"
    by (simp_all add: eval_defs)
  have f: "CallGetPackageConfig ''aws'' [] (Some ''no configuration'') \<in>
      set (newEvents NewDefaultHost (snd (Provider configFailsEnv ''aws'' None NewDefaultHost)))"
    by (simp add: eval_defs configFailsEnv_def)
  have g: "CallConfigure 1 [] (Some ''bad credentials'') \<in>
      set (newEvents NewDefaultHost (snd (Provider configureFailsEnv ''aws'' None NewDefaultHost)))"
    by (simp add: eval_defs configureFailsEnv_def)
  have c: "CallOnPluginLoad policy (Some ''callback refused'') \<in>
      set (newEvents NewDefaultHost (snd (Analyzer callbackEnv ''policy'' NewDefaultHost)))"
    "CallOnPluginLoad policy (Some ''callback refused'') \<in>
      set (newEvents NewDefaultHost (snd (LanguageRuntime callbackEnv ''nodejs'' NewDefaultHost)))"
    "CallOnPluginLoad policy (Some ''callback refused'') \<in>
      set (newEvents NewDefaultHost (snd (Provider callbackEnv ''aws'' None NewDefaultHost)))"
    by (simp_all add: eval_defs)
  have n: "fst (NewAnalyzer callbackEnv (trace NewDefaultHost) ''policy'') = Some 1"
    "fst (NewLanguageRuntime callbackEnv (trace NewDefaultHost) ''nodejs'') = Some 1"
    "fst (NewProvider callbackEnv (trace NewDefaultHost) ''aws'' None) = Some 1"
    by (simp_all add: eval_defs)
  have l: "ListPlugins (NewDefaultHost :: semver host) = []"
    by (simp add: eval_defs)
  note s = failedStep_mem [OF i(1)] failedStep_mem [OF i(2)] failedStep_mem [OF i(3)]
    failedStep_mem [OF f] failedStep_mem [OF g]
  note IA = I [THEN conjunct1, THEN conjunct2]
  note IL = I [THEN conjunct2, THEN conjunct1, THEN conjunct2]
  note IP = I [THEN conjunct2, THEN conjunct2, THEN conjunct2]
  have a1: "fst (Analyzer failingInfoEnv ''policy'' NewDefaultHost) =
      Return (None, Some ''plugin info unavailable'')"
    using IA [THEN conjunct2, THEN conjunct1, rule_format, OF i(1)] .
  have a2: "sameRegistry NewDefaultHost (snd (Analyzer failingInfoEnv ''policy'' NewDefaultHost))"
    using IA [THEN conjunct1, rule_format, OF s(1) [simplified]] by simp
  have l1: "fst (LanguageRuntime failingInfoEnv ''nodejs'' NewDefaultHost) =
      Return (None, Some ''plugin info unavailable'')"
    using IL [THEN conjunct2, THEN conjunct1, rule_format, OF i(2)] .
  have l2: "sameRegistry NewDefaultHost (snd (LanguageRuntime failingInfoEnv ''nodejs'' NewDefaultHost))"
    using IL [THEN conjunct1, rule_format, OF s(2) [simplified]] by simp
  have p1: "fst (Provider failingInfoEnv ''aws'' None NewDefaultHost) =
      Return (None, Some ''plugin info unavailable'')"
    using IP [THEN conjunct2, THEN conjunct1, rule_format, OF i(3)] .
  have p2: "sameRegistry NewDefaultHost (snd (Provider failingInfoEnv ''aws'' None NewDefaultHost))"
    using IP [THEN conjunct1, rule_format, OF s(3) [simplified]] by simp
  have f1: "fst (Provider configFailsEnv ''aws'' None NewDefaultHost) =
     Return (None, Some (Wrapf ''no configuration'' (''failed to fetch configuration for pkg '' @
       [CHR 0x27] @ ''aws'' @ [CHR 0x27] @ '' resource provider'')))"
    using F [THEN conjunct2, THEN conjunct2, THEN conjunct2, THEN conjunct1, rule_format, OF f] .
  have f2: "sameRegistry NewDefaultHost (snd (Provider configFailsEnv ''aws'' None NewDefaultHost))"
    using F [THEN conjunct2, THEN conjunct1, rule_format, OF s(4) [simplified]] by simp
  have g1: "fst (Provider configureFailsEnv ''aws'' None NewDefaultHost) =
     Return (None, Some (Wrapf ''bad credentials'' (''failed to configure pkg '' @
       [CHR 0x27] @ ''aws'' @ [CHR 0x27] @ '' resource provider'')))"
    using G [THEN conjunct2, THEN conjunct2, THEN conjunct2, THEN conjunct2, THEN conjunct1,
        rule_format, OF g] .
  have g2: "sameRegistry NewDefaultHost (snd (Provider configureFailsEnv ''aws'' None NewDefaultHost))"
    using G [THEN conjunct2, THEN conjunct1, rule_format, OF s(5) [simplified]] by simp
  note CA = C [THEN conjunct1, THEN conjunct2, THEN conjunct2, THEN conjunct2, rule_format, OF c(1)]
  note CL = C [THEN conjunct2, THEN conjunct1, THEN conjunct2, THEN conjunct2, THEN conjunct2,
      rule_format, OF c(2)]
  note CP = C [THEN conjunct2, THEN conjunct2, THEN conjunct2, THEN conjunct2, THEN conjunct2,
      THEN conjunct2, THEN conjunct2, rule_format, OF c(3)]
  have ca: "map_of (analyzerPlugins (snd (Analyzer callbackEnv ''policy'' NewDefaultHost))) ''policy'' =
      Some \<lparr>Plugin = 1, Info = policy\<rparr>"
    "ListPlugins (snd (Analyzer callbackEnv ''policy'' NewDefaultHost)) = [policy]"
    using CA [THEN conjunct2] n(1) l by auto
  have cl: "map_of (languagePlugins (snd (LanguageRuntime callbackEnv ''nodejs'' NewDefaultHost))) ''nodejs'' =
      Some \<lparr>Plugin = 1, Info = policy\<rparr>"
    "ListPlugins (snd (LanguageRuntime callbackEnv ''nodejs'' NewDefaultHost)) = [policy]"
    using CL [THEN conjunct2] n(2) l by auto
  have cp: "map_of (resourcePlugins (snd (Provider callbackEnv ''aws'' None NewDefaultHost))) ''aws'' =
      Some \<lparr>Plugin = 1, Info = policy\<rparr>"
    "ListPlugins (snd (Provider callbackEnv ''aws'' None NewDefaultHost)) = [policy]"
    using CP [THEN conjunct2] n(3) l by auto
  show ?thesis
    by (intro conjI i f g c a1 a2 l1 l2 p1 p2 f1 f2 g1 g2 ca cl cp
        CA [THEN conjunct1] CL [THEN conjunct1] CP [THEN conjunct1])
qed

text \<open>
  The claim that the child is closed and that nothing is inserted fails. With a failing
  \<open>GetPluginInfo\<close> the whole history of the call is the constructor and \<open>GetPluginInfo\<close>:
  plugin 1 is still running. With a failing callback the analyzer is in the map and in the
  flat list.
\<close>

theorem failed_load_counterexample:
  "fst (Analyzer failingInfoEnv ''policy'' NewDefaultHost) =
     Return (None, Some ''plugin info unavailable'') \<and>
   trace (snd (Analyzer failingInfoEnv ''policy'' NewDefaultHost)) =
     [CallNewAnalyzer ''policy'' (Some 1) None,
      CallGetPluginInfo AnalyzerPlugin 1 policy (Some ''plugin info unavailable'')] \<and>
   fst (Analyzer callbackEnv ''policy'' NewDefaultHost) =
     Return (None, Some ''failed to perform plugin load callback: callback refused'') \<and>
   map_of (analyzerPlugins (snd (Analyzer callbackEnv ''policy'' NewDefaultHost))) ''policy'' =
     Some \<lparr>Plugin = 1, Info = policy\<rparr> \<and>
   ListPlugins (snd (Analyzer callbackEnv ''policy'' NewDefaultHost)) = [policy]"
  by (simp add: eval_defs)

subsection \<open>C6: Close a second time\<close>

text \<open>
  Claim C6. \<open>Close\<close> on a host that has not been closed returns. A second \<open>Close\<close> does
  not return: it finds the three maps empty, so it closes no plugin again and changes
  nothing on the host, and then panics on closing the channel that is already closed.
\<close>

theorem close_once_then_panics:
  assumes "\<not> loadRequestsClosed h"
  shows "(\<exists>err. fst (Close env h) = Return err) \<and>
         Close env (snd (Close env h)) = (Panic ''close of closed channel'', snd (Close env h))"
  using assms by (simp add: Close_open Close_twice)

text \<open>
  A new host, closed twice.
\<close>

theorem close_once_then_panics_witness:
  "\<not> loadRequestsClosed (NewDefaultHost :: semver host) \<and>
   fst (Close (workingEnv (aws 1 5 0)) NewDefaultHost) = Return None \<and>
   Close (workingEnv (aws 1 5 0)) (snd (Close (workingEnv (aws 1 5 0)) NewDefaultHost)) =
     (Panic ''close of closed channel'', snd (Close (workingEnv (aws 1 5 0)) NewDefaultHost))"
proof -
  have o: "\<not> loadRequestsClosed (NewDefaultHost :: semver host)"
    by (simp add: NewDefaultHost_def)
  have "fst (Close (workingEnv (aws 1 5 0)) NewDefaultHost) = Return None"
    by (simp add: eval_defs)
  then show ?thesis
    using o close_once_then_panics [OF o, of "workingEnv (aws 1 5 0)"] by simp
qed

text \<open>
  The claim that the second \<open>Close\<close> completes fails on a host with one provider.
\<close>

theorem close_twice_counterexample:
  "map fst (run (workingEnv (aws 1 5 0)) [ReqProvider ''aws'' None, ReqClose, ReqClose] NewDefaultHost) =
   [Return (RepProvider (Some 1) None), Return (RepClose None), Panic ''close of closed channel'']"
  by (simp add: eval_defs)

subsection \<open>C7: the flat list and the three maps\<close>

text \<open>
  Claim C7. After any sequence of calls on a new host that does not contain \<open>Close\<close>, the
  list \<open>ListPlugins\<close> returns is a permutation of the plugin infos held in the three maps.
  The list only ever grows at its end, whatever is called later, \<open>Close\<close> included:
  \<open>Close\<close> empties the three maps and leaves the list as it is.
\<close>

theorem listPlugins_permutation_until_close:
  assumes "h = after env reqs NewDefaultHost"
  shows "(ReqClose \<notin> set reqs \<longrightarrow> mset (ListPlugins h) = mset (registryInfos h)) \<and>
         (loadRequestsClosed h \<longrightarrow>
            analyzerPlugins h = [] \<and> languagePlugins h = [] \<and> resourcePlugins h = []) \<and>
         prefix (ListPlugins h) (ListPlugins (after env later h)) \<and>
         ListPlugins (snd (Close env h)) = ListPlugins h"
proof -
  have i: "registryInvariant h"
    unfolding assms using registryInvariant_new by (rule after_invariant)
  have "\<not> loadRequestsClosed h" if "ReqClose \<notin> set reqs"
    using after_grows [OF that, of NewDefaultHost env] assms
    by (simp add: grows_def NewDefaultHost_def)
  then show ?thesis
    using i by (auto simp: registryInvariant_def ListPlugins_def after_plugins_prefix Close_state)
qed

text \<open>
  A provider and an analyzer are loaded; then the host is closed.
\<close>

theorem listPlugins_permutation_until_close_witness:
  "ReqClose \<notin> set [ReqProvider ''aws'' None, ReqAnalyzer ''policy''] \<and>
   mset (ListPlugins (after (workingEnv (aws 1 5 0)) [ReqProvider ''aws'' None, ReqAnalyzer ''policy'']
           NewDefaultHost)) =
   mset (registryInfos (after (workingEnv (aws 1 5 0)) [ReqProvider ''aws'' None, ReqAnalyzer ''policy'']
           NewDefaultHost)) \<and>
   ListPlugins (after (workingEnv (aws 1 5 0)) [ReqProvider ''aws'' None, ReqAnalyzer ''policy'']
           NewDefaultHost) = [aws 1 5 0, aws 1 5 0] \<and>
   ListPlugins (snd (Close (workingEnv (aws 1 5 0))
     (after (workingEnv (aws 1 5 0)) [ReqProvider ''aws'' None, ReqAnalyzer ''policy''] NewDefaultHost))) =
     [aws 1 5 0, aws 1 5 0]"
proof -
  have l: "ListPlugins (after (workingEnv (aws 1 5 0)) [ReqProvider ''aws'' None, ReqAnalyzer ''policy'']
           NewDefaultHost) = [aws 1 5 0, aws 1 5 0]"
    by (simp add: eval_defs)
  show ?thesis
    using listPlugins_permutation_until_close [OF refl,
        of "[ReqProvider ''aws'' None, ReqAnalyzer ''policy'']" "workingEnv (aws 1 5 0)" "[]"] l
    by simp
qed

text \<open>
  After \<open>Close\<close> the list is no permutation of the maps: the maps are empty, and the list
  still names the provider that had been loaded.
\<close>

theorem listPlugins_after_close_counterexample:
  "mset (ListPlugins (after (workingEnv (aws 1 5 0)) [ReqProvider ''aws'' None, ReqClose] NewDefaultHost)) \<noteq>
   mset (registryInfos (after (workingEnv (aws 1 5 0)) [ReqProvider ''aws'' None, ReqClose] NewDefaultHost))"
  by (simp add: eval_defs)

subsection \<open>C8: the assertion of GetRequiredPlugins\<close>

text \<open>
  Claim C8. What the code does when the Language bit is not set: the assertion of line 372
  holds exactly when the Resource bit is set. So \<open>GetRequiredPlugins\<close> with Resource and
  without Language passes the assertion and returns the analyzers, and without both bits it
  panics, the opposite of what the message of the assertion says.
\<close>

theorem getRequiredPlugins_assertion:
  assumes "kinds AND LanguagePlugins = 0"
  shows "GetRequiredPlugins env info kinds h =
           (if kinds AND ResourcePlugins \<noteq> 0 then (Return (appendAnalyzers info kinds [], None), h)
            else (Panic ''cannot load resource plugins without also loading the language plugin'', h))"
  using assms by (simp add: GetRequiredPlugins_def)

text \<open>
  With the Resource bit alone the call returns; with the Analyzer bit alone it panics.
\<close>

theorem getRequiredPlugins_assertion_witness:
  "ResourcePlugins AND LanguagePlugins = 0 \<and>
   GetRequiredPlugins (workingEnv (aws 1 5 0)) \<lparr>Runtime = ''nodejs'', Analyzers = Some [''policy-a'']\<rparr>
     ResourcePlugins NewDefaultHost = (Return ([], None), NewDefaultHost) \<and>
   AnalyzerPlugins AND LanguagePlugins = 0 \<and>
   GetRequiredPlugins (workingEnv (aws 1 5 0)) \<lparr>Runtime = ''nodejs'', Analyzers = Some [''policy-a'']\<rparr>
     AnalyzerPlugins NewDefaultHost =
     (Panic ''cannot load resource plugins without also loading the language plugin'', NewDefaultHost)"
proof -
  have a: "ResourcePlugins AND LanguagePlugins = 0" "AnalyzerPlugins AND LanguagePlugins = 0"
    by (simp_all add: ResourcePlugins_def LanguagePlugins_def AnalyzerPlugins_def)
  have b: "ResourcePlugins AND ResourcePlugins \<noteq> 0" "ResourcePlugins AND AnalyzerPlugins = 0"
    "AnalyzerPlugins AND ResourcePlugins = 0"
    by (simp_all add: ResourcePlugins_def LanguagePlugins_def AnalyzerPlugins_def)
  show ?thesis
    using a getRequiredPlugins_assertion [OF a(1), of "workingEnv (aws 1 5 0)"
        "\<lparr>Runtime = ''nodejs'', Analyzers = Some [''policy-a'']\<rparr>" NewDefaultHost]
      getRequiredPlugins_assertion [OF a(2), of "workingEnv (aws 1 5 0)"
        "\<lparr>Runtime = ''nodejs'', Analyzers = Some [''policy-a'']\<rparr>" NewDefaultHost] b
    by (simp add: appendAnalyzers_def)
qed

subsection \<open>C9: how many processes are spawned for one package\<close>




subsection \<open>C10: a nil plugin with a nil error\<close>

text \<open>
  Claim C10. On an open host and a key that is not cached, when the constructor returns a
  nil plugin and a nil error, each of \<open>Analyzer\<close>, \<open>Provider\<close> and \<open>LanguageRuntime\<close>
  returns a nil plugin and a nil error, and the only trace it leaves is the constructor call.
\<close>

theorem nil_plugin_with_nil_error:
  assumes "\<not> loadRequestsClosed h"
  shows "(map_of (analyzerPlugins h) name = None \<and> NewAnalyzer env (trace h) name = (None, None) \<longrightarrow>
            Analyzer env name h = (Return (None, None), emit (CallNewAnalyzer name None None) h)) \<and>
         (map_of (resourcePlugins h) pkg = None \<and> NewProvider env (trace h) pkg v = (None, None) \<longrightarrow>
            Provider env pkg v h = (Return (None, None), emit (CallNewProvider pkg v None None) h)) \<and>
         (map_of (languagePlugins h) runtime = None \<and>
          NewLanguageRuntime env (trace h) runtime = (None, None) \<longrightarrow>
            LanguageRuntime env runtime h =
              (Return (None, None), emit (CallNewLanguageRuntime runtime None None) h))"
  using assms by (simp add: Analyzer_nil Provider_nil LanguageRuntime_nil)

text \<open>
  The three methods in an environment whose constructors find nothing.
\<close>

theorem nil_plugin_with_nil_error_witness:
  "Analyzer nilEnv ''policy'' NewDefaultHost =
     (Return (None, None), emit (CallNewAnalyzer ''policy'' None None) NewDefaultHost) \<and>
   Provider nilEnv ''aws'' None NewDefaultHost =
     (Return (None, None), emit (CallNewProvider ''aws'' None None None) NewDefaultHost) \<and>
   LanguageRuntime nilEnv ''nodejs'' NewDefaultHost =
     (Return (None, None), emit (CallNewLanguageRuntime ''nodejs'' None None) NewDefaultHost)"
proof -
  have o: "\<not> loadRequestsClosed (NewDefaultHost :: semver host)"
    by (simp add: NewDefaultHost_def)
  show ?thesis
    using nil_plugin_with_nil_error [OF o, of "''policy''" nilEnv "''aws''" None "''nodejs''"]
    by (simp add: nilEnv_def workingEnv_def NewDefaultHost_def)
qed

end
